theory Spec2Isabelle
  imports Main "HOL-Library.Sublist" "HOL-Library.Log_Nat"
begin

section \<open>JavaScript values\<close>

text \<open>
  The orchestrator (the \<^verbatim>\<open>server.js\<close> with \<^verbatim>\<open>deriveRotationAlgorithm\<close>) is plain
  JavaScript: request bodies and backend responses are parsed JSON, and the code applies
  \<^verbatim>\<open>===\<close>, \<^verbatim>\<open>||\<close>, \<^verbatim>\<open>??\<close>, \<^verbatim>\<open>isNaN\<close>, \<^verbatim>\<open>></","\<close> and truthiness to
  them. A number is an IEEE double, modelled by the rational it denotes (\<open>-0\<close> and \<open>+0\<close> are
  one value: no operation used here tells them apart). A string is a list of code units,
  each below 256. An object is the list of its own properties.
\<close>

datatype jsnum = NaN | PosInf | NegInf | Fin rat

datatype jsval =
    JUndefined
  | JNull
  | JBool bool
  | JNum jsnum
  | JStr string
  | JArr "jsval list"
  | JObj "(string \<times> jsval) list"

text \<open>A thrown value; only its \<^verbatim>\<open>message\<close> property is ever read.\<close>

datatype js_error = JsError (message: jsval)

definition Error :: "string \<Rightarrow> js_error" where
  "Error msg = JsError (JStr msg)"

text \<open>The \<^verbatim>\<open>TypeError\<close> of a failed conversion or property read; its text is the engine's.\<close>

definition TypeError :: js_error where
  "TypeError = JsError (JStr ''TypeError'')"

fun truthy :: "jsval \<Rightarrow> bool" where
  "truthy JUndefined = False"
| "truthy JNull = False"
| "truthy (JBool b) = b"
| "truthy (JNum NaN) = False"
| "truthy (JNum (Fin r)) = (r \<noteq> 0)"
| "truthy (JNum _) = True"
| "truthy (JStr s) = (s \<noteq> [])"
| "truthy (JArr _) = True"
| "truthy (JObj _) = True"

text \<open>\<^verbatim>\<open>a || b\<close> and \<^verbatim>\<open>a ?? b\<close>.\<close>

definition js_or :: "jsval \<Rightarrow> jsval \<Rightarrow> jsval" where
  "js_or a b = (if truthy a then a else b)"

definition nullish :: "jsval \<Rightarrow> bool" where
  "nullish v = (v = JUndefined \<or> v = JNull)"

definition js_coalesce :: "jsval \<Rightarrow> jsval \<Rightarrow> jsval" where
  "js_coalesce a b = (if nullish a then b else a)"

text \<open>
  \<^verbatim>\<open>v.k\<close> for the property names the code reads (none of them is inherited from a
  prototype): the own property of an object, \<^verbatim>\<open>undefined\<close> on any other value. Reading a
  property of \<^verbatim>\<open>null\<close> or \<^verbatim>\<open>undefined\<close> throws; the callers check \<open>nullish\<close> first.
\<close>

fun field :: "jsval \<Rightarrow> string \<Rightarrow> jsval" where
  "field (JObj kvs) k = (case map_of kvs k of Some v \<Rightarrow> v | None \<Rightarrow> JUndefined)"
| "field _ k = JUndefined"

text \<open>
  \<^verbatim>\<open>a === b\<close>. Two objects or arrays are equal only when they are the same reference; the
  values compared here come from two different parsed responses, so they never are.
\<close>

fun strict_equals :: "jsval \<Rightarrow> jsval \<Rightarrow> bool" where
  "strict_equals JUndefined JUndefined = True"
| "strict_equals JNull JNull = True"
| "strict_equals (JBool a) (JBool b) = (a = b)"
| "strict_equals (JNum NaN) (JNum _) = False"
| "strict_equals (JNum _) (JNum NaN) = False"
| "strict_equals (JNum a) (JNum b) = (a = b)"
| "strict_equals (JStr a) (JStr b) = (a = b)"
| "strict_equals _ _ = False"

subsection \<open>Numbers\<close>

fun is_nan :: "jsnum \<Rightarrow> bool" where
  "is_nan NaN = True"
| "is_nan _ = False"

fun num_less :: "jsnum \<Rightarrow> jsnum \<Rightarrow> bool" where
  "num_less (Fin a) (Fin b) = (a < b)"
| "num_less NegInf (Fin _) = True"
| "num_less NegInf PosInf = True"
| "num_less (Fin _) PosInf = True"
| "num_less _ _ = False"

text \<open>\<^verbatim>\<open>a > b\<close> and \<^verbatim>\<open>a <= b\<close> on numbers: both are false as soon as one side is NaN.\<close>

definition num_gt :: "jsnum \<Rightarrow> jsnum \<Rightarrow> bool" where
  "num_gt a b = num_less b a"

definition num_le :: "jsnum \<Rightarrow> jsnum \<Rightarrow> bool" where
  "num_le a b = (\<not> is_nan a \<and> \<not> is_nan b \<and> \<not> num_less b a)"

fun num_neg :: "jsnum \<Rightarrow> jsnum" where
  "num_neg NaN = NaN"
| "num_neg PosInf = NegInf"
| "num_neg NegInf = PosInf"
| "num_neg (Fin r) = Fin (- r)"

subsection \<open>Rounding to a double\<close>

text \<open>
  The value of a numeric string is the nearest double (ties to even), or an infinity
  from \<open>2^1024 - 2^970\<close> on. \<open>ilog2 a\<close> is the binary exponent of a positive \<open>a\<close>; a
  double has 53 significant bits above the exponent \<open>-1022\<close> and a fixed step of
  \<open>2^-1074\<close> below. Only a result with exponent 1023 can reach \<open>2^1024\<close>.
\<close>

definition pow2 :: "int \<Rightarrow> rat" where
  "pow2 e = (if 0 \<le> e then 2 ^ nat e else 1 / 2 ^ nat (- e))"

definition ilog2 :: "rat \<Rightarrow> int" where
  "ilog2 a =
     (if 1 \<le> a then bitlen \<lfloor>a\<rfloor> - 1
      else let k = - bitlen \<lfloor>1 / a\<rfloor> in if pow2 (k + 1) \<le> a then k + 1 else k)"

definition round_half_even :: "rat \<Rightarrow> int" where
  "round_half_even x =
     (let f = \<lfloor>x\<rfloor>; d = x - of_int f
      in if d < 1 / 2 then f else if 1 / 2 < d then f + 1 else if even f then f else f + 1)"

definition round_double :: "rat \<Rightarrow> jsnum" where
  "round_double x =
     (if x = 0 then Fin 0
      else let a = \<bar>x\<bar>; e = max (ilog2 a) (- 1022); q = pow2 (e - 52);
               r = of_int (round_half_even (a / q)) * q;
               y = (if x < 0 then - r else r)
           in if e < 1023 then Fin y
              else if pow2 1024 \<le> r then (if x < 0 then NegInf else PosInf)
              else Fin y)"

subsection \<open>Strings to numbers\<close>

text \<open>White space and line terminators, among the code units below 256.\<close>

definition is_ws :: "char \<Rightarrow> bool" where
  "is_ws c = (c \<in> set [CHR 0x09, CHR 0x0A, CHR 0x0B, CHR 0x0C, CHR 0x0D, CHR 0x20, CHR 0xA0])"

definition trim :: "string \<Rightarrow> string" where
  "trim s = rev (dropWhile is_ws (rev (dropWhile is_ws s)))"

definition is_digit :: "char \<Rightarrow> bool" where
  "is_digit c = (48 \<le> (of_char c :: nat) \<and> (of_char c :: nat) \<le> 57)"

definition is_hex_digit :: "char \<Rightarrow> bool" where
  "is_hex_digit c =
     (let n = (of_char c :: nat)
      in 48 \<le> n \<and> n \<le> 57 \<or> 97 \<le> n \<and> n \<le> 102 \<or> 65 \<le> n \<and> n \<le> 70)"

definition digit_of :: "char \<Rightarrow> nat" where
  "digit_of c =
     (let n = (of_char c :: nat)
      in if n \<le> 57 then n - 48 else if 97 \<le> n then n - 87 else n - 55)"

definition digits_val :: "nat \<Rightarrow> string \<Rightarrow> nat" where
  "digits_val b ds = foldl (\<lambda>a c. a * b + digit_of c) 0 ds"

definition pow10 :: "int \<Rightarrow> rat" where
  "pow10 e = (if 0 \<le> e then 10 ^ nat e else 1 / 10 ^ nat (- e))"

text \<open>The optional exponent part that ends a decimal literal.\<close>

definition unsigned_digits :: "string \<Rightarrow> int option" where
  "unsigned_digits ds =
     (if ds \<noteq> [] \<and> list_all is_digit ds then Some (int (digits_val 10 ds)) else None)"

fun parse_exponent :: "string \<Rightarrow> int option" where
  "parse_exponent [] = Some 0"
| "parse_exponent (c # r) =
     (if c = CHR ''e'' \<or> c = CHR ''E'' then
        (case r of
           [] \<Rightarrow> None
         | s # ds \<Rightarrow>
             if s = CHR ''+'' then unsigned_digits ds
             else if s = CHR ''-'' then map_option uminus (unsigned_digits ds)
             else unsigned_digits r)
      else None)"

definition decimal_value :: "string \<Rightarrow> string \<Rightarrow> int \<Rightarrow> jsnum" where
  "decimal_value ip fp e =
     round_double ((of_nat (digits_val 10 ip) + of_nat (digits_val 10 fp) / 10 ^ length fp)
                   * pow10 e)"

definition parse_unsigned_decimal :: "string \<Rightarrow> jsnum" where
  "parse_unsigned_decimal s =
     (if s = ''Infinity'' then PosInf
      else let ip = takeWhile is_digit s; r = dropWhile is_digit s
           in case r of
                [] \<Rightarrow> if ip = [] then NaN else decimal_value ip [] 0
              | c # r1 \<Rightarrow>
                  if c = CHR ''.'' then
                    (let fp = takeWhile is_digit r1; r2 = dropWhile is_digit r1
                     in if ip = [] \<and> fp = [] then NaN
                        else (case parse_exponent r2 of
                                None \<Rightarrow> NaN
                              | Some e \<Rightarrow> decimal_value ip fp e))
                  else if ip = [] then NaN
                  else (case parse_exponent r of
                          None \<Rightarrow> NaN
                        | Some e \<Rightarrow> decimal_value ip [] e))"

text \<open>\<^verbatim>\<open>0x\<close>, \<^verbatim>\<open>0o\<close> and \<^verbatim>\<open>0b\<close> literals (no sign allowed).\<close>

definition parse_non_decimal :: "string \<Rightarrow> jsnum option" where
  "parse_non_decimal s =
     (case s of
        z # x # ds \<Rightarrow>
          if z = CHR ''0'' \<and> ds \<noteq> [] then
            (if (x = CHR ''x'' \<or> x = CHR ''X'') \<and> list_all is_hex_digit ds
               then Some (round_double (of_nat (digits_val 16 ds)))
             else if (x = CHR ''o'' \<or> x = CHR ''O'')
                     \<and> list_all (\<lambda>c. is_digit c \<and> digit_of c < 8) ds
               then Some (round_double (of_nat (digits_val 8 ds)))
             else if (x = CHR ''b'' \<or> x = CHR ''B'')
                     \<and> list_all (\<lambda>c. is_digit c \<and> digit_of c < 2) ds
               then Some (round_double (of_nat (digits_val 2 ds)))
             else None)
          else None
      | _ \<Rightarrow> None)"

text \<open>\<^verbatim>\<open>Number(s)\<close> for a string \<open>s\<close>: the empty or blank string is 0, a malformed one NaN.\<close>

definition str_to_number :: "string \<Rightarrow> jsnum" where
  "str_to_number s =
     (let t = trim s
      in case t of
           [] \<Rightarrow> Fin 0
         | c # r \<Rightarrow>
             (case parse_non_decimal t of
                Some n \<Rightarrow> n
              | None \<Rightarrow>
                  if c = CHR ''+'' then parse_unsigned_decimal r
                  else if c = CHR ''-'' then num_neg (parse_unsigned_decimal r)
                  else parse_unsigned_decimal t))"

subsection \<open>Values to numbers\<close>

text \<open>
  Converting an object to a primitive calls its \<^verbatim>\<open>toString\<close>; a parsed JSON object that
  has an own (hence not callable) \<^verbatim>\<open>toString\<close> property cannot be converted, nor can an
  array that holds one, and the conversion throws a \<^verbatim>\<open>TypeError\<close>.
\<close>

fun unconvertible :: "jsval \<Rightarrow> bool" where
  "unconvertible (JObj kvs) = (''toString'' \<in> fst ` set kvs)"
| "unconvertible (JArr xs) = list_ex unconvertible xs"
| "unconvertible _ = False"

text \<open>
  \<^verbatim>\<open>Number(v)\<close>, the coercion behind \<^verbatim>\<open>isNaN(v)\<close>, \<^verbatim>\<open>v > 0\<close> and \<^verbatim>\<open>v <= 1024\<close>. A
  plain object reads \<^verbatim>\<open>[object Object]\<close>, which is NaN. An array is joined with commas
  first: the empty array reads as the empty string, an array of one element as that
  element's string (empty for \<^verbatim>\<open>null\<close> and \<^verbatim>\<open>undefined\<close>; a number's string denotes
  the number itself), and a longer one contains a comma, which no numeric string does.
\<close>

fun to_number :: "jsval \<Rightarrow> js_error + jsnum" where
  "to_number JUndefined = Inr NaN"
| "to_number JNull = Inr (Fin 0)"
| "to_number (JBool b) = Inr (Fin (if b then 1 else 0))"
| "to_number (JNum n) = Inr n"
| "to_number (JStr s) = Inr (str_to_number s)"
| "to_number (JObj kvs) = (if unconvertible (JObj kvs) then Inl TypeError else Inr NaN)"
| "to_number (JArr []) = Inr (Fin 0)"
| "to_number (JArr [x]) =
     (if unconvertible x then Inl TypeError
      else case x of
             JUndefined \<Rightarrow> Inr (Fin 0)
           | JBool b \<Rightarrow> Inr NaN
           | _ \<Rightarrow> to_number x)"
| "to_number (JArr (x # y # zs)) =
     (if unconvertible (JArr (x # y # zs)) then Inl TypeError else Inr NaN)"

section \<open>Scheme selection\<close>

datatype scheme = Dilithium | Falcon

fun scheme_name :: "scheme \<Rightarrow> string" where
  "scheme_name Dilithium = ''dilithium''"
| "scheme_name Falcon = ''falcon''"

text \<open>
  The policy of \<^verbatim>\<open>selectSigScheme\<close> once the two reachability flags \<open>dReach\<close> and
  \<open>fReach\<close> are known (steps 2 to 5 of the function).
\<close>

definition selectSigScheme_policy :: "jsval \<Rightarrow> jsval \<Rightarrow> bool \<Rightarrow> bool \<Rightarrow> js_error + scheme" where
  "selectSigScheme_policy payloadHintBytes policyPreferredSig dReach fReach =
     (if policyPreferredSig = JStr ''falcon'' \<and> fReach then Inr Falcon
      else if policyPreferredSig = JStr ''dilithium'' \<and> dReach then Inr Dilithium
      else case to_number payloadHintBytes of
             Inl e \<Rightarrow> Inl e
           | Inr n \<Rightarrow>
               if (\<not> is_nan n \<and> num_gt n (Fin 0)) \<and> (num_le n (Fin 1024) \<and> fReach)
                 then Inr Falcon
               else if dReach then Inr Dilithium
               else if fReach then Inr Falcon
               else Inl (Error ''No signature service reachable''))"

text \<open>
  The \<^verbatim>\<open>reason\<close> of the result: \<open>Policy v\<close> is the string \<^verbatim>\<open>policy:\<close> followed by
  \<^verbatim>\<open>String(v)\<close>, the other two are the strings \<^verbatim>\<open>payload_tight\<close> and
  \<^verbatim>\<open>default_or_health\<close>.
\<close>

datatype reason = Policy jsval | PayloadTight | DefaultOrHealth

text \<open>
  The \<^verbatim>\<open>reason\<close> expression of the result object. The template literal converts the
  preference to a string and \<^verbatim>\<open><=\<close> converts the hint to a number; either may throw.
\<close>

definition reason_of :: "jsval \<Rightarrow> jsval \<Rightarrow> js_error + reason" where
  "reason_of payloadHintBytes policyPreferredSig =
     (if truthy policyPreferredSig then
        (if unconvertible policyPreferredSig then Inl TypeError
         else Inr (Policy policyPreferredSig))
      else if truthy payloadHintBytes then
        (case to_number payloadHintBytes of
           Inl e \<Rightarrow> Inl e
         | Inr n \<Rightarrow> Inr (if num_le n (Fin 1024) then PayloadTight else DefaultOrHealth))
      else Inr DefaultOrHealth)"

section \<open>The rotation algorithm identifier\<close>

definition toLowerCase_char :: "char \<Rightarrow> char" where
  "toLowerCase_char c =
     (let n = (of_char c :: nat)
      in if 65 \<le> n \<and> n \<le> 90 \<or> 192 \<le> n \<and> n \<le> 222 \<and> n \<noteq> 215
         then char_of (n + 32) else c)"

definition toLowerCase :: "string \<Rightarrow> string" where
  "toLowerCase s = map toLowerCase_char s"

text \<open>\<^verbatim>\<open>s.includes(p)\<close>.\<close>

fun js_includes :: "string \<Rightarrow> string \<Rightarrow> bool" where
  "js_includes [] p = (p = [])"
| "js_includes (c # cs) p = (prefix p (c # cs) \<or> js_includes cs p)"

definition is_level_digit :: "char \<Rightarrow> bool" where
  "is_level_digit c = (c \<in> set ''12345'')"

text \<open>
  The regular expression \<^verbatim>\<open>(falcon|dilithium)[-_ ]?l?([1-5])\<close> tried at the start of a
  string. The three character classes after the name are disjoint, so an optional
  character is taken whenever it is there and nothing is ever given back.
\<close>

definition leading_name :: "string \<Rightarrow> string option" where
  "leading_name s = (if prefix ''falcon'' s then Some ''falcon''
                     else if prefix ''dilithium'' s then Some ''dilithium'' else None)"

fun skip_optional :: "(char \<Rightarrow> bool) \<Rightarrow> string \<Rightarrow> string" where
  "skip_optional P [] = []"
| "skip_optional P (c # r) = (if P c then r else c # r)"

definition is_separator :: "char \<Rightarrow> bool" where
  "is_separator c = (c \<in> set ''-_ '')"

definition match_explicit_here :: "string \<Rightarrow> (string \<times> char) option" where
  "match_explicit_here s =
     (case leading_name s of
        None \<Rightarrow> None
      | Some nm \<Rightarrow>
          (case skip_optional (\<lambda>c. c = CHR ''l'')
                  (skip_optional is_separator (drop (length nm) s)) of
             [] \<Rightarrow> None
           | d # rest \<Rightarrow> if is_level_digit d then Some (nm, d) else None))"

text \<open>\<^verbatim>\<open>s.match(...)\<close>: the leftmost position where the expression matches.\<close>

fun match_explicit :: "string \<Rightarrow> (string \<times> char) option" where
  "match_explicit [] = None"
| "match_explicit (c # cs) =
     (case match_explicit_here (c # cs) of
        Some m \<Rightarrow> Some m
      | None \<Rightarrow> match_explicit cs)"

text \<open>\<^verbatim>\<open>Math.round\<close>: the nearest integer, a half rounded up.\<close>

definition Math_round :: "rat \<Rightarrow> int" where
  "Math_round x = \<lfloor>x + 1 / 2\<rfloor>"

definition decimal_digit :: "int \<Rightarrow> string" where
  "decimal_digit n = [''0123456789'' ! nat n]"

definition deriveRotationAlgorithm :: "scheme \<Rightarrow> jsval \<Rightarrow> string" where
  "deriveRotationAlgorithm sch levelHint =
     (let defaultAlg = (if sch = Dilithium then ''dilithium-l3'' else ''falcon-l5'')
      in case levelHint of
           JNum (Fin x) \<Rightarrow>
             (let lvl = min 5 (max 1 (Math_round x))
              in scheme_name sch @ ''-l'' @ decimal_digit lvl)
         | JStr s \<Rightarrow>
             (let normalized = toLowerCase (trim s)
              in case match_explicit normalized of
                   Some (nm, d) \<Rightarrow> nm @ ''-l'' @ [d]
                 | None \<Rightarrow>
                     (case find is_level_digit normalized of
                        Some d \<Rightarrow> scheme_name sch @ ''-l'' @ [d]
                      | None \<Rightarrow> defaultAlg))
         | _ \<Rightarrow> defaultAlg)"

section \<open>Recognising a verification failure\<close>

definition isSignatureVerificationError :: "js_error \<Rightarrow> bool" where
  "isSignatureVerificationError err =
     (let msg = (case message err of JStr m \<Rightarrow> toLowerCase m | _ \<Rightarrow> [])
      in js_includes msg ''signature_verification_failed''
         \<or> js_includes msg ''signature verification failed''
         \<or> js_includes msg ''signature mismatch''
         \<or> js_includes msg ''invalid signature'')"

section \<open>The network\<close>

text \<open>
  Everything the orchestrator learns comes from outbound calls. The backends are a
  state \<open>'w\<close> of the world and four answering functions; an answer may depend on all
  earlier calls, since every call returns a new state. The requests made are recorded
  in the order they are sent. Where two requests are in flight at once, \<open>net_first\<close>
  says whether the first of them is answered before the second. \<^verbatim>\<open>getJSON\<close> and
  \<^verbatim>\<open>postJSON\<close> answer with the parsed body of an ok response, or throw (a response that
  is not ok, a transport error, the abort after the timeout);
  \<^verbatim>\<open>fetch(url).then(r => r.json())\<close> likewise. Logging is not modelled.
\<close>

datatype request =
    Fetch string
  | GetJSON string
  | PostJSON string jsval
  | FetchJSON string

text \<open>
  What \<^verbatim>\<open>withTimeout(fetch(url), 1500)\<close> settles to: a response with its status code,
  a rejection (transport error, malformed response), or the timer winning the race.
\<close>

datatype fetch_outcome = Response nat | Rejected | TimedOut

record 'w net =
  net_fetch :: "'w \<Rightarrow> string \<Rightarrow> fetch_outcome \<times> 'w"
  net_getJSON :: "'w \<Rightarrow> string \<Rightarrow> (js_error + jsval) \<times> 'w"
  net_postJSON :: "'w \<Rightarrow> string \<Rightarrow> jsval \<Rightarrow> (js_error + jsval) \<times> 'w"
  net_fetchJSON :: "'w \<Rightarrow> string \<Rightarrow> (js_error + jsval) \<times> 'w"
  net_first :: "'w \<Rightarrow> string \<Rightarrow> string \<Rightarrow> bool"

type_synonym 'w state = "'w \<times> request list"

type_synonym ('w, 'a) io = "'w state \<Rightarrow> (js_error + 'a) \<times> 'w state"

definition io_return :: "'a \<Rightarrow> ('w, 'a) io" where
  "io_return x = (\<lambda>s. (Inr x, s))"

definition io_throw :: "js_error \<Rightarrow> ('w, 'a) io" where
  "io_throw e = (\<lambda>s. (Inl e, s))"

definition io_of :: "js_error + 'a \<Rightarrow> ('w, 'a) io" where
  "io_of r = (\<lambda>s. (r, s))"

definition io_lift :: "('w state \<Rightarrow> 'a \<times> 'w state) \<Rightarrow> ('w, 'a) io" where
  "io_lift m = (\<lambda>s. case m s of (x, s') \<Rightarrow> (Inr x, s'))"

definition io_bind :: "('w, 'a) io \<Rightarrow> ('a \<Rightarrow> ('w, 'b) io) \<Rightarrow> ('w, 'b) io" where
  "io_bind m f = (\<lambda>s. case m s of (Inl e, s') \<Rightarrow> (Inl e, s') | (Inr x, s') \<Rightarrow> f x s')"

definition io_catch :: "('w, 'a) io \<Rightarrow> (js_error \<Rightarrow> ('w, 'a) io) \<Rightarrow> ('w, 'a) io" where
  "io_catch m h = (\<lambda>s. case m s of (Inl e, s') \<Rightarrow> h e s' | (Inr x, s') \<Rightarrow> (Inr x, s'))"

definition getJSON :: "'w net \<Rightarrow> string \<Rightarrow> ('w, jsval) io" where
  "getJSON net url = (\<lambda>(w, tr). case net_getJSON net w url of
                        (r, w') \<Rightarrow> (r, (w', tr @ [GetJSON url])))"

definition postJSON :: "'w net \<Rightarrow> string \<Rightarrow> jsval \<Rightarrow> ('w, jsval) io" where
  "postJSON net url body = (\<lambda>(w, tr). case net_postJSON net w url body of
                              (r, w') \<Rightarrow> (r, (w', tr @ [PostJSON url body])))"

definition fetchJSON :: "'w net \<Rightarrow> string \<Rightarrow> ('w, jsval) io" where
  "fetchJSON net url = (\<lambda>(w, tr). case net_fetchJSON net w url of
                          (r, w') \<Rightarrow> (r, (w', tr @ [FetchJSON url])))"

section \<open>Reachability\<close>

text \<open>
  \<^verbatim>\<open>probe\<close>: \<^verbatim>\<open>!!res?.ok || res?.status >= 200\<close> for a response, \<^verbatim>\<open>false\<close> from the
  \<^verbatim>\<open>catch\<close>.
\<close>

definition probe :: "'w net \<Rightarrow> string \<Rightarrow> 'w state \<Rightarrow> bool \<times> 'w state" where
  "probe net base = (\<lambda>(w, tr). case net_fetch net w (base @ ''/health'') of
     (out, w') \<Rightarrow>
       ((case out of
           Response status \<Rightarrow> (200 \<le> status \<and> status \<le> 299) \<or> 200 \<le> status
         | Rejected \<Rightarrow> False
         | TimedOut \<Rightarrow> False),
        (w', tr @ [Fetch (base @ ''/health'')])))"

fun firstReachable :: "'w net \<Rightarrow> string list \<Rightarrow> 'w state \<Rightarrow> string option \<times> 'w state" where
  "firstReachable net [] s = (None, s)"
| "firstReachable net (b # bases) s =
     (case probe net b s of
        (True, s') \<Rightarrow> (Some b, s')
      | (False, s') \<Rightarrow> firstReachable net bases s')"

text \<open>The candidate lists, read once from the environment.\<close>

record config =
  KYBER_BASES :: "string list"
  DILITHIUM_BASES :: "string list"
  FALCON_BASES :: "string list"
  KEYROTATION_BASES :: "string list"

text \<open>Truthiness of what \<^verbatim>\<open>firstReachable\<close> returns (\<^verbatim>\<open>null\<close> or a base).\<close>

fun truthy_base :: "string option \<Rightarrow> bool" where
  "truthy_base None = False"
| "truthy_base (Some b) = (b \<noteq> [])"

text \<open>
  \<^verbatim>\<open>Promise.all([firstReachable(DILITHIUM_BASES), firstReachable(FALCON_BASES)])\<close>: the
  two searches run concurrently. Calling \<^verbatim>\<open>firstReachable\<close> sends the probe of its first
  candidate at once, the first search before the second; a search sends its next probe
  when the one it has in flight is answered false, and ends when one is answered true
  or no candidate is left. With a probe of each search in flight, the network says
  which is answered first.

  \<open>answer\<close> is what a probe in flight comes to and the world after it; \<open>sent\<close> is the
  probe a search sends for the candidates it has left. In \<open>firstReachable_pending\<close> and
  \<open>firstReachable_race\<close> the head of a list is the candidate whose probe is in flight.
\<close>

definition answer :: "'w net \<Rightarrow> string \<Rightarrow> 'w \<Rightarrow> bool \<times> 'w" where
  "answer net base w = (case probe net base (w, []) of (r, (w', tr)) \<Rightarrow> (r, w'))"

fun sent :: "string list \<Rightarrow> request list" where
  "sent [] = []"
| "sent (b # bases) = [Fetch (b @ ''/health'')]"

fun firstReachable_pending ::
  "'w net \<Rightarrow> string list \<Rightarrow> 'w state \<Rightarrow> string option \<times> 'w state" where
  "firstReachable_pending net [] s = (None, s)"
| "firstReachable_pending net (b # bases) (w, tr) =
     (case answer net b w of
        (True, w') \<Rightarrow> (Some b, (w', tr))
      | (False, w') \<Rightarrow> firstReachable_pending net bases (w', tr @ sent bases))"

fun firstReachable_race ::
  "'w net \<Rightarrow> string list \<Rightarrow> string list \<Rightarrow> 'w state
     \<Rightarrow> (string option \<times> string option) \<times> 'w state" where
  "firstReachable_race net (d # ds) (f # fs) (w, tr) =
     (if net_first net w (d @ ''/health'') (f @ ''/health'')
      then (case answer net d w of
              (True, w') \<Rightarrow>
                (case firstReachable_pending net (f # fs) (w', tr) of
                   (fb, s') \<Rightarrow> ((Some d, fb), s'))
            | (False, w') \<Rightarrow> firstReachable_race net ds (f # fs) (w', tr @ sent ds))
      else (case answer net f w of
              (True, w') \<Rightarrow>
                (case firstReachable_pending net (d # ds) (w', tr) of
                   (db, s') \<Rightarrow> ((db, Some f), s'))
            | (False, w') \<Rightarrow> firstReachable_race net (d # ds) fs (w', tr @ sent fs)))"
| "firstReachable_race net [] fs s =
     (case firstReachable_pending net fs s of (fb, s') \<Rightarrow> ((None, fb), s'))"
| "firstReachable_race net ds [] s =
     (case firstReachable_pending net ds s of (db, s') \<Rightarrow> ((db, None), s'))"

definition firstReachable_both ::
  "'w net \<Rightarrow> string list \<Rightarrow> string list \<Rightarrow> 'w state
     \<Rightarrow> (string option \<times> string option) \<times> 'w state" where
  "firstReachable_both net ds fs =
     (\<lambda>(w, tr). firstReachable_race net ds fs (w, tr @ sent ds @ sent fs))"

text \<open>\<^verbatim>\<open>selectSigScheme\<close>; \<^verbatim>\<open>.then(Boolean)\<close> is the truthiness of what a search returns.\<close>

definition selectSigScheme :: "'w net \<Rightarrow> config \<Rightarrow> jsval \<Rightarrow> jsval \<Rightarrow> ('w, scheme) io" where
  "selectSigScheme net cfg payloadHintBytes policyPreferredSig =
     io_bind (io_lift (firstReachable_both net (DILITHIUM_BASES cfg) (FALCON_BASES cfg)))
       (\<lambda>(db, fb).
     io_of (selectSigScheme_policy payloadHintBytes policyPreferredSig
              (truthy_base db) (truthy_base fb)))"

section \<open>The signing strategies\<close>

record signing_context =
  source :: string
  signature :: jsval
  signerPublicKey :: jsval
  signerLevel :: jsval
  signerKid :: jsval
  kyberPublicKey :: jsval
  kyberSecretKey :: jsval
  isCompressed :: jsval

text \<open>What the three strategy closures capture from the handler.\<close>

record ake_env =
  scheme :: scheme
  kyberBase :: string
  sigBase :: string
  initialKyberPublicKey :: jsval
  initialKyberSecretKey :: jsval
  baseServiceSignerPublicKey :: jsval
  baseSignerLevel :: jsval
  baseSignerKid :: jsval
  rotationBase :: "string option"
  rotationAlg :: string

definition signEndpoint :: "scheme \<Rightarrow> string" where
  "signEndpoint sch = (if sch = Dilithium then ''/dilithium/sign'' else ''/falcon/sign'')"

text \<open>\<^verbatim>\<open>v?.k\<close>.\<close>

definition opt_field :: "jsval \<Rightarrow> string \<Rightarrow> jsval" where
  "opt_field v k = (if nullish v then JUndefined else field v k)"

text \<open>\<^verbatim>\<open>typeof v === 'boolean' ? v : undefined\<close>.\<close>

fun boolean_or_undefined :: "jsval \<Rightarrow> jsval" where
  "boolean_or_undefined (JBool b) = JBool b"
| "boolean_or_undefined _ = JUndefined"

text \<open>\<^verbatim>\<open>typeof v === 'string' && v.length > 16\<close>.\<close>

fun long_string :: "jsval \<Rightarrow> bool" where
  "long_string (JStr s) = (16 < length s)"
| "long_string _ = False"

text \<open>\<^verbatim>\<open>encodeURIComponent\<close> on code units below 256 (UTF-8, upper-case hex).\<close>

definition percent :: "nat \<Rightarrow> string" where
  "percent n = [CHR ''%'', ''0123456789ABCDEF'' ! (n div 16), ''0123456789ABCDEF'' ! (n mod 16)]"

definition encode_char :: "char \<Rightarrow> string" where
  "encode_char c =
     (let n = (of_char c :: nat)
      in if 65 \<le> n \<and> n \<le> 90 \<or> 97 \<le> n \<and> n \<le> 122 \<or> 48 \<le> n \<and> n \<le> 57
            \<or> c \<in> set ''-_.!~*()'' \<or> n = 39
         then [c]
         else if n < 128 then percent n
         else percent (192 + n div 64) @ percent (128 + n mod 64))"

definition encodeURIComponent :: "string \<Rightarrow> string" where
  "encodeURIComponent s = concat (map encode_char s)"

definition current_key_url :: "string \<Rightarrow> string \<Rightarrow> string" where
  "current_key_url rb alg = rb @ ''/orchestrator/keys/current?alg='' @ encodeURIComponent alg"

text \<open>
  The rotation strategy. Its outer \<^verbatim>\<open>try\<close> only logs and rethrows. A \<^verbatim>\<open>null\<close> answer of
  the sign call makes the first property read throw.
\<close>

definition rotation_strategy :: "'w net \<Rightarrow> ake_env \<Rightarrow> string \<Rightarrow> ('w, signing_context) io" where
  "rotation_strategy net env rb =
     io_bind
       (io_catch (getJSON net (current_key_url rb (rotationAlg env)))
          (\<lambda>err. io_bind (postJSON net (rb @ ''/keys/rotate'')
                            (JObj [(''alg'', JStr (rotationAlg env)),
                                   (''level'', baseSignerLevel env)]))
                   (\<lambda>rotated. getJSON net (current_key_url rb (rotationAlg env)))))
       (\<lambda>current.
     io_bind
       (postJSON net (rb @ ''/sign'')
          (JObj [(''alg'', JStr (rotationAlg env)),
                 (''level'', baseSignerLevel env),
                 (''messageB64'', initialKyberPublicKey env),
                 (''messageBase64'', initialKyberPublicKey env)]))
       (\<lambda>signResp.
     if nullish signResp then io_throw TypeError
     else
       (let sgn = js_or (field signResp ''signatureB64'')
                   (js_or (field signResp ''signatureBase64'')
                   (js_or (field signResp ''signature'') (field signResp ''sig'')));
            rotPubCandidates = filter long_string
              [field signResp ''signerPublicKey'',
               field signResp ''publicKey'',
               opt_field current ''publicKey'',
               opt_field current ''publicKeyB64'',
               opt_field current ''publicKeyBase64'',
               opt_field current ''signerPublicKey'',
               opt_field current ''falconPublicKey'',
               opt_field current ''dilithiumPublicKey'',
               opt_field current ''pub'',
               opt_field current ''pk'']
        in if \<not> truthy sgn then io_throw (Error ''rotation signing produced no signature'')
           else io_return
             \<lparr> source = ''rotation'',
               signature = sgn,
               signerPublicKey =
                 js_or (case rotPubCandidates of [] \<Rightarrow> JUndefined | c # cs \<Rightarrow> c)
                       (baseServiceSignerPublicKey env),
               signerLevel = baseSignerLevel env,
               signerKid =
                 js_or (field signResp ''kid'')
                 (js_or (field signResp ''keyId'')
                 (js_or (opt_field current ''kid'')
                 (js_or (opt_field current ''keyId'') (baseSignerKid env)))),
               kyberPublicKey = initialKyberPublicKey env,
               kyberSecretKey = initialKyberSecretKey env,
               isCompressed = boolean_or_undefined (field signResp ''isCompressed'') \<rparr>)))"

definition direct_strategy :: "'w net \<Rightarrow> ake_env \<Rightarrow> ('w, signing_context) io" where
  "direct_strategy net env =
     io_bind
       (postJSON net (sigBase env @ signEndpoint (scheme env))
          (JObj [(''messageBase64'', initialKyberPublicKey env),
                 (''messageB64'', initialKyberPublicKey env),
                 (''message'', initialKyberPublicKey env),
                 (''level'', baseSignerLevel env)]))
       (\<lambda>signResp.
     if nullish signResp then io_throw TypeError
     else
       (let sgn = js_or (field signResp ''signature'')
                   (js_or (field signResp ''signatureBase64'')
                   (js_or (field signResp ''sig'') (field signResp ''signatureB64'')))
        in if \<not> truthy sgn then io_throw (Error ''direct signing produced no signature'')
           else io_return
             \<lparr> source = ''direct'',
               signature = sgn,
               signerPublicKey =
                 js_or (field signResp ''signerPublicKey'')
                 (js_or (field signResp ''falconSignerPublicKey'')
                 (js_or (field signResp ''dilithiumSignerPublicKey'')
                 (js_or (field signResp ''publicKey'') (baseServiceSignerPublicKey env)))),
               signerLevel = js_or (field signResp ''level'') (baseSignerLevel env),
               signerKid =
                 js_or (field signResp ''kid'')
                 (js_or (field signResp ''keyId'') (baseSignerKid env)),
               kyberPublicKey = initialKyberPublicKey env,
               kyberSecretKey = initialKyberSecretKey env,
               isCompressed = boolean_or_undefined (field signResp ''isCompressed'') \<rparr>))"

definition bootstrap_strategy :: "'w net \<Rightarrow> ake_env \<Rightarrow> ('w, signing_context) io" where
  "bootstrap_strategy net env =
     io_bind (postJSON net (sigBase env @ ''/orchestrator/bootstrap'') (JObj []))
       (\<lambda>bootstrap.
     if nullish bootstrap then io_throw TypeError
     else
       (let sgn = js_or (field bootstrap ''signature'')
                   (js_or (field bootstrap ''signatureBase64'')
                   (js_or (field bootstrap ''sig'') (field bootstrap ''signatureB64'')))
        in if \<not> truthy sgn then io_throw (Error ''bootstrap produced no signature'')
           else io_return
             \<lparr> source = ''bootstrap'',
               signature = sgn,
               signerPublicKey =
                 js_or (field bootstrap ''signerPublicKey'')
                 (js_or (field bootstrap ''falconSignerPublicKey'')
                 (js_or (field bootstrap ''dilithiumSignerPublicKey'')
                 (js_or (field bootstrap ''publicKey'') (baseServiceSignerPublicKey env)))),
               signerLevel = js_or (field bootstrap ''level'') (baseSignerLevel env),
               signerKid =
                 js_or (field bootstrap ''kid'')
                 (js_or (field bootstrap ''keyId'') (baseSignerKid env)),
               kyberPublicKey =
                 js_or (field bootstrap ''kyberPublicKey'') (initialKyberPublicKey env),
               kyberSecretKey =
                 js_or (field bootstrap ''kyberSecretKey'') (initialKyberSecretKey env),
               isCompressed = boolean_or_undefined (field bootstrap ''isCompressed'') \<rparr>))"

text \<open>\<^verbatim>\<open>signatureStrategies\<close>: rotation only when a rotation backend answered.\<close>

definition signatureStrategies :: "'w net \<Rightarrow> ake_env \<Rightarrow> ('w, signing_context) io list" where
  "signatureStrategies net env =
     (case rotationBase env of
        Some rb \<Rightarrow> if rb \<noteq> [] then [rotation_strategy net env rb] else []
      | None \<Rightarrow> [])
     @ [direct_strategy net env, bootstrap_strategy net env]"

section \<open>The strategy chain\<close>

text \<open>The test that lets a context through to the verify-and-encapsulate call.\<close>

definition complete :: "signing_context \<Rightarrow> bool" where
  "complete ctx = (truthy (signature ctx) \<and> truthy (signerPublicKey ctx)
                   \<and> truthy (kyberPublicKey ctx) \<and> truthy (kyberSecretKey ctx))"

definition encapsulate_url :: "string \<Rightarrow> string" where
  "encapsulate_url sb = sb @ ''/orchestrator/encapsulate-verified''"

definition payload :: "scheme \<Rightarrow> jsval \<Rightarrow> signing_context \<Rightarrow> jsval" where
  "payload sch lvl ctx =
     JObj ([(''kyberPublicKey'', kyberPublicKey ctx),
            (''signature'', signature ctx),
            (''signatureBase64'', signature ctx),
            (''signatureB64'', signature ctx),
            (''signerPublicKey'', signerPublicKey ctx),
            (''falconSignerPublicKey'',
               if sch = Falcon then signerPublicKey ctx else JUndefined),
            (''dilithiumSignerPublicKey'',
               if sch = Dilithium then signerPublicKey ctx else JUndefined),
            (''level'', js_coalesce (signerLevel ctx) lvl),
            (''isCompressed'', isCompressed ctx)]
           @ (if truthy (signerKid ctx)
              then [(''signerKid'', signerKid ctx), (''kid'', signerKid ctx),
                    (''keyId'', signerKid ctx)]
              else []))"

text \<open>
  The \<^verbatim>\<open>for\<close> loop over the strategies. It ends with the three variables
  \<^verbatim>\<open>encapRes\<close>, \<^verbatim>\<open>ctxForDecap\<close> and \<^verbatim>\<open>lastSigError\<close>, or with the error it rethrows.
\<close>

fun strategy_loop ::
  "'w net \<Rightarrow> scheme \<Rightarrow> string \<Rightarrow> jsval \<Rightarrow> ('w, signing_context) io list \<Rightarrow> js_error option
     \<Rightarrow> ('w, jsval \<times> signing_context option \<times> js_error option) io" where
  "strategy_loop net sch sb lvl [] lastSigError s = (Inr (JNull, None, lastSigError), s)"
| "strategy_loop net sch sb lvl (getContext # rest) lastSigError s =
     (case getContext s of
        (Inl err, s1) \<Rightarrow> strategy_loop net sch sb lvl rest lastSigError s1
      | (Inr ctx, s1) \<Rightarrow>
          if \<not> truthy (signature ctx) \<or> \<not> truthy (signerPublicKey ctx)
             \<or> \<not> truthy (kyberPublicKey ctx) \<or> \<not> truthy (kyberSecretKey ctx)
          then strategy_loop net sch sb lvl rest lastSigError s1
          else
            (case postJSON net (encapsulate_url sb) (payload sch lvl ctx) s1 of
               (Inr encapRes, s2) \<Rightarrow> (Inr (encapRes, Some ctx, lastSigError), s2)
             | (Inl err, s2) \<Rightarrow>
                 if isSignatureVerificationError err
                 then strategy_loop net sch sb lvl rest (Some err) s2
                 else (Inl err, s2)))"

section \<open>The handler of \<^verbatim>\<open>POST /select/ake\<close>\<close>

record ake_result =
  status :: string
  schemeSelected :: string
  reason :: reason
  resultSignerLevel :: jsval
  resultSignerKid :: jsval
  ciphertextLen :: jsval
  sharedSecretMatch :: bool

text \<open>
  The reply: the result with HTTP 200, or HTTP 502 with
  \<^verbatim>\<open>{error: 'select_ake_failed', detail}\<close>, the detail being read off the caught error.
\<close>

datatype reply = Reply200 ake_result | Reply502 js_error

text \<open>\<^verbatim>\<open>if (!base) throw new Error(msg)\<close> on what \<^verbatim>\<open>firstReachable\<close> returned.\<close>

fun require_base :: "string option \<Rightarrow> string \<Rightarrow> js_error + string" where
  "require_base None msg = Inl (Error msg)"
| "require_base (Some b) msg = (if b = [] then Inl (Error msg) else Inr b)"

text \<open>
  From the request body to the rotation algorithm identifier: the handler up to, not
  including, the construction of the strategies.
\<close>

definition resolve :: "'w net \<Rightarrow> config \<Rightarrow> jsval \<Rightarrow> ('w, ake_env) io" where
  "resolve net cfg body =
     (let b = js_coalesce body (JObj []);
          payloadHintBytes = field b ''payloadHintBytes'';
          policyPreferredSig = field b ''policyPreferredSig'';
          level = field b ''level''
      in
     io_bind (selectSigScheme net cfg payloadHintBytes policyPreferredSig) (\<lambda>sch.
     io_bind (io_lift (firstReachable net (KYBER_BASES cfg))) (\<lambda>kb.
     io_bind (io_of (require_base kb ''Kyber unreachable'')) (\<lambda>kyberBase'.
     io_bind (io_lift (firstReachable net
                (if sch = Dilithium then DILITHIUM_BASES cfg else FALCON_BASES cfg))) (\<lambda>sb.
     io_bind (io_of (require_base sb (scheme_name sch @ '' unreachable''))) (\<lambda>sigBase'.
     io_bind (postJSON net (kyberBase' @ ''/kyber/generate-keypair'') (JObj [])) (\<lambda>keypair.
     if nullish keypair then io_throw TypeError
     else
     io_bind (fetchJSON net (sigBase' @ ''/orchestrator/signer'')) (\<lambda>signerInfo.
     if nullish signerInfo then io_throw TypeError
     else
     io_bind (io_lift (firstReachable net (KEYROTATION_BASES cfg))) (\<lambda>rb.
     (let lvl = js_coalesce level
                 (js_coalesce (field signerInfo ''level'')
                 (js_coalesce (field signerInfo ''alg'') (field signerInfo ''algorithm'')))
      in io_return
        \<lparr> scheme = sch,
          kyberBase = kyberBase',
          sigBase = sigBase',
          initialKyberPublicKey = field keypair ''publicKey'',
          initialKyberSecretKey = field keypair ''secretKey'',
          baseServiceSignerPublicKey =
            js_or (field signerInfo ''signerPublicKey'')
            (js_or (field signerInfo ''falconSignerPublicKey'')
            (js_or (field signerInfo ''dilithiumSignerPublicKey'')
                   (field signerInfo ''publicKey''))),
          baseSignerLevel = lvl,
          baseSignerKid = js_or (field signerInfo ''kid'') (field signerInfo ''keyId''),
          rotationBase = rb,
          rotationAlg = deriveRotationAlgorithm sch lvl \<rparr>))))))))))"

definition decapsulate_url :: "string \<Rightarrow> string" where
  "decapsulate_url kb = kb @ ''/kyber/decapsulate''"

text \<open>\<^verbatim>\<open>v?.length\<close>.\<close>

fun js_length :: "jsval \<Rightarrow> jsval" where
  "js_length (JStr s) = JNum (Fin (of_nat (length s)))"
| "js_length (JArr xs) = JNum (Fin (of_nat (length xs)))"
| "js_length (JObj kvs) = field (JObj kvs) ''length''"
| "js_length _ = JUndefined"

text \<open>
  After the loop: the exhaustion check, the decapsulation, the comparison of the two
  shared secrets and the result object.
\<close>

definition decapsulate_and_report ::
  "'w net \<Rightarrow> ake_env \<Rightarrow> jsval \<Rightarrow> jsval \<Rightarrow> jsval \<times> signing_context option \<times> js_error option
     \<Rightarrow> ('w, ake_result) io" where
  "decapsulate_and_report net env payloadHintBytes policyPreferredSig vars =
     (case vars of (encapRes, ctxForDecap, lastSigError) \<Rightarrow>
        (case ctxForDecap of
           None \<Rightarrow>
             io_throw (case lastSigError of
                         Some e \<Rightarrow> e
                       | None \<Rightarrow> Error ''No signature strategy succeeded'')
         | Some ctx \<Rightarrow>
             if \<not> truthy encapRes then
               io_throw (case lastSigError of
                           Some e \<Rightarrow> e
                         | None \<Rightarrow> Error ''No signature strategy succeeded'')
             else
               io_bind (postJSON net (decapsulate_url (kyberBase env))
                          (JObj [(''secretKey'', kyberSecretKey ctx),
                                 (''ciphertext'', field encapRes ''ciphertext'')]))
                 (\<lambda>decapRes.
               if nullish decapRes then io_throw TypeError
               else
                 (let same = strict_equals (field encapRes ''sharedSecret'')
                                           (field decapRes ''sharedSecret'')
                  in io_bind (io_of (reason_of payloadHintBytes policyPreferredSig))
                       (\<lambda>rsn. io_return
                          \<lparr> status = (if same then ''ok'' else ''mismatch''),
                            schemeSelected = scheme_name (scheme env),
                            reason = rsn,
                            resultSignerLevel =
                              js_coalesce (signerLevel ctx) (baseSignerLevel env),
                            resultSignerKid =
                              js_coalesce (signerKid ctx) (baseSignerKid env),
                            ciphertextLen =
                              js_coalesce
                                (if nullish (field encapRes ''ciphertext'') then JUndefined
                                 else js_length (field encapRes ''ciphertext''))
                                (JNum (Fin 0)),
                            sharedSecretMatch = same \<rparr>)))))"

text \<open>The body of the handler's \<^verbatim>\<open>try\<close>.\<close>

definition select_ake_try :: "'w net \<Rightarrow> config \<Rightarrow> jsval \<Rightarrow> ('w, ake_result) io" where
  "select_ake_try net cfg body =
     (let b = js_coalesce body (JObj [])
      in io_bind (resolve net cfg body) (\<lambda>env.
         io_bind (strategy_loop net (scheme env) (sigBase env) (baseSignerLevel env)
                    (signatureStrategies net env) None)
           (decapsulate_and_report net env
              (field b ''payloadHintBytes'') (field b ''policyPreferredSig''))))"

text \<open>The handler: whatever is thrown inside becomes the 502 reply.\<close>

definition select_ake :: "'w net \<Rightarrow> config \<Rightarrow> jsval \<Rightarrow> 'w state \<Rightarrow> reply \<times> 'w state" where
  "select_ake net cfg body s =
     (case select_ake_try net cfg body s of
        (Inr res, s') \<Rightarrow> (Reply200 res, s')
      | (Inl e, s') \<Rightarrow> (Reply502 e, s'))"

section \<open>Reference definitions\<close>

text \<open>\<^verbatim>\<open>typeof v === 'number'\<close>.\<close>

fun typeof_number :: "jsval \<Rightarrow> bool" where
  "typeof_number (JNum n) = True"
| "typeof_number _ = False"

text \<open>
  The payload rule as the specification words it: the hint is a number, greater than 0
  and at most 1024.
\<close>

definition number_hint_tight :: "jsval \<Rightarrow> bool" where
  "number_hint_tight h =
     (case h of JNum n \<Rightarrow> num_gt n (Fin 0) \<and> num_le n (Fin 1024) | _ \<Rightarrow> False)"

text \<open>The decision order of the specification, with that reading of the payload rule.\<close>

definition selection_as_claimed :: "jsval \<Rightarrow> jsval \<Rightarrow> bool \<Rightarrow> bool \<Rightarrow> js_error + scheme" where
  "selection_as_claimed h p dReach fReach =
     (if p = JStr ''falcon'' \<and> fReach then Inr Falcon
      else if p = JStr ''dilithium'' \<and> dReach then Inr Dilithium
      else if number_hint_tight h \<and> fReach then Inr Falcon
      else if dReach then Inr Dilithium
      else if fReach then Inr Falcon
      else Inl (Error ''No signature service reachable''))"

text \<open>The payload rule as the code applies it: on the number the hint coerces to.\<close>

definition payload_tight :: "jsval \<Rightarrow> bool" where
  "payload_tight h = (case to_number h of Inr (Fin r) \<Rightarrow> 0 < r \<and> r \<le> 1024 | _ \<Rightarrow> False)"

text \<open>The preference names a backend that is reachable.\<close>

definition preferred_reachable :: "jsval \<Rightarrow> bool \<Rightarrow> bool \<Rightarrow> bool" where
  "preferred_reachable p dReach fReach =
     (p = JStr ''falcon'' \<and> fReach \<or> p = JStr ''dilithium'' \<and> dReach)"

text \<open>
  Probing a list of candidates one after the other, whatever the answers: every probe
  fails, and the state this leaves behind.
\<close>

fun all_fail :: "'w net \<Rightarrow> string list \<Rightarrow> 'w state \<Rightarrow> bool" where
  "all_fail net [] s = True"
| "all_fail net (b # bases) s =
     (\<not> fst (probe net b s) \<and> all_fail net bases (snd (probe net b s)))"

fun after_probes :: "'w net \<Rightarrow> string list \<Rightarrow> 'w state \<Rightarrow> 'w state" where
  "after_probes net [] s = s"
| "after_probes net (b # bases) s = after_probes net bases (snd (probe net b s))"

definition health_probe :: "string \<Rightarrow> request" where
  "health_probe b = Fetch (b @ ''/health'')"

section \<open>A sample deployment\<close>

text \<open>
  One candidate address per backend: \<^verbatim>\<open>k\<close> (Kyber), \<^verbatim>\<open>d\<close> (Dilithium), \<^verbatim>\<open>f\<close>
  (Falcon) and \<^verbatim>\<open>r\<close> (rotation, never up). The state of the world says which backends
  answer, whether the signature backend accepts a signature made by its own sign
  endpoint, whether bootstrap hands out its secret key, and whether decapsulation
  recovers the encapsulated secret. Falcon answers its health check with status 503.
  Of two probes in flight the one sent first is answered first.
\<close>

record world =
  kyber_up :: bool
  dilithium_up :: bool
  falcon_up :: bool
  accepts_direct :: bool
  bootstrap_gives_secret :: bool
  decapsulation_agrees :: bool

definition sample_config :: config where
  "sample_config = \<lparr> KYBER_BASES = [''k''], DILITHIUM_BASES = [''d''],
                      FALCON_BASES = [''f''], KEYROTATION_BASES = [''r''] \<rparr>"

definition sample_fetch :: "world \<Rightarrow> string \<Rightarrow> fetch_outcome \<times> world" where
  "sample_fetch w url =
     (if url = ''k/health'' \<and> kyber_up w then Response 200
      else if url = ''d/health'' \<and> dilithium_up w then Response 200
      else if url = ''f/health'' \<and> falcon_up w then Response 503
      else if url = ''r/health'' then TimedOut
      else Rejected, w)"

definition sample_post :: "world \<Rightarrow> string \<Rightarrow> jsval \<Rightarrow> (js_error + jsval) \<times> world" where
  "sample_post w url body =
     (if url = ''k/kyber/generate-keypair''
        then Inr (JObj [(''publicKey'', JStr ''PK0''), (''secretKey'', JStr ''SK0'')])
      else if url = ''d/dilithium/sign'' \<or> url = ''f/falcon/sign''
        then Inr (JObj [(''signature'', JStr ''SIG-DIRECT'')])
      else if url = ''d/orchestrator/bootstrap'' \<or> url = ''f/orchestrator/bootstrap''
        then Inr (JObj ([(''signature'', JStr ''SIG-BOOT''),
                         (''kyberPublicKey'', JStr ''PK1'')]
                        @ (if bootstrap_gives_secret w
                           then [(''kyberSecretKey'', JStr ''SK1'')] else [])))
      else if url = ''d/orchestrator/encapsulate-verified''
              \<or> url = ''f/orchestrator/encapsulate-verified''
        then (if field body ''signature'' = JStr ''SIG-DIRECT'' \<and> \<not> accepts_direct w
              then Inl (Error ''Invalid signature over Kyber public key'')
              else Inr (JObj [(''ciphertext'', JStr ''CT''), (''sharedSecret'', JStr ''SS'')]))
      else if url = ''k/kyber/decapsulate''
        then Inr (JObj [(''sharedSecret'',
                         JStr (if decapsulation_agrees w then ''SS'' else ''XX''))])
      else Inl (Error ''no route''), w)"

definition sample_net :: "world net" where
  "sample_net =
     \<lparr> net_fetch = sample_fetch,
       net_getJSON = (\<lambda>w url. (Inl (Error ''no route''), w)),
       net_postJSON = sample_post,
       net_fetchJSON = (\<lambda>w url.
         (Inr (JObj [(''signerPublicKey'', JStr ''SPK''), (''level'', JStr ''L5'')]), w)),
       net_first = (\<lambda>w url url'. True) \<rparr>"

text \<open>Everything up and well behaved.\<close>

definition healthy :: world where
  "healthy = \<lparr> kyber_up = True, dilithium_up = True, falcon_up = True,
               accepts_direct = True, bootstrap_gives_secret = True,
               decapsulation_agrees = True \<rparr>"

text \<open>The default identifier of a scheme, and what counts as an identifier.\<close>

definition default_algorithm :: "scheme \<Rightarrow> string" where
  "default_algorithm sch = (if sch = Dilithium then ''dilithium-l3'' else ''falcon-l5'')"

definition algorithm_id :: "string \<Rightarrow> char \<Rightarrow> string" where
  "algorithm_id nm d = nm @ ''-l'' @ [d]"

text \<open>
  A string holds an explicit scheme and level: somewhere in it stands \<^verbatim>\<open>falcon\<close> or
  \<^verbatim>\<open>dilithium\<close>, then at most one of \<^verbatim>\<open>-\<close>, \<^verbatim>\<open>_\<close> and the space, then at most one
  \<^verbatim>\<open>l\<close>, then a digit from 1 to 5.
\<close>

definition holds_explicit_level :: "string \<Rightarrow> bool" where
  "holds_explicit_level t =
     (\<exists>u nm sep l d v. t = u @ nm @ sep @ l @ [d] @ v
        \<and> (nm = ''falcon'' \<or> nm = ''dilithium'')
        \<and> (sep = [] \<or> (\<exists>c. sep = [c] \<and> is_separator c))
        \<and> (l = [] \<or> l = ''l'') \<and> is_level_digit d)"

text \<open>
  What one strategy attempt comes to, in the words of the specification: the strategy
  is skipped (no context, or an incomplete one), its context is rejected by a
  verification failure, it is verified, or the call fails otherwise.
\<close>

datatype 'w attempt =
    Skipped "'w state"
  | Rejected_by_verification js_error "'w state"
  | Verified jsval signing_context "'w state"
  | Fatal js_error "'w state"

definition attempt ::
  "'w net \<Rightarrow> scheme \<Rightarrow> string \<Rightarrow> jsval \<Rightarrow> ('w, signing_context) io \<Rightarrow> 'w state \<Rightarrow> 'w attempt" where
  "attempt net sch sb lvl getContext s =
     (case getContext s of
        (Inl e, s1) \<Rightarrow> Skipped s1
      | (Inr ctx, s1) \<Rightarrow>
          if \<not> complete ctx then Skipped s1
          else (case postJSON net (encapsulate_url sb) (payload sch lvl ctx) s1 of
                  (Inr encapRes, s2) \<Rightarrow> Verified encapRes ctx s2
                | (Inl err, s2) \<Rightarrow>
                    if isSignatureVerificationError err
                    then Rejected_by_verification err s2 else Fatal err s2))"

text \<open>Every strategy of the list is attempted, and each is skipped or rejected.\<close>

fun exhausted ::
  "'w net \<Rightarrow> scheme \<Rightarrow> string \<Rightarrow> jsval \<Rightarrow> ('w, signing_context) io list \<Rightarrow> 'w state \<Rightarrow> bool" where
  "exhausted net sch sb lvl [] s = True"
| "exhausted net sch sb lvl (g # rest) s =
     (case attempt net sch sb lvl g s of
        Skipped s1 \<Rightarrow> exhausted net sch sb lvl rest s1
      | Rejected_by_verification err s2 \<Rightarrow> exhausted net sch sb lvl rest s2
      | Verified encapRes ctx s2 \<Rightarrow> False
      | Fatal err s2 \<Rightarrow> False)"

text \<open>The bodies posted to the verify-and-encapsulate endpoint of \<open>sb\<close>, in order.\<close>

fun encapsulations :: "string \<Rightarrow> request list \<Rightarrow> jsval list" where
  "encapsulations sb [] = []"
| "encapsulations sb (PostJSON url body # tr) =
     (if url = encapsulate_url sb then body # encapsulations sb tr else encapsulations sb tr)"
| "encapsulations sb (q # tr) = encapsulations sb tr"

text \<open>A strategy that never posts to that endpoint itself.\<close>

definition leaves_encapsulations :: "string \<Rightarrow> ('w, signing_context) io \<Rightarrow> bool" where
  "leaves_encapsulations sb g =
     (\<forall>s. encapsulations sb (snd (snd (g s))) = encapsulations sb (snd s))"

text \<open>
  What the handler has resolved in that deployment when it selected Dilithium, and the
  contexts the direct and the bootstrap strategy build there.
\<close>

definition sample_env :: ake_env where
  "sample_env =
     \<lparr> scheme = Dilithium, kyberBase = ''k'', sigBase = ''d'',
       initialKyberPublicKey = JStr ''PK0'', initialKyberSecretKey = JStr ''SK0'',
       baseServiceSignerPublicKey = JStr ''SPK'', baseSignerLevel = JStr ''L5'',
       baseSignerKid = JUndefined, rotationBase = None, rotationAlg = ''dilithium-l5'' \<rparr>"

definition direct_context :: signing_context where
  "direct_context =
     \<lparr> source = ''direct'', signature = JStr ''SIG-DIRECT'', signerPublicKey = JStr ''SPK'',
       signerLevel = JStr ''L5'', signerKid = JUndefined,
       kyberPublicKey = JStr ''PK0'', kyberSecretKey = JStr ''SK0'',
       isCompressed = JUndefined \<rparr>"

definition bootstrap_context :: signing_context where
  "bootstrap_context =
     \<lparr> source = ''bootstrap'', signature = JStr ''SIG-BOOT'', signerPublicKey = JStr ''SPK'',
       signerLevel = JStr ''L5'', signerKid = JUndefined,
       kyberPublicKey = JStr ''PK1'', kyberSecretKey = JStr ''SK1'',
       isCompressed = JUndefined \<rparr>"

definition direct_sign_request :: request where
  "direct_sign_request =
     PostJSON ''d/dilithium/sign''
       (JObj [(''messageBase64'', JStr ''PK0''), (''messageB64'', JStr ''PK0''),
              (''message'', JStr ''PK0''), (''level'', JStr ''L5'')])"

definition bootstrap_request :: request where
  "bootstrap_request = PostJSON ''d/orchestrator/bootstrap'' (JObj [])"

text \<open>The signature backend rejects what its own sign endpoint signed.\<close>

definition rejecting :: world where
  "rejecting = healthy \<lparr> accepts_direct := False \<rparr>"

definition encapsulation_result :: jsval where
  "encapsulation_result = JObj [(''ciphertext'', JStr ''CT''), (''sharedSecret'', JStr ''SS'')]"

definition verification_error :: js_error where
  "verification_error = Error ''Invalid signature over Kyber public key''"

text \<open>
  A computation that only adds requests to the record, each of them satisfying \<open>P\<close>.
\<close>

definition only_adds :: "(request \<Rightarrow> bool) \<Rightarrow> ('w, 'a) io \<Rightarrow> bool" where
  "only_adds P m = (\<forall>s. \<exists>new. snd (snd (m s)) = snd s @ new \<and> (\<forall>q\<in>set new. P q))"

text \<open>A request that is not a post to the verify-and-encapsulate endpoint of \<open>sb\<close>.\<close>

fun not_encapsulation :: "string \<Rightarrow> request \<Rightarrow> bool" where
  "not_encapsulation sb (PostJSON url body) = (url \<noteq> encapsulate_url sb)"
| "not_encapsulation sb q = True"

text \<open>The same, when the signer metadata names no public key.\<close>

definition anonymous_env :: ake_env where
  "anonymous_env = sample_env \<lparr> baseServiceSignerPublicKey := JUndefined \<rparr>"

text \<open>The three fields of the request body the handler reads.\<close>

definition body_field :: "jsval \<Rightarrow> string \<Rightarrow> jsval" where
  "body_field body k = field (js_coalesce body (JObj [])) k"

text \<open>The body of the decapsulation request.\<close>

definition decapsulation_body :: "signing_context \<Rightarrow> jsval \<Rightarrow> jsval" where
  "decapsulation_body ctx encapRes =
     JObj [(''secretKey'', kyberSecretKey ctx), (''ciphertext'', field encapRes ''ciphertext'')]"



text \<open>No candidate address of the KEM backend answers, in whatever state of the world.\<close>

definition kem_unreachable :: "'w net \<Rightarrow> config \<Rightarrow> bool" where
  "kem_unreachable net cfg = (\<forall>s. all_fail net (KYBER_BASES cfg) s)"

text \<open>A health probe of one of the given candidate addresses.\<close>

definition probe_of :: "string list \<Rightarrow> request \<Rightarrow> bool" where
  "probe_of bases q = (\<exists>b\<in>set bases. q = health_probe b)"

text \<open>The same deployment with a KEM address where nothing listens.\<close>

definition misconfigured :: config where
  "misconfigured = sample_config \<lparr> KYBER_BASES := [''x''] \<rparr>"

text \<open>
  The two reachability flags \<^verbatim>\<open>dReach\<close> and \<^verbatim>\<open>fReach\<close> the selector computes when the
  request starts in state \<open>s\<close>.
\<close>

definition selection_flags :: "'w net \<Rightarrow> config \<Rightarrow> 'w state \<Rightarrow> bool \<times> bool" where
  "selection_flags net cfg s =
     (case fst (firstReachable_both net (DILITHIUM_BASES cfg) (FALCON_BASES cfg) s) of
        (db, fb) \<Rightarrow> (truthy_base db, truthy_base fb))"

text \<open>The result of a healthy run with the given scheme and reason.\<close>

definition ok_result :: "string \<Rightarrow> reason \<Rightarrow> ake_result" where
  "ok_result sch rsn =
     \<lparr> status = ''ok'', schemeSelected = sch, reason = rsn,
       resultSignerLevel = JStr ''L5'', resultSignerKid = JUndefined,
       ciphertextLen = JNum (Fin 2), sharedSecretMatch = True \<rparr>"

text \<open>The Falcon backend does not answer its health probe.\<close>

definition falcon_down :: world where
  "falcon_down = healthy \<lparr> falcon_up := False \<rparr>"

text \<open>
  The signature backend rejects what its own sign endpoint signed, and its bootstrap
  returns a KEM public key without the secret key.
\<close>

definition half_bootstrap :: world where
  "half_bootstrap = healthy \<lparr> accepts_direct := False, bootstrap_gives_secret := False \<rparr>"

text \<open>Bootstrap's signature and public key with the secret key generated at the start.\<close>

definition mixed_context :: signing_context where
  "mixed_context = bootstrap_context \<lparr> kyberSecretKey := JStr ''SK0'' \<rparr>"

text \<open>
  A candidate answers its health probe in the world \<open>w\<close>; a backend is reachable there
  when one of its candidates answers; and a world that probing leaves as it is.
\<close>

definition answers :: "'w net \<Rightarrow> 'w \<Rightarrow> string \<Rightarrow> bool" where
  "answers net w b = fst (probe net b (w, []))"

definition reachable :: "'w net \<Rightarrow> 'w \<Rightarrow> string list \<Rightarrow> bool" where
  "reachable net w bases = (\<exists>b\<in>set bases. answers net w b)"

definition quiet :: "'w net \<Rightarrow> 'w \<Rightarrow> bool" where
  "quiet net w = (\<forall>url. snd (net_fetch net w url) = w)"

text \<open>
  What the result of a search says about the candidates, in whatever worlds the probes
  were answered: the candidate returned has answered a probe, and when none is returned
  every candidate has failed one.
\<close>

definition search_result :: "'w net \<Rightarrow> string list \<Rightarrow> string option \<Rightarrow> bool" where
  "search_result net bases r =
     (case r of
        Some b \<Rightarrow> b \<in> set bases \<and> (\<exists>w. answers net w b)
      | None \<Rightarrow> (\<forall>b\<in>set bases. \<exists>w. \<not> answers net w b))"

text \<open>Samples of the world with a backend down.\<close>

definition dilithium_down :: world where
  "dilithium_down = healthy \<lparr> dilithium_up := False \<rparr>"

definition signatures_down :: world where
  "signatures_down = healthy \<lparr> dilithium_up := False, falcon_up := False \<rparr>"

text \<open>
  The error of the check after the loop,
  \<^verbatim>\<open>lastSigError ?? new Error('No signature strategy succeeded')\<close>, and the loop as the
  handler runs it once it has resolved \<open>env\<close>.
\<close>

definition exhaustion_error :: "js_error option \<Rightarrow> js_error" where
  "exhaustion_error lastSigError =
     (case lastSigError of Some e \<Rightarrow> e | None \<Rightarrow> Error ''No signature strategy succeeded'')"

definition strategy_chain ::
  "'w net \<Rightarrow> ake_env \<Rightarrow> ('w, jsval \<times> signing_context option \<times> js_error option) io" where
  "strategy_chain net env =
     strategy_loop net (scheme env) (sigBase env) (baseSignerLevel env)
       (signatureStrategies net env) None"

text \<open>
  The verify-and-encapsulate endpoint of \<open>sb\<close> answers as its contract says: what it
  returns for an accepted context is never an empty body (\<^verbatim>\<open>null\<close>, \<^verbatim>\<open>false\<close>, \<^verbatim>\<open>0\<close> or
  the empty string).
\<close>

definition answers_with_body :: "'w net \<Rightarrow> string \<Rightarrow> bool" where
  "answers_with_body net sb =
     (\<forall>w body r w'. net_postJSON net w (encapsulate_url sb) body = (Inr r, w') \<longrightarrow> truthy r)"

text \<open>
  The sample deployment with another verify-and-encapsulate endpoint at \<^verbatim>\<open>d\<close>: one that
  answers every context with the given result.
\<close>

definition encapsulating :: "js_error + jsval \<Rightarrow> world net" where
  "encapsulating r =
     sample_net \<lparr> net_postJSON := (\<lambda>w url body.
        if url = encapsulate_url ''d'' then (r, w) else sample_post w url body) \<rparr>"

text \<open>The requests of the sample deployment up to the strategies, and the direct one.\<close>

definition resolving :: "request list" where
  "resolving =
     [Fetch ''d/health'', Fetch ''f/health'', Fetch ''k/health'', Fetch ''d/health'',
      PostJSON ''k/kyber/generate-keypair'' (JObj []), FetchJSON ''d/orchestrator/signer'',
      Fetch ''r/health'']"

definition direct_encapsulation :: request where
  "direct_encapsulation =
     PostJSON (encapsulate_url ''d'') (payload Dilithium (JStr ''L5'') direct_context)"

definition bootstrap_encapsulation :: request where
  "bootstrap_encapsulation =
     PostJSON (encapsulate_url ''d'') (payload Dilithium (JStr ''L5'') bootstrap_context)"



text \<open>
  A deployment with a dead first Dilithium candidate and the same dead address for the
  KEM backend.
\<close>

definition spread :: config where
  "spread = \<lparr> KYBER_BASES = [''x''], DILITHIUM_BASES = [''x'', ''d''],
               FALCON_BASES = [''f''], KEYROTATION_BASES = [] \<rparr>"


section \<open>Properties\<close>

subsection \<open>Coercion of the hint\<close>

lemma tight_iff: "to_number h = Inr n \<Longrightarrow>
   ((\<not> is_nan n \<and> num_gt n (Fin 0)) \<and> num_le n (Fin 1024)) = payload_tight h"
  by (cases n) (auto simp: payload_tight_def num_gt_def num_le_def)

lemma to_number_unconvertible: "unconvertible h \<Longrightarrow> to_number h = Inl TypeError"
  by (induction h rule: to_number.induct) (auto split: jsval.splits)

lemma to_number_convertible: "\<not> unconvertible h \<Longrightarrow> \<exists>n. to_number h = Inr n"
  by (induction h rule: to_number.induct) (force split: jsval.splits)+

lemma bitlen_512: "bitlen 512 = 10"
  by (simp add: compute_bitlen)

lemma round_double_512: "round_double 512 = Fin 512"
  by (simp add: round_double_def ilog2_def pow2_def round_half_even_def Let_def bitlen_512)

lemma str_to_number_512: "str_to_number ''512'' = Fin 512"
  by (simp add: str_to_number_def trim_def is_ws_def parse_non_decimal_def
      parse_unsigned_decimal_def is_digit_def decimal_value_def digits_val_def digit_of_def
      pow10_def round_double_512)

subsection \<open>Reachability\<close>

lemma after_probes_append: "after_probes net (xs @ ys) s = after_probes net ys (after_probes net xs s)"
  by (induction xs arbitrary: s) auto

lemma probe_trace: "snd (snd (probe net b s)) = snd s @ [health_probe b]"
  by (cases s) (auto simp: probe_def health_probe_def split: prod.splits)

lemma after_probes_trace: "snd (after_probes net bs s) = snd s @ map health_probe bs"
  by (induction bs arbitrary: s) (auto simp: probe_trace)

lemma firstReachable_None: "(fst (firstReachable net bases s) = None) = all_fail net bases s"
  by (induction bases arbitrary: s) (auto split: prod.splits bool.splits)

lemma firstReachable_None_state: "fst (firstReachable net bases s) = None \<Longrightarrow>
   snd (firstReachable net bases s) = after_probes net bases s"
  by (induction bases arbitrary: s) (auto split: prod.splits bool.splits)

lemma firstReachable_Some:
  "fst (firstReachable net bases s) = Some b \<Longrightarrow>
   \<exists>pre post. bases = pre @ b # post \<and> all_fail net pre s
      \<and> fst (probe net b (after_probes net pre s))
      \<and> snd (firstReachable net bases s) = after_probes net (pre @ [b]) s"
proof (induction bases arbitrary: s)
  case Nil
  then show ?case by simp
next
  case (Cons a bases)
  show ?case
  proof (cases "fst (probe net a s)")
    case True
    then have "b = a" "snd (firstReachable net (a # bases) s) = snd (probe net a s)"
      using Cons.prems by (auto split: prod.splits bool.splits)
    then show ?thesis using True
      by (intro exI[of _ "[]"] exI[of _ bases]) simp
  next
    case False
    then have eq: "firstReachable net (a # bases) s = firstReachable net bases (snd (probe net a s))"
      by (auto split: prod.splits bool.splits)
    with Cons.prems Cons.IH[of "snd (probe net a s)"]
    obtain pre post where "bases = pre @ b # post" "all_fail net pre (snd (probe net a s))"
      "fst (probe net b (after_probes net pre (snd (probe net a s))))"
      "snd (firstReachable net bases (snd (probe net a s))) = after_probes net (pre @ [b]) (snd (probe net a s))"
      by auto
    then show ?thesis using False eq
      by (intro exI[of _ "a # pre"] exI[of _ post]) simp
  qed
qed

text \<open>
  C9. \<^verbatim>\<open>probe\<close> answers true for every response \<^verbatim>\<open>fetch\<close> delivers, whatever its
  status (\<^verbatim>\<open>fetch\<close> delivers final responses only, whose status is at least 200), and
  false for a rejection or a timeout. \<^verbatim>\<open>firstReachable\<close> probes the candidates one by
  one in list order and stops at the first that answers: it returns that address after
  all earlier ones failed, and \<^verbatim>\<open>null\<close> exactly when every probe fails; the requests
  it makes are the health probes of the candidates it tried, in order.
\<close>

theorem probe_and_firstReachable:
  "(net_fetch net w (base @ ''/health'') = (Response st, w') \<and> 200 \<le> st
      \<longrightarrow> fst (probe net base (w, tr)))
   \<and> (fst (net_fetch net w (base @ ''/health'')) = Rejected
      \<or> fst (net_fetch net w (base @ ''/health'')) = TimedOut
      \<longrightarrow> \<not> fst (probe net base (w, tr)))
   \<and> (fst (firstReachable net bases s) = Some b \<longrightarrow>
        (\<exists>pre post. bases = pre @ b # post \<and> all_fail net pre s
           \<and> fst (probe net b (after_probes net pre s))
           \<and> snd (snd (firstReachable net bases s)) = snd s @ map health_probe (pre @ [b])))
   \<and> (fst (firstReachable net bases s) = None \<longrightarrow>
        all_fail net bases s
        \<and> snd (snd (firstReachable net bases s)) = snd s @ map health_probe bases)
   \<and> (all_fail net bases s \<longrightarrow> fst (firstReachable net bases s) = None)"
proof -
  have p1: "net_fetch net w (base @ ''/health'') = (Response st, w') \<and> 200 \<le> st
      \<longrightarrow> fst (probe net base (w, tr))"
    by (auto simp: probe_def)
  have p2: "fst (net_fetch net w (base @ ''/health'')) = Rejected
      \<or> fst (net_fetch net w (base @ ''/health'')) = TimedOut
      \<longrightarrow> \<not> fst (probe net base (w, tr))"
    by (auto simp: probe_def split: prod.splits)
  have f1: "fst (firstReachable net bases s) = Some b \<longrightarrow>
        (\<exists>pre post. bases = pre @ b # post \<and> all_fail net pre s
           \<and> fst (probe net b (after_probes net pre s))
           \<and> snd (snd (firstReachable net bases s)) = snd s @ map health_probe (pre @ [b]))"
    using firstReachable_Some[of net bases s b] after_probes_trace[of net _ s]
    by metis
  have f2: "fst (firstReachable net bases s) = None \<longrightarrow>
        all_fail net bases s
        \<and> snd (snd (firstReachable net bases s)) = snd s @ map health_probe bases"
    using firstReachable_None[of net bases s] firstReachable_None_state[of net bases s]
      after_probes_trace[of net bases s] by auto
  have f3: "all_fail net bases s \<longrightarrow> fst (firstReachable net bases s) = None"
    using firstReachable_None[of net bases s] by simp
  show ?thesis using p1 p2 f1 f2 f3 by blast
qed

theorem probe_and_firstReachable_witness:
  "fst (probe sample_net ''f'' (healthy, []))
   \<and> \<not> fst (probe sample_net ''r'' (healthy, []))
   \<and> \<not> fst (probe sample_net ''x'' (healthy, []))
   \<and> (\<exists>pre post. [''r'', ''f'', ''d''] = pre @ ''f'' # post
        \<and> all_fail sample_net pre (healthy, [])
        \<and> snd (snd (firstReachable sample_net [''r'', ''f'', ''d''] (healthy, [])))
            = snd (healthy, []) @ map health_probe (pre @ [''f'']))
   \<and> all_fail sample_net [''r'', ''x''] (healthy, [])
   \<and> fst (firstReachable sample_net [''x'', ''r''] (healthy, [])) = None"
proof -
  have f: "net_fetch sample_net healthy (''f'' @ ''/health'') = (Response 503, healthy)
           \<and> (200::nat) \<le> 503"
    by (simp add: sample_net_def sample_fetch_def healthy_def)
  have r: "fst (net_fetch sample_net healthy (''r'' @ ''/health'')) = TimedOut"
    by (simp add: sample_net_def sample_fetch_def)
  have x: "fst (net_fetch sample_net healthy (''x'' @ ''/health'')) = Rejected"
    by (simp add: sample_net_def sample_fetch_def)
  have some: "fst (firstReachable sample_net [''r'', ''f'', ''d''] (healthy, [])) = Some ''f''"
    by (simp add: probe_def sample_net_def sample_fetch_def healthy_def)
  have none: "fst (firstReachable sample_net [''r'', ''x''] (healthy, [])) = None"
    by (simp add: probe_def sample_net_def sample_fetch_def healthy_def)
  have fail: "all_fail sample_net [''x'', ''r''] (healthy, [])"
    by (simp add: probe_def sample_net_def sample_fetch_def healthy_def)
  note t1 = probe_and_firstReachable [of sample_net healthy "''f''" 503 healthy "[]"
            "[''r'', ''f'', ''d'']" "(healthy, [])" "''f''"]
  note t2 = probe_and_firstReachable [of sample_net healthy "''r''" 0 healthy "[]"
            "[''r'', ''x'']" "(healthy, [])" "''f''"]
  note t3 = probe_and_firstReachable [of sample_net healthy "''x''" 0 healthy "[]"
            "[''x'', ''r'']" "(healthy, [])" "''f''"]
  have c1: "fst (probe sample_net ''f'' (healthy, []))"
    using t1 f by blast
  have c2: "\<not> fst (probe sample_net ''r'' (healthy, []))"
    using t2 r by blast
  have c3: "\<not> fst (probe sample_net ''x'' (healthy, []))"
    using t3 x by blast
  have c4: "\<exists>pre post. [''r'', ''f'', ''d''] = pre @ ''f'' # post
        \<and> all_fail sample_net pre (healthy, [])
        \<and> snd (snd (firstReachable sample_net [''r'', ''f'', ''d''] (healthy, [])))
            = snd (healthy, []) @ map health_probe (pre @ [''f''])"
    using t1 some by blast
  have c5: "all_fail sample_net [''r'', ''x''] (healthy, [])"
    using t2 none by blast
  have c6: "fst (firstReachable sample_net [''x'', ''r''] (healthy, [])) = None"
    using t3 fail by blast
  show ?thesis
    using c1 c2 c3 c4 c5 c6 by blast
qed

subsection \<open>The two concurrent searches\<close>

lemma probe_answer:
  "probe net b (w, tr)
     = (fst (answer net b w), (snd (answer net b w), tr @ [Fetch (b @ ''/health'')]))"
  by (simp add: probe_def answer_def split: prod.splits)

lemma firstReachable_pending_eq:
  "firstReachable net bases (w, tr) = firstReachable_pending net bases (w, tr @ sent bases)"
proof (induction bases arbitrary: w tr)
  case Nil
  then show ?case by simp
next
  case (Cons b bases)
  obtain r w' where a: "answer net b w = (r, w')" by (cases "answer net b w")
  show ?case
    using Cons.IH[of w' "tr @ [Fetch (b @ ''/health'')]"]
    by (cases r) (simp_all add: probe_answer a)
qed

lemma sent_probes: "set (sent bases) \<subseteq> health_probe ` set bases"
  by (cases bases) (auto simp: health_probe_def)

lemma firstReachable_pending_adds:
  "\<exists>new. snd (snd (firstReachable_pending net bases (w, tr))) = tr @ new
      \<and> set new \<subseteq> health_probe ` set bases"
proof (induction bases arbitrary: w tr)
  case Nil
  then show ?case by simp
next
  case (Cons b bases)
  obtain r w' where a: "answer net b w = (r, w')" by (cases "answer net b w")
  show ?case
  proof (cases r)
    case True
    then show ?thesis using a by simp
  next
    case False
    from Cons.IH[of w' "tr @ sent bases"] obtain new where
      "snd (snd (firstReachable_pending net bases (w', tr @ sent bases))) = (tr @ sent bases) @ new"
      "set new \<subseteq> health_probe ` set bases"
      by blast
    then have "snd (snd (firstReachable_pending net (b # bases) (w, tr))) = tr @ (sent bases @ new)"
      "set (sent bases @ new) \<subseteq> health_probe ` set (b # bases)"
      using a False sent_probes[of bases] by auto
    then show ?thesis by blast
  qed
qed

lemma firstReachable_race_adds:
  "\<exists>new. snd (snd (firstReachable_race net ds fs (w, tr))) = tr @ new
      \<and> set new \<subseteq> health_probe ` (set ds \<union> set fs)"
proof (induction net ds fs "(w, tr)" arbitrary: w tr rule: firstReachable_race.induct)
  case (1 net d ds f fs w tr)
  show ?case
  proof (cases "net_first net w (d @ ''/health'') (f @ ''/health'')")
    case first: True
    obtain r w' where a: "answer net d w = (r, w')" by (cases "answer net d w")
    show ?thesis
    proof (cases r)
      case True
      from firstReachable_pending_adds[of net "f # fs" w' tr] obtain new where
        "snd (snd (firstReachable_pending net (f # fs) (w', tr))) = tr @ new"
        "set new \<subseteq> health_probe ` set (f # fs)"
        by blast
      then have "snd (snd (firstReachable_race net (d # ds) (f # fs) (w, tr))) = tr @ new"
        "set new \<subseteq> health_probe ` (set (d # ds) \<union> set (f # fs))"
        using first a True by (auto split: prod.splits)
      then show ?thesis by blast
    next
      case False
      from False have rf: "r = False" by simp
      from 1(1)[OF first a[symmetric] rf] obtain new where
        "snd (snd (firstReachable_race net ds (f # fs) (w', tr @ sent ds))) = (tr @ sent ds) @ new"
        "set new \<subseteq> health_probe ` (set ds \<union> set (f # fs))"
        by blast
      then have "snd (snd (firstReachable_race net (d # ds) (f # fs) (w, tr)))
                   = tr @ (sent ds @ new)"
        "set (sent ds @ new) \<subseteq> health_probe ` (set (d # ds) \<union> set (f # fs))"
        using first a False sent_probes[of ds] by auto
      then show ?thesis by blast
    qed
  next
    case second: False
    obtain r w' where a: "answer net f w = (r, w')" by (cases "answer net f w")
    show ?thesis
    proof (cases r)
      case True
      from firstReachable_pending_adds[of net "d # ds" w' tr] obtain new where
        "snd (snd (firstReachable_pending net (d # ds) (w', tr))) = tr @ new"
        "set new \<subseteq> health_probe ` set (d # ds)"
        by blast
      then have "snd (snd (firstReachable_race net (d # ds) (f # fs) (w, tr))) = tr @ new"
        "set new \<subseteq> health_probe ` (set (d # ds) \<union> set (f # fs))"
        using second a True by (auto split: prod.splits)
      then show ?thesis by blast
    next
      case False
      from False have rf: "r = False" by simp
      from 1(2)[OF second a[symmetric] rf] obtain new where
        "snd (snd (firstReachable_race net (d # ds) fs (w', tr @ sent fs))) = (tr @ sent fs) @ new"
        "set new \<subseteq> health_probe ` (set (d # ds) \<union> set fs)"
        by blast
      then have "snd (snd (firstReachable_race net (d # ds) (f # fs) (w, tr)))
                   = tr @ (sent fs @ new)"
        "set (sent fs @ new) \<subseteq> health_probe ` (set (d # ds) \<union> set (f # fs))"
        using second a False sent_probes[of fs] by auto
      then show ?thesis by blast
    qed
  qed
next
  case (2 net fs w tr)
  from firstReachable_pending_adds[of net fs w tr] show ?case
    by (auto split: prod.splits)
next
  case (3 net d ds w tr)
  from firstReachable_pending_adds[of net "d # ds" w tr] show ?case
    by (auto split: prod.splits)
qed

lemma firstReachable_both_adds:
  "\<exists>new. snd (snd (firstReachable_both net ds fs s)) = snd s @ new
      \<and> set new \<subseteq> health_probe ` (set ds \<union> set fs)"
proof -
  obtain w tr where s: "s = (w, tr)" by (cases s)
  from firstReachable_race_adds[of net ds fs w "tr @ sent ds @ sent fs"] obtain new where
    "snd (snd (firstReachable_race net ds fs (w, tr @ sent ds @ sent fs)))
       = (tr @ sent ds @ sent fs) @ new"
    "set new \<subseteq> health_probe ` (set ds \<union> set fs)"
    by blast
  then have "snd (snd (firstReachable_both net ds fs s)) = snd s @ (sent ds @ sent fs @ new)"
    "set (sent ds @ sent fs @ new) \<subseteq> health_probe ` (set ds \<union> set fs)"
    using s sent_probes[of ds] sent_probes[of fs] by (auto simp: firstReachable_both_def)
  then show ?thesis by blast
qed

lemma only_adds_firstReachable_both:
  "set ds \<union> set fs \<subseteq> set all \<Longrightarrow>
     only_adds (probe_of all) (io_lift (firstReachable_both net ds fs))"
  unfolding only_adds_def
proof
  fix s
  assume sub: "set ds \<union> set fs \<subseteq> set all"
  obtain new where n: "snd (snd (firstReachable_both net ds fs s)) = snd s @ new"
    "set new \<subseteq> health_probe ` (set ds \<union> set fs)"
    using firstReachable_both_adds[of net ds fs s] by blast
  have "snd (snd (io_lift (firstReachable_both net ds fs) s)) = snd s @ new"
    using n(1) by (auto simp: io_lift_def split: prod.splits)
  moreover have "\<forall>q\<in>set new. probe_of all q"
    using n(2) sub unfolding probe_of_def by blast
  ultimately show "\<exists>new. snd (snd (io_lift (firstReachable_both net ds fs) s)) = snd s @ new
      \<and> (\<forall>q\<in>set new. probe_of all q)"
    by blast
qed

lemma quiet_answer: "quiet net w \<Longrightarrow> answer net b w = (answers net w b, w)"
  by (auto simp: quiet_def answer_def answers_def probe_def split: prod.splits)
    (metis snd_conv)

lemma firstReachable_pending_quiet:
  "quiet net w \<Longrightarrow>
     fst (firstReachable_pending net bases (w, tr)) = find (answers net w) bases
     \<and> fst (snd (firstReachable_pending net bases (w, tr))) = w"
  by (induction bases arbitrary: tr) (auto simp: quiet_answer)

lemma firstReachable_race_quiet:
  "quiet net w \<Longrightarrow>
     fst (firstReachable_race net ds fs (w, tr))
       = (find (answers net w) ds, find (answers net w) fs)
     \<and> fst (snd (firstReachable_race net ds fs (w, tr))) = w"
proof (induction net ds fs "(w, tr)" arbitrary: tr rule: firstReachable_race.induct)
  case (1 net d ds f fs tr)
  show ?case
  proof (cases "net_first net w (d @ ''/health'') (f @ ''/health'')")
    case first: True
    show ?thesis
    proof (cases "answers net w d")
      case True
      then show ?thesis
        using first 1(3) firstReachable_pending_quiet[OF 1(3), of "f # fs" tr]
        by (auto simp: quiet_answer split: prod.splits)
    next
      case False
      have a: "(False, w) = answer net d w"
        using False 1(3) by (simp add: quiet_answer)
      from 1(1)[OF first a refl 1(3)] show ?thesis
        using first False 1(3) by (simp add: quiet_answer)
    qed
  next
    case second: False
    show ?thesis
    proof (cases "answers net w f")
      case True
      then show ?thesis
        using second 1(3) firstReachable_pending_quiet[OF 1(3), of "d # ds" tr]
        by (auto simp: quiet_answer split: prod.splits)
    next
      case False
      have a: "(False, w) = answer net f w"
        using False 1(3) by (simp add: quiet_answer)
      from 1(2)[OF second a refl 1(3)] show ?thesis
        using second False 1(3) by (simp add: quiet_answer)
    qed
  qed
next
  case (2 net fs tr)
  from firstReachable_pending_quiet[OF 2, of fs tr] show ?case
    by (auto split: prod.splits)
next
  case (3 net d ds tr)
  from firstReachable_pending_quiet[OF 3, of "d # ds" tr] show ?case
    by (auto split: prod.splits simp del: firstReachable_pending.simps)
qed

lemma truthy_base_find:
  "[] \<notin> set bases \<Longrightarrow> truthy_base (find P bases) = (\<exists>b\<in>set bases. P b)"
  by (induction bases) auto

lemma selection_flags_quiet:
  assumes "quiet net w" "[] \<notin> set (DILITHIUM_BASES cfg)" "[] \<notin> set (FALCON_BASES cfg)"
  shows "selection_flags net cfg (w, tr)
           = (reachable net w (DILITHIUM_BASES cfg), reachable net w (FALCON_BASES cfg))"
  using firstReachable_race_quiet[OF assms(1), of "DILITHIUM_BASES cfg" "FALCON_BASES cfg"]
    truthy_base_find[OF assms(2)] truthy_base_find[OF assms(3)]
  by (simp add: selection_flags_def firstReachable_both_def reachable_def)

lemma selectSigScheme_flags:
  "fst (selectSigScheme net cfg h p s)
     = selectSigScheme_policy h p (fst (selection_flags net cfg s))
         (snd (selection_flags net cfg s))"
  by (simp add: selectSigScheme_def selection_flags_def io_bind_def io_lift_def io_of_def
      split: prod.splits)

lemma selectSigScheme_state:
  "snd (selectSigScheme net cfg h p s)
     = snd (firstReachable_both net (DILITHIUM_BASES cfg) (FALCON_BASES cfg) s)"
  by (simp add: selectSigScheme_def io_bind_def io_lift_def io_of_def split: prod.splits)

lemma selectSigScheme_adds:
  "\<exists>new. snd (snd (selectSigScheme net cfg h p s)) = snd s @ new
      \<and> set new \<subseteq> health_probe ` (set (DILITHIUM_BASES cfg) \<union> set (FALCON_BASES cfg))"
  using firstReachable_both_adds[of net "DILITHIUM_BASES cfg" "FALCON_BASES cfg" s]
  by (simp add: selectSigScheme_state)

lemma sample_quiet: "quiet sample_net w"
  by (simp add: quiet_def sample_net_def sample_fetch_def)

lemma sample_candidates:
  "[] \<notin> set (DILITHIUM_BASES sample_config)" "[] \<notin> set (FALCON_BASES sample_config)"
  by (simp_all add: sample_config_def)

lemma sample_reachable:
  "reachable sample_net w (DILITHIUM_BASES sample_config) = dilithium_up w"
  "reachable sample_net w (FALCON_BASES sample_config) = falcon_up w"
  by (auto simp: reachable_def answers_def probe_def sample_config_def sample_net_def
      sample_fetch_def)

subsection \<open>The decision order of the selector\<close>

lemma answer_answers: "fst (answer net b w) = answers net w b"
  by (simp add: answer_def answers_def split: prod.splits)

lemma firstReachable_pending_result:
  "search_result net bases (fst (firstReachable_pending net bases (w, tr)))"
proof (induction bases arbitrary: w tr)
  case Nil
  then show ?case by (simp add: search_result_def)
next
  case (Cons b bases)
  obtain r w' where a: "answer net b w = (r, w')" by (cases "answer net b w")
  then have r: "r = answers net w b"
    using answer_answers[of net b w] by simp
  show ?case
  proof (cases r)
    case True
    then show ?thesis using a r by (auto simp: search_result_def)
  next
    case False
    then show ?thesis
      using a r Cons.IH[of w' "tr @ sent bases"]
      by (auto simp: search_result_def split: option.splits)
  qed
qed

lemma firstReachable_race_result:
  "search_result net ds (fst (fst (firstReachable_race net ds fs (w, tr))))
   \<and> search_result net fs (snd (fst (firstReachable_race net ds fs (w, tr))))"
proof (induction net ds fs "(w, tr)" arbitrary: w tr rule: firstReachable_race.induct)
  case (1 net d ds f fs w tr)
  show ?case
  proof (cases "net_first net w (d @ ''/health'') (f @ ''/health'')")
    case first: True
    obtain r w' where a: "answer net d w = (r, w')" by (cases "answer net d w")
    then have r: "r = answers net w d"
      using answer_answers[of net d w] by simp
    show ?thesis
    proof (cases r)
      case True
      have "search_result net (d # ds) (Some d)"
        using True r by (auto simp: search_result_def)
      then show ?thesis
        using first a True firstReachable_pending_result[of net "f # fs" w' tr]
        by (auto split: prod.splits simp del: firstReachable_pending.simps)
    next
      case False
      from False have rf: "r = False" by simp
      have step: "firstReachable_race net (d # ds) (f # fs) (w, tr)
                    = firstReachable_race net ds (f # fs) (w', tr @ sent ds)"
        using first a False by simp
      from 1(1)[OF first a[symmetric] rf] have
        ih: "search_result net ds
               (fst (fst (firstReachable_race net ds (f # fs) (w', tr @ sent ds))))"
          "search_result net (f # fs)
               (snd (fst (firstReachable_race net ds (f # fs) (w', tr @ sent ds))))"
        by simp_all
      have "search_result net (d # ds)
               (fst (fst (firstReachable_race net ds (f # fs) (w', tr @ sent ds))))"
        using ih(1) False r by (auto simp: search_result_def split: option.splits)
      then show ?thesis using ih(2) by (simp add: step del: firstReachable_race.simps)
    qed
  next
    case second: False
    obtain r w' where a: "answer net f w = (r, w')" by (cases "answer net f w")
    then have r: "r = answers net w f"
      using answer_answers[of net f w] by simp
    show ?thesis
    proof (cases r)
      case True
      have "search_result net (f # fs) (Some f)"
        using True r by (auto simp: search_result_def)
      then show ?thesis
        using second a True firstReachable_pending_result[of net "d # ds" w' tr]
        by (auto split: prod.splits simp del: firstReachable_pending.simps)
    next
      case False
      from False have rf: "r = False" by simp
      have step: "firstReachable_race net (d # ds) (f # fs) (w, tr)
                    = firstReachable_race net (d # ds) fs (w', tr @ sent fs)"
        using second a False by simp
      from 1(2)[OF second a[symmetric] rf] have
        ih: "search_result net (d # ds)
               (fst (fst (firstReachable_race net (d # ds) fs (w', tr @ sent fs))))"
          "search_result net fs
               (snd (fst (firstReachable_race net (d # ds) fs (w', tr @ sent fs))))"
        by simp_all
      have "search_result net (f # fs)
               (snd (fst (firstReachable_race net (d # ds) fs (w', tr @ sent fs))))"
        using ih(2) False r by (auto simp: search_result_def split: option.splits)
      then show ?thesis using ih(1) by (simp add: step del: firstReachable_race.simps)
    qed
  qed
next
  case (2 net fs w tr)
  show ?case
    using firstReachable_pending_result[of net fs w tr]
    by (auto simp: search_result_def split: prod.splits)
next
  case (3 net d ds w tr)
  show ?case
    using firstReachable_pending_result[of net "d # ds" w tr]
    by (auto simp: search_result_def split: prod.splits simp del: firstReachable_pending.simps)
qed

lemma selection_flags_result:
  "\<exists>db fb. search_result net (DILITHIUM_BASES cfg) db \<and> search_result net (FALCON_BASES cfg) fb
      \<and> selection_flags net cfg s = (truthy_base db, truthy_base fb)"
proof -
  obtain w tr where s: "s = (w, tr)" by (cases s)
  let ?r = "fst (firstReachable_race net (DILITHIUM_BASES cfg) (FALCON_BASES cfg)
                   (w, tr @ sent (DILITHIUM_BASES cfg) @ sent (FALCON_BASES cfg)))"
  have "search_result net (DILITHIUM_BASES cfg) (fst ?r)"
    "search_result net (FALCON_BASES cfg) (snd ?r)"
    by (simp_all add: firstReachable_race_result)
  moreover have "selection_flags net cfg s = (truthy_base (fst ?r), truthy_base (snd ?r))"
    by (simp add: selection_flags_def firstReachable_both_def s split: prod.splits)
  ultimately show ?thesis by blast
qed

lemma selectSigScheme_policy_order:
  assumes "\<not> unconvertible h"
  shows "selectSigScheme_policy h p dReach fReach =
     (if p = JStr ''falcon'' \<and> fReach then Inr Falcon
      else if p = JStr ''dilithium'' \<and> dReach then Inr Dilithium
      else if payload_tight h \<and> fReach then Inr Falcon
      else if dReach then Inr Dilithium
      else if fReach then Inr Falcon
      else Inl (Error ''No signature service reachable''))"
proof -
  from assms obtain n where n: "to_number h = Inr n"
    using to_number_convertible by blast
  show ?thesis
    using tight_iff[OF n] by (auto simp: selectSigScheme_policy_def n)
qed

lemma selectSigScheme_policy_number:
  "typeof_number h \<or> nullish h \<Longrightarrow>
     selectSigScheme_policy h p dReach fReach = selection_as_claimed h p dReach fReach"
  by (cases h) (auto simp: selectSigScheme_policy_def selection_as_claimed_def
      number_hint_tight_def nullish_def num_gt_def num_le_def)

text \<open>
  C1 (amended). Let \<open>dReach\<close> and \<open>fReach\<close> be the flags the selector computes from its
  health probes: the two searches it runs concurrently return a candidate address or
  none, and a flag is the truthiness of what the search returns. For every network,
  candidate lists, preference and hint:
  \<^item> a preference naming a backend whose flag is true selects it, whatever the hint;
  \<^item> otherwise, for a hint whose conversion to a number is defined: if the number is
    greater than 0 and at most 1024 and \<open>fReach\<close> holds, Falcon is selected; otherwise
    Dilithium if \<open>dReach\<close>, else Falcon if \<open>fReach\<close>, else the call fails with
    \<^verbatim>\<open>No signature service reachable\<close>; the outcome is that of the same call without a
    preference, so a preference for an unreachable backend falls through to these rules;
  \<^item> when the hint is a number, or absent, this is the decision order exactly as the
    specification words it.

  The flags say what the probes found: a candidate a search returns has answered a
  probe, and when it returns none every candidate has failed one. In a world that
  probing leaves as it is, with no empty candidate address, a flag is true exactly when
  a candidate of that backend answers its health probe.
\<close>

theorem selectSigScheme_decision_order:
  "(selection_flags net cfg s = (dReach, fReach) \<longrightarrow>
        (p = JStr ''falcon'' \<and> fReach \<longrightarrow>
           fst (selectSigScheme net cfg h p s) = Inr Falcon)
      \<and> (p = JStr ''dilithium'' \<and> dReach \<longrightarrow>
           fst (selectSigScheme net cfg h p s) = Inr Dilithium)
      \<and> (\<not> preferred_reachable p dReach fReach \<and> \<not> unconvertible h \<longrightarrow>
           (payload_tight h \<and> fReach \<longrightarrow>
              fst (selectSigScheme net cfg h p s) = Inr Falcon)
         \<and> (\<not> (payload_tight h \<and> fReach) \<and> dReach \<longrightarrow>
              fst (selectSigScheme net cfg h p s) = Inr Dilithium)
         \<and> (\<not> (payload_tight h \<and> fReach) \<and> \<not> dReach \<and> fReach \<longrightarrow>
              fst (selectSigScheme net cfg h p s) = Inr Falcon)
         \<and> (\<not> dReach \<and> \<not> fReach \<longrightarrow>
              fst (selectSigScheme net cfg h p s)
                = Inl (Error ''No signature service reachable''))
         \<and> fst (selectSigScheme net cfg h p s)
             = fst (selectSigScheme net cfg h JUndefined s))
      \<and> (typeof_number h \<or> nullish h \<longrightarrow>
           fst (selectSigScheme net cfg h p s) = selection_as_claimed h p dReach fReach))
   \<and> (\<exists>db fb. selection_flags net cfg s = (truthy_base db, truthy_base fb)
         \<and> search_result net (DILITHIUM_BASES cfg) db
         \<and> search_result net (FALCON_BASES cfg) fb)
   \<and> (quiet net w \<and> [] \<notin> set (DILITHIUM_BASES cfg) \<and> [] \<notin> set (FALCON_BASES cfg) \<longrightarrow>
        selection_flags net cfg (w, tr)
          = (reachable net w (DILITHIUM_BASES cfg), reachable net w (FALCON_BASES cfg)))"
proof -
  have a: "selection_flags net cfg s = (dReach, fReach) \<longrightarrow>
        (p = JStr ''falcon'' \<and> fReach \<longrightarrow>
           fst (selectSigScheme net cfg h p s) = Inr Falcon)
      \<and> (p = JStr ''dilithium'' \<and> dReach \<longrightarrow>
           fst (selectSigScheme net cfg h p s) = Inr Dilithium)
      \<and> (\<not> preferred_reachable p dReach fReach \<and> \<not> unconvertible h \<longrightarrow>
           (payload_tight h \<and> fReach \<longrightarrow>
              fst (selectSigScheme net cfg h p s) = Inr Falcon)
         \<and> (\<not> (payload_tight h \<and> fReach) \<and> dReach \<longrightarrow>
              fst (selectSigScheme net cfg h p s) = Inr Dilithium)
         \<and> (\<not> (payload_tight h \<and> fReach) \<and> \<not> dReach \<and> fReach \<longrightarrow>
              fst (selectSigScheme net cfg h p s) = Inr Falcon)
         \<and> (\<not> dReach \<and> \<not> fReach \<longrightarrow>
              fst (selectSigScheme net cfg h p s)
                = Inl (Error ''No signature service reachable''))
         \<and> fst (selectSigScheme net cfg h p s)
             = fst (selectSigScheme net cfg h JUndefined s))
      \<and> (typeof_number h \<or> nullish h \<longrightarrow>
           fst (selectSigScheme net cfg h p s) = selection_as_claimed h p dReach fReach)"
  proof
    assume flags: "selection_flags net cfg s = (dReach, fReach)"
    have sel: "fst (selectSigScheme net cfg h q s) = selectSigScheme_policy h q dReach fReach"
      for q
      by (simp add: selectSigScheme_flags flags)
    have pref: "p = JStr ''falcon'' \<and> fReach \<longrightarrow>
           fst (selectSigScheme net cfg h p s) = Inr Falcon"
      "p = JStr ''dilithium'' \<and> dReach \<longrightarrow>
           fst (selectSigScheme net cfg h p s) = Inr Dilithium"
      by (auto simp: sel selectSigScheme_policy_def)
    have order: "(payload_tight h \<and> fReach \<longrightarrow>
              fst (selectSigScheme net cfg h p s) = Inr Falcon)
         \<and> (\<not> (payload_tight h \<and> fReach) \<and> dReach \<longrightarrow>
              fst (selectSigScheme net cfg h p s) = Inr Dilithium)
         \<and> (\<not> (payload_tight h \<and> fReach) \<and> \<not> dReach \<and> fReach \<longrightarrow>
              fst (selectSigScheme net cfg h p s) = Inr Falcon)
         \<and> (\<not> dReach \<and> \<not> fReach \<longrightarrow>
              fst (selectSigScheme net cfg h p s)
                = Inl (Error ''No signature service reachable''))
         \<and> fst (selectSigScheme net cfg h p s)
             = fst (selectSigScheme net cfg h JUndefined s)"
      if "\<not> preferred_reachable p dReach fReach \<and> \<not> unconvertible h"
      using that selectSigScheme_policy_order[of h p dReach fReach]
        selectSigScheme_policy_order[of h JUndefined dReach fReach]
      by (auto simp: sel preferred_reachable_def)
    have num: "typeof_number h \<or> nullish h \<longrightarrow>
           fst (selectSigScheme net cfg h p s) = selection_as_claimed h p dReach fReach"
      using selectSigScheme_policy_number[of h p dReach fReach] by (simp add: sel)
    show "(p = JStr ''falcon'' \<and> fReach \<longrightarrow>
           fst (selectSigScheme net cfg h p s) = Inr Falcon)
      \<and> (p = JStr ''dilithium'' \<and> dReach \<longrightarrow>
           fst (selectSigScheme net cfg h p s) = Inr Dilithium)
      \<and> (\<not> preferred_reachable p dReach fReach \<and> \<not> unconvertible h \<longrightarrow>
           (payload_tight h \<and> fReach \<longrightarrow>
              fst (selectSigScheme net cfg h p s) = Inr Falcon)
         \<and> (\<not> (payload_tight h \<and> fReach) \<and> dReach \<longrightarrow>
              fst (selectSigScheme net cfg h p s) = Inr Dilithium)
         \<and> (\<not> (payload_tight h \<and> fReach) \<and> \<not> dReach \<and> fReach \<longrightarrow>
              fst (selectSigScheme net cfg h p s) = Inr Falcon)
         \<and> (\<not> dReach \<and> \<not> fReach \<longrightarrow>
              fst (selectSigScheme net cfg h p s)
                = Inl (Error ''No signature service reachable''))
         \<and> fst (selectSigScheme net cfg h p s)
             = fst (selectSigScheme net cfg h JUndefined s))
      \<and> (typeof_number h \<or> nullish h \<longrightarrow>
           fst (selectSigScheme net cfg h p s) = selection_as_claimed h p dReach fReach)"
      using pref order num by blast
  qed
  have b: "\<exists>db fb. selection_flags net cfg s = (truthy_base db, truthy_base fb)
         \<and> search_result net (DILITHIUM_BASES cfg) db
         \<and> search_result net (FALCON_BASES cfg) fb"
    using selection_flags_result[of net cfg s] by blast
  have c: "quiet net w \<and> [] \<notin> set (DILITHIUM_BASES cfg) \<and> [] \<notin> set (FALCON_BASES cfg) \<longrightarrow>
        selection_flags net cfg (w, tr)
          = (reachable net w (DILITHIUM_BASES cfg), reachable net w (FALCON_BASES cfg))"
    using selection_flags_quiet[of net w cfg tr] by blast
  show ?thesis using a b c by blast
qed

lemma sample_worlds:
  "dilithium_up healthy" "falcon_up healthy"
  "dilithium_up falcon_down" "\<not> falcon_up falcon_down"
  "\<not> dilithium_up dilithium_down" "falcon_up dilithium_down"
  "\<not> dilithium_up signatures_down" "\<not> falcon_up signatures_down"
  by (simp_all add: healthy_def falcon_down_def dilithium_down_def signatures_down_def)

lemma sample_selection:
  "fst (selectSigScheme sample_net sample_config h p (w, tr))
     = selectSigScheme_policy h p (dilithium_up w) (falcon_up w)"
  using selection_flags_quiet[OF sample_quiet sample_candidates, of w tr]
  by (simp add: selectSigScheme_flags sample_reachable)

theorem selectSigScheme_decision_order_witness:
  "fst (selectSigScheme sample_net sample_config (JNum (Fin 4096)) (JStr ''falcon'')
          (healthy, [])) = Inr Falcon
   \<and> fst (selectSigScheme sample_net sample_config (JNum (Fin 512)) (JStr ''dilithium'')
            (healthy, [])) = Inr Dilithium
   \<and> fst (selectSigScheme sample_net sample_config (JStr ''512'') (JStr ''falcon'')
            (falcon_down, [])) = Inr Dilithium
   \<and> fst (selectSigScheme sample_net sample_config (JStr ''512'') JUndefined
            (healthy, [])) = Inr Falcon
   \<and> fst (selectSigScheme sample_net sample_config (JNum (Fin 4096)) JUndefined
            (healthy, [])) = Inr Dilithium
   \<and> fst (selectSigScheme sample_net sample_config (JNum (Fin 4096)) (JStr ''dilithium'')
            (dilithium_down, [])) = Inr Falcon
   \<and> fst (selectSigScheme sample_net sample_config JUndefined (JStr ''falcon'')
            (signatures_down, [])) = Inl (Error ''No signature service reachable'')
   \<and> fst (selectSigScheme sample_net sample_config (JNum (Fin 512)) JUndefined
            (healthy, [])) = selection_as_claimed (JNum (Fin 512)) JUndefined True True"
proof -
  have q: "quiet sample_net w \<and> [] \<notin> set (DILITHIUM_BASES sample_config)
      \<and> [] \<notin> set (FALCON_BASES sample_config)" for w
    using sample_quiet sample_candidates by simp
  note t = selectSigScheme_decision_order [where net = sample_net and cfg = sample_config]
  have hyp: "selection_flags sample_net sample_config (w, [])
               = (dilithium_up w, falcon_up w)" for w
    using t [where w = w and tr = "[]"] q[of w] by (simp add: sample_reachable)
  note t1 = t [where s = "(healthy, [])" and dReach = "dilithium_up healthy"
      and fReach = "falcon_up healthy" and h = "JNum (Fin 4096)" and p = "JStr ''falcon''"]
  note t2 = t [where s = "(healthy, [])" and dReach = "dilithium_up healthy"
      and fReach = "falcon_up healthy" and h = "JNum (Fin 512)" and p = "JStr ''dilithium''"]
  note t3 = t [where s = "(falcon_down, [])" and dReach = "dilithium_up falcon_down"
      and fReach = "falcon_up falcon_down" and h = "JStr ''512''" and p = "JStr ''falcon''"]
  note t4 = t [where s = "(healthy, [])" and dReach = "dilithium_up healthy"
      and fReach = "falcon_up healthy" and h = "JStr ''512''" and p = JUndefined]
  note t5 = t [where s = "(healthy, [])" and dReach = "dilithium_up healthy"
      and fReach = "falcon_up healthy" and h = "JNum (Fin 4096)" and p = JUndefined]
  note t6 = t [where s = "(dilithium_down, [])" and dReach = "dilithium_up dilithium_down"
      and fReach = "falcon_up dilithium_down" and h = "JNum (Fin 4096)"
      and p = "JStr ''dilithium''"]
  note t7 = t [where s = "(signatures_down, [])" and dReach = "dilithium_up signatures_down"
      and fReach = "falcon_up signatures_down" and h = JUndefined and p = "JStr ''falcon''"]
  note t8 = t [where s = "(healthy, [])" and dReach = "dilithium_up healthy"
      and fReach = "falcon_up healthy" and h = "JNum (Fin 512)" and p = JUndefined]
  have c1: "fst (selectSigScheme sample_net sample_config (JNum (Fin 4096)) (JStr ''falcon'')
          (healthy, [])) = Inr Falcon"
    using t1 hyp[of healthy] sample_worlds by simp
  have c2: "fst (selectSigScheme sample_net sample_config (JNum (Fin 512)) (JStr ''dilithium'')
            (healthy, [])) = Inr Dilithium"
    using t2 hyp[of healthy] sample_worlds by simp
  have c3: "fst (selectSigScheme sample_net sample_config (JStr ''512'') (JStr ''falcon'')
            (falcon_down, [])) = Inr Dilithium"
    using t3 hyp[of falcon_down] sample_worlds
    by (simp add: preferred_reachable_def payload_tight_def)
  have c4: "fst (selectSigScheme sample_net sample_config (JStr ''512'') JUndefined
            (healthy, [])) = Inr Falcon"
    using t4 hyp[of healthy] sample_worlds
    by (simp add: preferred_reachable_def payload_tight_def str_to_number_512)
  have c5: "fst (selectSigScheme sample_net sample_config (JNum (Fin 4096)) JUndefined
            (healthy, [])) = Inr Dilithium"
    using t5 hyp[of healthy] sample_worlds
    by (simp add: preferred_reachable_def payload_tight_def)
  have c6: "fst (selectSigScheme sample_net sample_config (JNum (Fin 4096)) (JStr ''dilithium'')
            (dilithium_down, [])) = Inr Falcon"
    using t6 hyp[of dilithium_down] sample_worlds
    by (simp add: preferred_reachable_def payload_tight_def)
  have c7: "fst (selectSigScheme sample_net sample_config JUndefined (JStr ''falcon'')
            (signatures_down, [])) = Inl (Error ''No signature service reachable'')"
    using t7 hyp[of signatures_down] sample_worlds
    by (simp add: preferred_reachable_def payload_tight_def)
  have c8: "fst (selectSigScheme sample_net sample_config (JNum (Fin 512)) JUndefined
            (healthy, [])) = selection_as_claimed (JNum (Fin 512)) JUndefined True True"
    using t8 hyp[of healthy] sample_worlds by simp
  show ?thesis
    using c1 c2 c3 c4 c5 c6 c7 c8 by blast
qed

text \<open>
  As worded ("the hint is a number"), the payload rule would not apply to the string
  \<^verbatim>\<open>"512"\<close> and Dilithium would be selected when both backends are reachable and no
  preference is given; the selector returns Falcon.
\<close>

theorem selectSigScheme_string_hint_counterexample:
  "\<not> typeof_number (JStr ''512'')
   \<and> reachable sample_net healthy (DILITHIUM_BASES sample_config)
   \<and> reachable sample_net healthy (FALCON_BASES sample_config)
   \<and> selection_as_claimed (JStr ''512'') JUndefined True True = Inr Dilithium
   \<and> fst (selectSigScheme sample_net sample_config (JStr ''512'') JUndefined (healthy, []))
       = Inr Falcon"
  by (simp add: sample_selection sample_reachable sample_worlds selection_as_claimed_def
      number_hint_tight_def selectSigScheme_policy_def str_to_number_512 num_gt_def num_le_def)

subsection \<open>The rotation algorithm identifier\<close>

lemma char_eq_code: "(c = d) = ((of_char c :: nat) = of_char d)"
  by simp

lemma is_level_digit_code:
  "is_level_digit c = (49 \<le> (of_char c :: nat) \<and> (of_char c :: nat) \<le> 53)"
proof -
  have "is_level_digit c =
      (c = CHR ''1'' \<or> c = CHR ''2'' \<or> c = CHR ''3'' \<or> c = CHR ''4'' \<or> c = CHR ''5'')"
    by (simp add: is_level_digit_def)
  also have "\<dots> = ((of_char c :: nat) = 49 \<or> (of_char c :: nat) = 50 \<or> (of_char c :: nat) = 51
       \<or> (of_char c :: nat) = 52 \<or> (of_char c :: nat) = 53)"
    by (simp only: char_eq_code[of c]) simp
  also have "\<dots> = (49 \<le> (of_char c :: nat) \<and> (of_char c :: nat) \<le> 53)"
    by arith
  finally show ?thesis .
qed

lemma toLowerCase_char_level_digit: "is_level_digit (toLowerCase_char c) = is_level_digit c"
  by (auto simp: toLowerCase_char_def is_level_digit_code Let_def)

lemma set_trim: "set (trim s) \<subseteq> set s"
proof -
  have "set (trim s) = set (dropWhile is_ws (rev (dropWhile is_ws s)))"
    by (simp add: trim_def)
  also have "\<dots> \<subseteq> set (rev (dropWhile is_ws s))"
    by (rule set_dropWhileD[THEN subsetI]) 
  also have "\<dots> \<subseteq> set s"
    using set_dropWhileD[of _ is_ws s] by auto
  finally show ?thesis .
qed

lemma no_level_digit_normalized:
  assumes "\<forall>c\<in>set s. \<not> is_level_digit c"
  shows "\<forall>c\<in>set (toLowerCase (trim s)). \<not> is_level_digit c"
  using assms set_trim[of s] by (auto simp: toLowerCase_def toLowerCase_char_level_digit)

lemma leading_name_Some:
  "leading_name s = Some nm \<Longrightarrow>
     (nm = ''falcon'' \<or> nm = ''dilithium'') \<and> s = nm @ drop (length nm) s"
  unfolding leading_name_def prefix_def by (auto split: if_splits)

lemma skip_optional_split:
  "\<exists>pre. s = pre @ skip_optional P s \<and> (pre = [] \<or> (\<exists>c. pre = [c] \<and> P c))"
  by (cases s) auto

lemma match_explicit_here_sound:
  assumes "match_explicit_here s = Some (nm, d)"
  shows "(nm = ''falcon'' \<or> nm = ''dilithium'') \<and> is_level_digit d \<and>
     (\<exists>sep l v. s = nm @ sep @ l @ [d] @ v
         \<and> (sep = [] \<or> (\<exists>c. sep = [c] \<and> is_separator c)) \<and> (l = [] \<or> l = ''l''))"
proof -
  from assms have ln: "leading_name s = Some nm"
    by (auto simp: match_explicit_here_def split: option.splits list.splits if_splits)
  define r0 where "r0 = drop (length nm) s"
  define r1 where "r1 = skip_optional is_separator r0"
  define r2 where "r2 = skip_optional (\<lambda>c. c = CHR ''l'') r1"
  from assms ln obtain v where r2: "r2 = d # v" and d: "is_level_digit d"
    unfolding r2_def r1_def r0_def
    by (auto simp: match_explicit_here_def split: option.splits list.splits if_splits)
  from leading_name_Some[OF ln] have nm: "nm = ''falcon'' \<or> nm = ''dilithium''"
    and s: "s = nm @ r0"
    unfolding r0_def by auto
  obtain sep where sep: "r0 = sep @ r1" "sep = [] \<or> (\<exists>c. sep = [c] \<and> is_separator c)"
    unfolding r1_def using skip_optional_split[of r0 is_separator] by blast
  obtain l where l: "r1 = l @ r2" "l = [] \<or> (\<exists>c. l = [c] \<and> c = CHR ''l'')"
    unfolding r2_def using skip_optional_split[of r1 "\<lambda>c. c = CHR ''l''"] by blast
  have "s = nm @ sep @ l @ [d] @ v"
    using s sep(1) l(1) r2 by simp
  moreover have "l = [] \<or> l = ''l''" using l(2) by auto
  ultimately show ?thesis using nm d sep(2) by blast
qed

lemma match_explicit_sound:
  "match_explicit s = Some (nm, d) \<Longrightarrow>
     (nm = ''falcon'' \<or> nm = ''dilithium'') \<and> is_level_digit d \<and> d \<in> set s
     \<and> holds_explicit_level s"
proof (induction s)
  case Nil
  then show ?case by simp
next
  case (Cons c cs)
  show ?case
  proof (cases "match_explicit_here (c # cs)")
    case None
    with Cons.prems have "match_explicit cs = Some (nm, d)" by simp
    from Cons.IH[OF this] have nd: "nm = ''falcon'' \<or> nm = ''dilithium''" "is_level_digit d"
      "d \<in> set cs" and h: "holds_explicit_level cs"
      by auto
    from h obtain u nm' sep l d' v where
      "cs = u @ nm' @ sep @ l @ [d'] @ v" and rest: "nm' = ''falcon'' \<or> nm' = ''dilithium''"
      "sep = [] \<or> (\<exists>c. sep = [c] \<and> is_separator c)" "l = [] \<or> l = ''l''" "is_level_digit d'"
      unfolding holds_explicit_level_def by blast
    then have "c # cs = (c # u) @ nm' @ sep @ l @ [d'] @ v" by simp
    with rest have "holds_explicit_level (c # cs)"
      unfolding holds_explicit_level_def by blast
    then show ?thesis using nd by simp
  next
    case (Some m)
    with Cons.prems have here: "match_explicit_here (c # cs) = Some (nm, d)" by simp
    from match_explicit_here_sound[OF here] obtain sep l v where
      nd: "nm = ''falcon'' \<or> nm = ''dilithium''" "is_level_digit d"
      and dec: "c # cs = nm @ sep @ l @ [d] @ v"
      "sep = [] \<or> (\<exists>c. sep = [c] \<and> is_separator c)" "l = [] \<or> l = ''l''"
      by blast
    from dec(1) have "c # cs = [] @ nm @ sep @ l @ [d] @ v" by simp
    with nd dec(2,3) have "holds_explicit_level (c # cs)"
      unfolding holds_explicit_level_def by blast
    moreover have "d \<in> set (c # cs)"
      by (subst dec(1)) simp
    ultimately show ?thesis using nd by simp
  qed
qed

lemma level_digit_not_letter:
  "is_level_digit d \<Longrightarrow> \<not> is_separator d \<and> d \<noteq> CHR ''l''"
  by (auto simp: is_level_digit_def is_separator_def)

lemma match_explicit_here_complete:
  assumes nm: "nm = ''falcon'' \<or> nm = ''dilithium''"
    and sep: "sep = [] \<or> (\<exists>c. sep = [c] \<and> is_separator c)"
    and l: "l = [] \<or> l = ''l''"
    and d: "is_level_digit d"
  shows "match_explicit_here (nm @ sep @ l @ [d] @ v) = Some (nm, d)"
proof -
  have ln: "leading_name (nm @ sep @ l @ d # v) = Some nm"
    using nm by (auto simp: leading_name_def)
  have sepl: "\<not> is_separator (CHR ''l'')"
    by (simp add: is_separator_def)
  have s1: "skip_optional is_separator (sep @ l @ d # v) = l @ d # v"
    using sep l level_digit_not_letter[OF d] sepl by auto
  have s2: "skip_optional (\<lambda>c. c = CHR ''l'') (l @ d # v) = d # v"
    using l level_digit_not_letter[OF d] by auto
  show ?thesis
    using d by (simp add: match_explicit_here_def ln s1 s2)
qed

lemma match_explicit_complete:
  "holds_explicit_level s \<Longrightarrow> match_explicit s \<noteq> None"
proof -
  assume "holds_explicit_level s"
  then obtain u nm sep l d v where s: "s = u @ nm @ sep @ l @ [d] @ v"
    and nm: "nm = ''falcon'' \<or> nm = ''dilithium''"
    and sep: "sep = [] \<or> (\<exists>c. sep = [c] \<and> is_separator c)"
    and l: "l = [] \<or> l = ''l''" and d: "is_level_digit d"
    unfolding holds_explicit_level_def by blast
  have here: "match_explicit_here (nm @ sep @ l @ [d] @ v) = Some (nm, d)"
    by (rule match_explicit_here_complete[OF nm sep l d])
  have ne: "nm @ sep @ l @ [d] @ v \<noteq> []" by simp
  have "match_explicit (u @ nm @ sep @ l @ [d] @ v) \<noteq> None"
  proof (induction u)
    case Nil
    from ne obtain c cs where "nm @ sep @ l @ [d] @ v = c # cs"
      by (cases "nm @ sep @ l @ [d] @ v") auto
    then show ?case using here by simp
  next
    case (Cons a u)
    then show ?case by (auto split: option.splits)
  qed
  then show ?thesis using s by simp
qed

lemma decimal_digit_level:
  "1 \<le> n \<Longrightarrow> n \<le> 5 \<Longrightarrow> \<exists>d. decimal_digit n = [d] \<and> is_level_digit d"
proof -
  assume "1 \<le> n" "n \<le> 5"
  then have "n = 1 \<or> n = 2 \<or> n = 3 \<or> n = 4 \<or> n = 5" by arith
  then show ?thesis
    by (auto simp: decimal_digit_def is_level_digit_def)
qed

lemma scheme_name_cases: "scheme_name sch = ''falcon'' \<or> scheme_name sch = ''dilithium''"
  by (cases sch) auto

lemma default_algorithm_id:
  "\<exists>nm d. default_algorithm sch = algorithm_id nm d
     \<and> (nm = ''falcon'' \<or> nm = ''dilithium'') \<and> is_level_digit d"
  by (cases sch) (auto simp: default_algorithm_def algorithm_id_def is_level_digit_def)

lemma derive_string:
  "deriveRotationAlgorithm sch (JStr s) =
     (case match_explicit (toLowerCase (trim s)) of
        Some (nm, d) \<Rightarrow> algorithm_id nm d
      | None \<Rightarrow> (case find is_level_digit (toLowerCase (trim s)) of
                   Some d \<Rightarrow> algorithm_id (scheme_name sch) d
                 | None \<Rightarrow> default_algorithm sch))"
  by (simp add: deriveRotationAlgorithm_def default_algorithm_def algorithm_id_def Let_def
      split: option.splits)

lemma derive_number:
  "deriveRotationAlgorithm sch (JNum (Fin x)) =
     scheme_name sch @ ''-l'' @ decimal_digit (min 5 (max 1 (Math_round x)))"
  by (simp add: deriveRotationAlgorithm_def Let_def)

lemma derive_other:
  "(\<forall>x. hint \<noteq> JNum (Fin x)) \<Longrightarrow> (\<forall>s. hint \<noteq> JStr s) \<Longrightarrow>
     deriveRotationAlgorithm sch hint = default_algorithm sch"
  by (auto simp: deriveRotationAlgorithm_def default_algorithm_def Let_def
      split: jsval.splits jsnum.splits)

lemma derive_is_algorithm_id:
  "\<exists>nm d. deriveRotationAlgorithm sch hint = algorithm_id nm d
     \<and> (nm = ''falcon'' \<or> nm = ''dilithium'') \<and> is_level_digit d"
proof (cases "\<exists>x. hint = JNum (Fin x)")
  case True
  then obtain x where x: "hint = JNum (Fin x)" by blast
  obtain d where "decimal_digit (min 5 (max 1 (Math_round x))) = [d]" "is_level_digit d"
    using decimal_digit_level[of "min 5 (max 1 (Math_round x))"] by auto
  then show ?thesis
    using scheme_name_cases[of sch] by (auto simp: x derive_number algorithm_id_def)
next
  case nonum: False
  show ?thesis
  proof (cases "\<exists>s. hint = JStr s")
    case True
    then obtain s where s: "hint = JStr s" by blast
    show ?thesis
    proof (cases "match_explicit (toLowerCase (trim s))")
      case (Some m)
      obtain nm d where m: "m = (nm, d)" by (cases m)
      from match_explicit_sound[of "toLowerCase (trim s)" nm d] Some m
      show ?thesis by (auto simp: s derive_string)
    next
      case None
      show ?thesis
      proof (cases "find is_level_digit (toLowerCase (trim s))")
        case (Some d)
        then have "is_level_digit d" by (auto simp: find_Some_iff)
        then show ?thesis
          using None Some scheme_name_cases[of sch] by (auto simp: s derive_string)
      next
        case nofind: None
        then show ?thesis
          using None default_algorithm_id[of sch] by (simp add: s derive_string)
      qed
    qed
  next
    case False
    then show ?thesis
      using nonum derive_other[of hint sch] default_algorithm_id[of sch] by auto
  qed
qed

lemma clamp_round:
  fixes x :: rat
  defines "n \<equiv> min 5 (max 1 (Math_round x))"
  shows "1 \<le> n \<and> n \<le> 5 \<and> (x < 3 / 2 \<longrightarrow> n = 1) \<and> (9 / 2 \<le> x \<longrightarrow> n = 5)
     \<and> (3 / 2 \<le> x \<and> x < 9 / 2 \<longrightarrow> of_int n - 1 / 2 \<le> x \<and> x < of_int n + 1 / 2)"
proof -
  have fl: "of_int (Math_round x) \<le> x + 1 / 2" "x + 1 / 2 < of_int (Math_round x) + 1"
    unfolding Math_round_def by linarith+
  have lo: "x < 3 / 2 \<Longrightarrow> Math_round x \<le> 1"
    unfolding Math_round_def by (simp add: floor_le_iff) 
  have hi: "9 / 2 \<le> x \<Longrightarrow> 5 \<le> Math_round x"
    unfolding Math_round_def by (simp add: le_floor_iff)
  have mid1: "3 / 2 \<le> x \<Longrightarrow> 2 \<le> Math_round x"
    unfolding Math_round_def by (simp add: le_floor_iff)
  have mid2: "x < 9 / 2 \<Longrightarrow> Math_round x \<le> 4"
    unfolding Math_round_def by (simp add: floor_le_iff)
  show ?thesis
    unfolding n_def using fl lo hi mid1 mid2 by (auto simp: min_def max_def)
qed

text \<open>
  C8. For either scheme and any level hint the identifier is \<^verbatim>\<open><name>-l<n>\<close> with a
  scheme name and a level from 1 to 5. A finite number is rounded to the nearest
  integer (a half upwards) and clamped to 1..5, and gives \<^verbatim>\<open><scheme>-l<n>\<close>. A string is
  trimmed and lower-cased; if it holds an explicit scheme and level the identifier is
  an explicit one read from it (the leftmost), otherwise its first digit from 1 to 5
  is the level of the given scheme, and a string without such a digit gives the
  default. Any other hint (none, \<^verbatim>\<open>null\<close>, NaN, an infinity, a boolean, an object) gives
  the default, which is \<^verbatim>\<open>dilithium-l3\<close> for Dilithium and \<^verbatim>\<open>falcon-l5\<close> for Falcon.
\<close>

theorem deriveRotationAlgorithm_levels:
  "(\<exists>nm d. deriveRotationAlgorithm sch hint = algorithm_id nm d
       \<and> (nm = ''falcon'' \<or> nm = ''dilithium'') \<and> is_level_digit d)
   \<and> (\<exists>n. 1 \<le> n \<and> n \<le> 5
         \<and> deriveRotationAlgorithm sch (JNum (Fin x)) = scheme_name sch @ ''-l'' @ decimal_digit n
         \<and> (x < 3 / 2 \<longrightarrow> n = 1) \<and> (9 / 2 \<le> x \<longrightarrow> n = 5)
         \<and> (3 / 2 \<le> x \<and> x < 9 / 2 \<longrightarrow> of_int n - 1 / 2 \<le> x \<and> x < of_int n + 1 / 2))
   \<and> (match_explicit (toLowerCase (trim s)) = Some (nm', d') \<longrightarrow>
         deriveRotationAlgorithm sch (JStr s) = algorithm_id nm' d')
   \<and> (holds_explicit_level (toLowerCase (trim s)) \<longrightarrow>
         (\<exists>nm d. match_explicit (toLowerCase (trim s)) = Some (nm, d)
            \<and> d \<in> set (toLowerCase (trim s))
            \<and> deriveRotationAlgorithm sch (JStr s) = algorithm_id nm d))
   \<and> (\<not> holds_explicit_level (toLowerCase (trim s))
        \<and> find is_level_digit (toLowerCase (trim s)) = Some d' \<longrightarrow>
         deriveRotationAlgorithm sch (JStr s) = algorithm_id (scheme_name sch) d')
   \<and> ((\<forall>c\<in>set s. \<not> is_level_digit c) \<longrightarrow>
         deriveRotationAlgorithm sch (JStr s) = default_algorithm sch)
   \<and> ((\<forall>y. hint \<noteq> JNum (Fin y)) \<and> (\<forall>t. hint \<noteq> JStr t) \<longrightarrow>
         deriveRotationAlgorithm sch hint = default_algorithm sch)
   \<and> default_algorithm Dilithium = ''dilithium-l3'' \<and> default_algorithm Falcon = ''falcon-l5''"
proof -
  let ?t = "toLowerCase (trim s)"
  have a: "\<exists>nm d. deriveRotationAlgorithm sch hint = algorithm_id nm d
       \<and> (nm = ''falcon'' \<or> nm = ''dilithium'') \<and> is_level_digit d"
    by (rule derive_is_algorithm_id)
  have b: "\<exists>n. 1 \<le> n \<and> n \<le> 5
         \<and> deriveRotationAlgorithm sch (JNum (Fin x)) = scheme_name sch @ ''-l'' @ decimal_digit n
         \<and> (x < 3 / 2 \<longrightarrow> n = 1) \<and> (9 / 2 \<le> x \<longrightarrow> n = 5)
         \<and> (3 / 2 \<le> x \<and> x < 9 / 2 \<longrightarrow> of_int n - 1 / 2 \<le> x \<and> x < of_int n + 1 / 2)"
    using clamp_round[of x] derive_number[of sch x] by blast
  have c1: "match_explicit ?t = Some (nm', d') \<longrightarrow>
         deriveRotationAlgorithm sch (JStr s) = algorithm_id nm' d'"
    by (simp add: derive_string)
  have c2: "holds_explicit_level ?t \<longrightarrow>
         (\<exists>nm d. match_explicit ?t = Some (nm, d) \<and> d \<in> set ?t
            \<and> deriveRotationAlgorithm sch (JStr s) = algorithm_id nm d)"
  proof
    assume "holds_explicit_level ?t"
    then obtain nm d where m: "match_explicit ?t = Some (nm, d)"
      using match_explicit_complete[of ?t] by auto
    moreover have "d \<in> set ?t" using match_explicit_sound[OF m] by simp
    ultimately show "\<exists>nm d. match_explicit ?t = Some (nm, d) \<and> d \<in> set ?t
            \<and> deriveRotationAlgorithm sch (JStr s) = algorithm_id nm d"
      by (auto simp: derive_string)
  qed
  have none: "\<not> holds_explicit_level ?t \<Longrightarrow> match_explicit ?t = None"
  proof (rule ccontr)
    assume h: "\<not> holds_explicit_level ?t" and "match_explicit ?t \<noteq> None"
    then obtain nm d where "match_explicit ?t = Some (nm, d)" by auto
    from match_explicit_sound[OF this] h show False by simp
  qed
  have c3: "\<not> holds_explicit_level ?t \<and> find is_level_digit ?t = Some d' \<longrightarrow>
         deriveRotationAlgorithm sch (JStr s) = algorithm_id (scheme_name sch) d'"
    using none by (auto simp: derive_string)
  have c4: "(\<forall>c\<in>set s. \<not> is_level_digit c) \<longrightarrow>
         deriveRotationAlgorithm sch (JStr s) = default_algorithm sch"
  proof
    assume "\<forall>c\<in>set s. \<not> is_level_digit c"
    then have nd: "\<forall>c\<in>set ?t. \<not> is_level_digit c"
      by (rule no_level_digit_normalized)
    have "match_explicit ?t = None"
    proof (rule ccontr)
      assume "match_explicit ?t \<noteq> None"
      then obtain nm d where "match_explicit ?t = Some (nm, d)" by auto
      from match_explicit_sound[OF this] nd show False by blast
    qed
    moreover have "find is_level_digit ?t = None"
      using nd by (simp add: find_None_iff)
    ultimately show "deriveRotationAlgorithm sch (JStr s) = default_algorithm sch"
      by (simp add: derive_string)
  qed
  have d: "(\<forall>y. hint \<noteq> JNum (Fin y)) \<and> (\<forall>t. hint \<noteq> JStr t) \<longrightarrow>
         deriveRotationAlgorithm sch hint = default_algorithm sch"
    using derive_other[of hint sch] by blast
  have e: "default_algorithm Dilithium = ''dilithium-l3''" "default_algorithm Falcon = ''falcon-l5''"
    by (simp_all add: default_algorithm_def)
  show ?thesis
    using a b c1 c2 c3 c4 d e by blast
qed

theorem deriveRotationAlgorithm_levels_witness:
  "deriveRotationAlgorithm Falcon (JStr '' Dilithium_L2 '') = ''dilithium-l2''
   \<and> deriveRotationAlgorithm Falcon (JStr ''aes256'') = ''falcon-l2''
   \<and> deriveRotationAlgorithm Dilithium (JStr ''high'') = ''dilithium-l3''
   \<and> deriveRotationAlgorithm Falcon JNull = ''falcon-l5''
   \<and> deriveRotationAlgorithm Dilithium (JNum (Fin (5 / 2))) = ''dilithium-l3''
   \<and> deriveRotationAlgorithm Falcon (JNum (Fin 77)) = ''falcon-l5''
   \<and> deriveRotationAlgorithm Falcon (JNum (Fin (- 3))) = ''falcon-l1''"
proof -
  have n1: "toLowerCase (trim '' Dilithium_L2 '') = ''dilithium_l2''"
    by code_simp
  have m1: "match_explicit ''dilithium_l2'' = Some (''dilithium'', CHR ''2'')"
    by code_simp
  have n2: "toLowerCase (trim ''aes256'') = ''aes256''"
    by code_simp
  have m2: "match_explicit ''aes256'' = None"
    by code_simp
  have f2: "find is_level_digit ''aes256'' = Some (CHR ''2'')"
    by (simp add: is_level_digit_def)
  have h2: "\<not> holds_explicit_level (toLowerCase (trim ''aes256''))"
    using match_explicit_complete[of "''aes256''"] m2 n2 by auto
  have d3: "\<forall>c\<in>set ''high''. \<not> is_level_digit c"
    by (simp add: is_level_digit_def)
  note t1 = deriveRotationAlgorithm_levels
    [of Falcon JNull "5 / 2" "'' Dilithium_L2 ''" "''dilithium''" "CHR ''2''"]
  note t2 = deriveRotationAlgorithm_levels
    [of Falcon JNull 77 "''aes256''" "''dilithium''" "CHR ''2''"]
  note t3 = deriveRotationAlgorithm_levels
    [of Dilithium JNull "5 / 2" "''high''" "''dilithium''" "CHR ''2''"]
  note t4 = deriveRotationAlgorithm_levels
    [of Falcon JNull "- 3" "''high''" "''dilithium''" "CHR ''2''"]
  have c1: "deriveRotationAlgorithm Falcon (JStr '' Dilithium_L2 '') = ''dilithium-l2''"
    using t1 n1 m1 by (simp add: algorithm_id_def)
  have c2: "deriveRotationAlgorithm Falcon (JStr ''aes256'') = ''falcon-l2''"
    using t2 h2 f2 n2 by (simp add: algorithm_id_def)
  have c3: "deriveRotationAlgorithm Dilithium (JStr ''high'') = ''dilithium-l3''"
    using t3 d3 by simp
  have c4: "deriveRotationAlgorithm Falcon JNull = ''falcon-l5''"
    using t1 by simp
  from t3 obtain n :: int where
    "deriveRotationAlgorithm Dilithium (JNum (Fin (5 / 2)))
       = scheme_name Dilithium @ ''-l'' @ decimal_digit n"
    "(3 / 2 \<le> (5 / 2 :: rat) \<and> (5 / 2 :: rat) < 9 / 2
        \<longrightarrow> of_int n - 1 / 2 \<le> (5 / 2 :: rat) \<and> (5 / 2 :: rat) < of_int n + 1 / 2)"
    by blast
  then have c5: "deriveRotationAlgorithm Dilithium (JNum (Fin (5 / 2))) = ''dilithium-l3''"
  proof -
    assume a: "deriveRotationAlgorithm Dilithium (JNum (Fin (5 / 2)))
       = scheme_name Dilithium @ ''-l'' @ decimal_digit n"
      and b: "(3 / 2 \<le> (5 / 2 :: rat) \<and> (5 / 2 :: rat) < 9 / 2
        \<longrightarrow> of_int n - 1 / 2 \<le> (5 / 2 :: rat) \<and> (5 / 2 :: rat) < of_int n + 1 / 2)"
    from b have "(of_int n :: rat) \<le> 3" "(2 :: rat) < of_int n" by auto
    then have "n \<le> 3" "2 < n" by linarith+
    then have "n = 3" by simp
    with a show ?thesis by (simp add: decimal_digit_def)
  qed
  from t2 obtain k :: int where
    "deriveRotationAlgorithm Falcon (JNum (Fin 77)) = scheme_name Falcon @ ''-l'' @ decimal_digit k"
    "9 / 2 \<le> (77 :: rat) \<longrightarrow> k = 5"
    by blast
  then have c6: "deriveRotationAlgorithm Falcon (JNum (Fin 77)) = ''falcon-l5''"
    by (simp add: decimal_digit_def)
  from t4 obtain j :: int where
    "deriveRotationAlgorithm Falcon (JNum (Fin (- 3))) = scheme_name Falcon @ ''-l'' @ decimal_digit j"
    "(- 3 :: rat) < 3 / 2 \<longrightarrow> j = 1"
    by blast
  then have c7: "deriveRotationAlgorithm Falcon (JNum (Fin (- 3))) = ''falcon-l1''"
    by (simp add: decimal_digit_def)
  show ?thesis
    using c1 c2 c3 c4 c5 c6 c7 by blast
qed

subsection \<open>The strategy chain\<close>

lemma strategy_loop_attempt:
  "strategy_loop net sch sb lvl (g # rest) lastErr s =
     (case attempt net sch sb lvl g s of
        Skipped s1 \<Rightarrow> strategy_loop net sch sb lvl rest lastErr s1
      | Rejected_by_verification err s2 \<Rightarrow> strategy_loop net sch sb lvl rest (Some err) s2
      | Verified encapRes ctx s2 \<Rightarrow> (Inr (encapRes, Some ctx, lastErr), s2)
      | Fatal err s2 \<Rightarrow> (Inl err, s2))"
  by (auto simp: attempt_def complete_def split: prod.splits sum.splits)

lemma attempt_Fatal:
  "attempt net sch sb lvl g s = Fatal err s2 \<Longrightarrow> \<not> isSignatureVerificationError err"
  by (auto simp: attempt_def split: prod.splits sum.splits if_splits)

lemma attempt_Verified:
  "attempt net sch sb lvl g s = Verified encapRes ctx s2 \<Longrightarrow> complete ctx"
  by (auto simp: attempt_def split: prod.splits sum.splits if_splits)

lemma strategy_loop_exhausted:
  "(\<exists>lastErr' s'. strategy_loop net sch sb lvl gs lastErr s = (Inr (JNull, None, lastErr'), s'))
     = exhausted net sch sb lvl gs s"
proof (induction gs arbitrary: lastErr s)
  case Nil
  then show ?case by simp
next
  case (Cons g rest)
  show ?case
    by (cases "attempt net sch sb lvl g s")
      (simp_all only: strategy_loop_attempt exhausted.simps attempt.case Cons.IH, auto)
qed

lemma strategy_loop_no_context:
  "strategy_loop net sch sb lvl gs lastErr s = (Inr (encapRes, None, lastErr'), s') \<Longrightarrow>
     encapRes = JNull"
proof (induction gs arbitrary: lastErr s)
  case Nil
  then show ?case by simp
next
  case (Cons g rest)
  from Cons.prems have
    "(case attempt net sch sb lvl g s of
        Skipped s1 \<Rightarrow> strategy_loop net sch sb lvl rest lastErr s1
      | Rejected_by_verification err s2 \<Rightarrow> strategy_loop net sch sb lvl rest (Some err) s2
      | Verified encapRes ctx s2 \<Rightarrow> (Inr (encapRes, Some ctx, lastErr), s2)
      | Fatal err s2 \<Rightarrow> (Inl err, s2)) = (Inr (encapRes, None, lastErr'), s')"
    by (simp only: strategy_loop_attempt)
  then show ?case
    using Cons.IH by (cases "attempt net sch sb lvl g s") auto
qed

lemma strategy_loop_thrown:
  "strategy_loop net sch sb lvl gs lastErr s = (Inl err, s') \<Longrightarrow>
     \<not> isSignatureVerificationError err"
proof (induction gs arbitrary: lastErr s)
  case Nil
  then show ?case by simp
next
  case (Cons g rest)
  from Cons.prems have
    "(case attempt net sch sb lvl g s of
        Skipped s1 \<Rightarrow> strategy_loop net sch sb lvl rest lastErr s1
      | Rejected_by_verification err s2 \<Rightarrow> strategy_loop net sch sb lvl rest (Some err) s2
      | Verified encapRes ctx s2 \<Rightarrow> (Inr (encapRes, Some ctx, lastErr), s2)
      | Fatal err s2 \<Rightarrow> (Inl err, s2)) = (Inl err, s')"
    by (simp only: strategy_loop_attempt)
  then show ?case
    using Cons.IH attempt_Fatal[of net sch sb lvl g s]
    by (cases "attempt net sch sb lvl g s") auto
qed

lemma strategy_loop_context_complete:
  "strategy_loop net sch sb lvl gs lastErr s = (Inr (encapRes, Some ctx, lastErr'), s') \<Longrightarrow>
     complete ctx"
proof (induction gs arbitrary: lastErr s)
  case Nil
  then show ?case by simp
next
  case (Cons g rest)
  from Cons.prems have
    "(case attempt net sch sb lvl g s of
        Skipped s1 \<Rightarrow> strategy_loop net sch sb lvl rest lastErr s1
      | Rejected_by_verification err s2 \<Rightarrow> strategy_loop net sch sb lvl rest (Some err) s2
      | Verified encapRes ctx s2 \<Rightarrow> (Inr (encapRes, Some ctx, lastErr), s2)
      | Fatal err s2 \<Rightarrow> (Inl err, s2)) = (Inr (encapRes, Some ctx, lastErr'), s')"
    by (simp only: strategy_loop_attempt)
  then show ?case
    using Cons.IH attempt_Verified[of net sch sb lvl g s]
    by (cases "attempt net sch sb lvl g s") auto
qed

lemmas sample_defs = sample_net_def sample_post_def sample_fetch_def sample_env_def healthy_def
  sample_config_def rejecting_def

lemma direct_sample:
  "direct_strategy sample_net sample_env (w, tr)
     = (Inr direct_context, (w, tr @ [direct_sign_request]))"
  by (simp add: direct_strategy_def sample_defs io_bind_def io_return_def io_throw_def
      postJSON_def signEndpoint_def nullish_def js_or_def direct_context_def
      direct_sign_request_def)

lemma bootstrap_sample:
  "bootstrap_gives_secret w \<Longrightarrow>
   bootstrap_strategy sample_net sample_env (w, tr)
     = (Inr bootstrap_context, (w, tr @ [bootstrap_request]))"
  by (simp add: bootstrap_strategy_def sample_defs io_bind_def io_return_def io_throw_def
      postJSON_def nullish_def js_or_def bootstrap_context_def bootstrap_request_def)

lemma verification_error_recognised: "isSignatureVerificationError verification_error"
  unfolding verification_error_def by code_simp

lemma no_route_not_recognised: "\<not> isSignatureVerificationError (Error ''no route'')"
  by code_simp

lemma complete_sample_contexts: "complete direct_context" "complete bootstrap_context"
  by (simp_all add: complete_def direct_context_def bootstrap_context_def)

lemma encapsulate_direct_rejected:
  "\<not> accepts_direct w \<Longrightarrow>
   postJSON sample_net (encapsulate_url ''d'') (payload Dilithium (JStr ''L5'') direct_context)
      (w, tr)
     = (Inl verification_error,
        (w, tr @ [PostJSON (encapsulate_url ''d'')
                    (payload Dilithium (JStr ''L5'') direct_context)]))"
  by (simp add: postJSON_def sample_defs encapsulate_url_def payload_def direct_context_def
      verification_error_def)

lemma encapsulate_bootstrap_verified:
  "postJSON sample_net (encapsulate_url ''d'') (payload Dilithium (JStr ''L5'') bootstrap_context)
      (w, tr)
     = (Inr encapsulation_result,
        (w, tr @ [PostJSON (encapsulate_url ''d'')
                    (payload Dilithium (JStr ''L5'') bootstrap_context)]))"
  by (simp add: postJSON_def sample_defs encapsulate_url_def payload_def bootstrap_context_def
      encapsulation_result_def)

lemma encapsulate_no_route:
  "postJSON sample_net (encapsulate_url ''x'') body (w, tr)
     = (Inl (Error ''no route''), (w, tr @ [PostJSON (encapsulate_url ''x'') body]))"
  by (simp add: postJSON_def sample_defs encapsulate_url_def)

subsection \<open>The requests a computation makes\<close>

lemma only_adds_return [simp]: "only_adds P (io_return x)"
  by (simp add: only_adds_def io_return_def)

lemma only_adds_throw [simp]: "only_adds P (io_throw e)"
  by (simp add: only_adds_def io_throw_def)

lemma only_adds_of [simp]: "only_adds P (io_of r)"
  by (simp add: only_adds_def io_of_def)

lemma only_adds_bind:
  assumes "only_adds P m" "\<And>x. only_adds P (f x)"
  shows "only_adds P (io_bind m f)"
  unfolding only_adds_def
proof
  fix s
  from assms(1) obtain n1 where n1: "snd (snd (m s)) = snd s @ n1" "\<forall>q\<in>set n1. P q"
    unfolding only_adds_def by blast
  show "\<exists>new. snd (snd (io_bind m f s)) = snd s @ new \<and> (\<forall>q\<in>set new. P q)"
  proof -
    obtain r s1 where ms: "m s = (r, s1)" by (cases "m s")
    show ?thesis
    proof (cases r)
      case (Inl e)
      then show ?thesis using ms n1 by (auto simp: io_bind_def)
    next
      case (Inr x)
      from assms(2)[of x] obtain n2 where
        n2: "snd (snd (f x s1)) = snd s1 @ n2" "\<forall>q\<in>set n2. P q"
        unfolding only_adds_def by blast
      have "snd (snd (io_bind m f s)) = snd s @ (n1 @ n2)"
        using ms Inr n1(1) n2(1) by (simp add: io_bind_def)
      moreover have "\<forall>q\<in>set (n1 @ n2). P q" using n1(2) n2(2) by auto
      ultimately show ?thesis by blast
    qed
  qed
qed

lemma only_adds_catch:
  assumes "only_adds P m" "\<And>e. only_adds P (h e)"
  shows "only_adds P (io_catch m h)"
  unfolding only_adds_def
proof
  fix s
  from assms(1) obtain n1 where n1: "snd (snd (m s)) = snd s @ n1" "\<forall>q\<in>set n1. P q"
    unfolding only_adds_def by blast
  show "\<exists>new. snd (snd (io_catch m h s)) = snd s @ new \<and> (\<forall>q\<in>set new. P q)"
  proof -
    obtain r s1 where ms: "m s = (r, s1)" by (cases "m s")
    show ?thesis
    proof (cases r)
      case (Inr x)
      then show ?thesis using ms n1 by (auto simp: io_catch_def)
    next
      case (Inl e)
      from assms(2)[of e] obtain n2 where
        n2: "snd (snd (h e s1)) = snd s1 @ n2" "\<forall>q\<in>set n2. P q"
        unfolding only_adds_def by blast
      have "snd (snd (io_catch m h s)) = snd s @ (n1 @ n2)"
        using ms Inl n1(1) n2(1) by (simp add: io_catch_def)
      moreover have "\<forall>q\<in>set (n1 @ n2). P q" using n1(2) n2(2) by auto
      ultimately show ?thesis by blast
    qed
  qed
qed

lemma only_adds_if:
  "only_adds P a \<Longrightarrow> only_adds P b \<Longrightarrow> only_adds P (if c then a else b)"
  by simp

lemma postJSON_trace: "snd (snd (postJSON net url body s)) = snd s @ [PostJSON url body]"
  by (cases s) (simp add: postJSON_def split: prod.splits)

lemma getJSON_trace: "snd (snd (getJSON net url s)) = snd s @ [GetJSON url]"
  by (cases s) (simp add: getJSON_def split: prod.splits)

lemma fetchJSON_trace: "snd (snd (fetchJSON net url s)) = snd s @ [FetchJSON url]"
  by (cases s) (simp add: fetchJSON_def split: prod.splits)

lemma only_adds_postJSON: "P (PostJSON url body) \<Longrightarrow> only_adds P (postJSON net url body)"
  by (simp add: only_adds_def postJSON_trace)

lemma only_adds_getJSON: "P (GetJSON url) \<Longrightarrow> only_adds P (getJSON net url)"
  by (simp add: only_adds_def getJSON_trace)

lemma only_adds_fetchJSON: "P (FetchJSON url) \<Longrightarrow> only_adds P (fetchJSON net url)"
  by (simp add: only_adds_def fetchJSON_trace)

lemma encapsulations_append:
  "encapsulations sb (tr @ tr') = encapsulations sb tr @ encapsulations sb tr'"
  by (induction sb tr rule: encapsulations.induct) auto

lemma encapsulations_none:
  "\<forall>q\<in>set tr. not_encapsulation sb q \<Longrightarrow> encapsulations sb tr = []"
  by (induction sb tr rule: encapsulations.induct) auto

lemma only_adds_leaves:
  "only_adds (not_encapsulation sb) g \<Longrightarrow> leaves_encapsulations sb g"
  unfolding only_adds_def leaves_encapsulations_def
  by (metis append_Nil2 encapsulations_append encapsulations_none)

lemma last_char_differs:
  assumes "last x \<noteq> CHR ''d''" "x \<noteq> []"
  shows "b @ x \<noteq> encapsulate_url sb"
proof
  assume "b @ x = encapsulate_url sb"
  then have "last (b @ x) = last (encapsulate_url sb)" by simp
  then show False using assms by (simp add: encapsulate_url_def)
qed

lemma other_endpoints [simp]:
  "b @ ''/sign'' \<noteq> encapsulate_url sb"
  "b @ ''/keys/rotate'' \<noteq> encapsulate_url sb"
  "b @ ''/falcon/sign'' \<noteq> encapsulate_url sb"
  "b @ ''/dilithium/sign'' \<noteq> encapsulate_url sb"
  "b @ ''/orchestrator/bootstrap'' \<noteq> encapsulate_url sb"
  "b @ ''/kyber/generate-keypair'' \<noteq> encapsulate_url sb"
  "b @ ''/kyber/decapsulate'' \<noteq> encapsulate_url sb"
  by (rule last_char_differs; simp)+

lemma rotation_strategy_adds:
  "only_adds (not_encapsulation sb) (rotation_strategy net env rb)"
  unfolding rotation_strategy_def Let_def
  by (intro only_adds_bind only_adds_catch only_adds_if only_adds_postJSON only_adds_getJSON
      only_adds_return only_adds_throw) simp_all

lemma direct_strategy_adds:
  "only_adds (not_encapsulation sb) (direct_strategy net env)"
  unfolding direct_strategy_def Let_def signEndpoint_def
  by (cases "scheme env = Dilithium")
    (auto intro!: only_adds_bind only_adds_if only_adds_postJSON)

lemma bootstrap_strategy_adds:
  "only_adds (not_encapsulation sb) (bootstrap_strategy net env)"
  unfolding bootstrap_strategy_def Let_def
  by (intro only_adds_bind only_adds_if only_adds_postJSON only_adds_return only_adds_throw)
    simp_all

lemma signatureStrategies_leave:
  "g \<in> set (signatureStrategies net env) \<Longrightarrow> leaves_encapsulations sb g"
  using rotation_strategy_adds direct_strategy_adds bootstrap_strategy_adds
  by (auto simp: signatureStrategies_def intro!: only_adds_leaves split: option.splits if_splits)

lemma strategy_loop_encapsulations:
  assumes "\<forall>g\<in>set gs. leaves_encapsulations sb g"
  shows "\<exists>ctxs. encapsulations sb (snd (snd (strategy_loop net sch sb lvl gs lastErr s)))
            = encapsulations sb (snd s) @ map (payload sch lvl) ctxs
          \<and> (\<forall>ctx\<in>set ctxs. complete ctx)"
  using assms
proof (induction gs arbitrary: lastErr s)
  case Nil
  show ?case by (intro exI[of _ "[]"]) simp
next
  case (Cons g rest)
  have "leaves_encapsulations sb g"
    using Cons.prems by simp
  then have leave: "encapsulations sb (snd (snd (g s))) = encapsulations sb (snd s)"
    unfolding leaves_encapsulations_def by blast
  have IH: "\<And>lastErr s. \<exists>ctxs. encapsulations sb (snd (snd (strategy_loop net sch sb lvl rest lastErr s)))
            = encapsulations sb (snd s) @ map (payload sch lvl) ctxs
          \<and> (\<forall>ctx\<in>set ctxs. complete ctx)"
    using Cons.IH Cons.prems by simp
  obtain r s1 where g: "g s = (r, s1)" by (cases "g s")
  show ?case
  proof (cases r)
    case (Inl e)
    then show ?thesis using IH[of lastErr s1] g leave by simp
  next
    case (Inr ctx)
    show ?thesis
    proof (cases "complete ctx")
      case False
      then show ?thesis using IH[of lastErr s1] g leave Inr by (simp add: complete_def)
    next
      case True
      obtain r2 s2 where p: "postJSON net (encapsulate_url sb) (payload sch lvl ctx) s1 = (r2, s2)"
        by (cases "postJSON net (encapsulate_url sb) (payload sch lvl ctx) s1")
      have e2: "encapsulations sb (snd s2) = encapsulations sb (snd s) @ [payload sch lvl ctx]"
        using postJSON_trace[of net "encapsulate_url sb" "payload sch lvl ctx" s1] p g leave
        by (simp add: encapsulations_append)
      show ?thesis
      proof (cases r2)
        case (Inr encapRes)
        have "strategy_loop net sch sb lvl (g # rest) lastErr s = (Inr (encapRes, Some ctx, lastErr), s2)"
          using g \<open>r = Inr ctx\<close> True p Inr by (simp add: complete_def)
        then show ?thesis using e2 True
          by (intro exI[of _ "[ctx]"]) simp
      next
        case (Inl err)
        show ?thesis
        proof (cases "isSignatureVerificationError err")
          case False
          have "strategy_loop net sch sb lvl (g # rest) lastErr s = (Inl err, s2)"
            using g \<open>r = Inr ctx\<close> True p Inl False by (simp add: complete_def)
          then show ?thesis using e2 True
            by (intro exI[of _ "[ctx]"]) simp
        next
          case sve: True
          have eq: "strategy_loop net sch sb lvl (g # rest) lastErr s
                 = strategy_loop net sch sb lvl rest (Some err) s2"
            using g \<open>r = Inr ctx\<close> True p Inl sve by (simp add: complete_def)
          from IH[of "Some err" s2] obtain ctxs where
            c: "encapsulations sb (snd (snd (strategy_loop net sch sb lvl rest (Some err) s2)))
                  = encapsulations sb (snd s2) @ map (payload sch lvl) ctxs"
            "\<forall>ctx\<in>set ctxs. complete ctx"
            by blast
          show ?thesis
            using eq c e2 True by (intro exI[of _ "ctx # ctxs"]) simp
        qed
      qed
    qed
  qed
qed

subsection \<open>Incomplete contexts\<close>

text \<open>
  C6. A context is complete when its signature, signer public key, KEM public key and
  KEM secret key are all present (truthy). In the strategy loop a strategy that
  produces an incomplete context is dropped without any call and the loop goes on with
  the next strategy; and every body posted to the verify-and-encapsulate endpoint by
  the loop is the payload of a complete context, for any strategies that do not post
  there themselves, in particular for the three strategies of the handler.
\<close>

theorem incomplete_context_never_submitted:
  "(getContext s = (Inr ctx, s1) \<and> \<not> complete ctx \<longrightarrow>
      strategy_loop net sch sb lvl (getContext # rest) lastErr s
        = strategy_loop net sch sb lvl rest lastErr s1)
   \<and> ((\<forall>g\<in>set gs. leaves_encapsulations sb g) \<longrightarrow>
        (\<exists>ctxs. encapsulations sb (snd (snd (strategy_loop net sch sb lvl gs lastErr s)))
                   = encapsulations sb (snd s) @ map (payload sch lvl) ctxs
                 \<and> (\<forall>c\<in>set ctxs. complete c)))
   \<and> (\<exists>ctxs. encapsulations (sigBase env)
                 (snd (snd (strategy_loop net (scheme env) (sigBase env) (baseSignerLevel env)
                              (signatureStrategies net env) None s)))
               = encapsulations (sigBase env) (snd s)
                 @ map (payload (scheme env) (baseSignerLevel env)) ctxs
             \<and> (\<forall>c\<in>set ctxs. complete c))
   \<and> complete ctx = (truthy (signature ctx) \<and> truthy (signerPublicKey ctx)
                      \<and> truthy (kyberPublicKey ctx) \<and> truthy (kyberSecretKey ctx))"
proof -
  have a: "getContext s = (Inr ctx, s1) \<and> \<not> complete ctx \<longrightarrow>
      strategy_loop net sch sb lvl (getContext # rest) lastErr s
        = strategy_loop net sch sb lvl rest lastErr s1"
    by (auto simp: complete_def)
  have b: "(\<forall>g\<in>set gs. leaves_encapsulations sb g) \<longrightarrow>
        (\<exists>ctxs. encapsulations sb (snd (snd (strategy_loop net sch sb lvl gs lastErr s)))
                   = encapsulations sb (snd s) @ map (payload sch lvl) ctxs
                 \<and> (\<forall>c\<in>set ctxs. complete c))"
    using strategy_loop_encapsulations[of gs sb net sch lvl lastErr s] by blast
  have c: "\<exists>ctxs. encapsulations (sigBase env)
                 (snd (snd (strategy_loop net (scheme env) (sigBase env) (baseSignerLevel env)
                              (signatureStrategies net env) None s)))
               = encapsulations (sigBase env) (snd s)
                 @ map (payload (scheme env) (baseSignerLevel env)) ctxs
             \<and> (\<forall>c\<in>set ctxs. complete c)"
    by (rule strategy_loop_encapsulations) (simp add: signatureStrategies_leave)
  have d: "complete ctx = (truthy (signature ctx) \<and> truthy (signerPublicKey ctx)
                      \<and> truthy (kyberPublicKey ctx) \<and> truthy (kyberSecretKey ctx))"
    by (simp add: complete_def)
  show ?thesis using a b c d by blast
qed

theorem incomplete_context_never_submitted_witness:
  "strategy_loop sample_net Dilithium ''d'' (JStr ''L5'')
      [direct_strategy sample_net anonymous_env, bootstrap_strategy sample_net sample_env]
      None (healthy, [])
     = strategy_loop sample_net Dilithium ''d'' (JStr ''L5'')
         [bootstrap_strategy sample_net sample_env] None (healthy, [direct_sign_request])
   \<and> (\<exists>ctxs. encapsulations ''d''
                 (snd (snd (strategy_loop sample_net Dilithium ''d'' (JStr ''L5'')
                    [direct_strategy sample_net anonymous_env,
                     bootstrap_strategy sample_net sample_env] None (healthy, [])))) 
               = map (payload Dilithium (JStr ''L5'')) ctxs
             \<and> list_all complete ctxs)"
proof -
  let ?ctx = "direct_context \<lparr> signerPublicKey := JUndefined \<rparr>"
  have direct: "direct_strategy sample_net anonymous_env (healthy, [])
       = (Inr ?ctx, (healthy, [direct_sign_request]))"
    by (simp add: direct_strategy_def sample_defs anonymous_env_def io_bind_def io_return_def
        io_throw_def postJSON_def signEndpoint_def nullish_def js_or_def direct_context_def
        direct_sign_request_def)
  have incomplete: "\<not> complete ?ctx"
    by (simp add: complete_def direct_context_def)
  have leave: "\<forall>g\<in>set [direct_strategy sample_net anonymous_env,
                         bootstrap_strategy sample_net sample_env].
                 leaves_encapsulations ''d'' g"
    using direct_strategy_adds bootstrap_strategy_adds by (auto intro!: only_adds_leaves)
  note t = incomplete_context_never_submitted
    [where getContext = "direct_strategy sample_net anonymous_env" and s = "(healthy, [])"
       and ctx = ?ctx and ?s1.0 = "(healthy, [direct_sign_request])" and net = sample_net
       and sch = Dilithium and sb = "''d''" and lvl = "JStr ''L5''"
       and rest = "[bootstrap_strategy sample_net sample_env]" and lastErr = None
       and gs = "[direct_strategy sample_net anonymous_env,
                  bootstrap_strategy sample_net sample_env]"]
  have c1: "strategy_loop sample_net Dilithium ''d'' (JStr ''L5'')
      [direct_strategy sample_net anonymous_env, bootstrap_strategy sample_net sample_env]
      None (healthy, [])
     = strategy_loop sample_net Dilithium ''d'' (JStr ''L5'')
         [bootstrap_strategy sample_net sample_env] None (healthy, [direct_sign_request])"
    using t direct incomplete by blast
  have c2: "\<exists>ctxs. encapsulations ''d''
                 (snd (snd (strategy_loop sample_net Dilithium ''d'' (JStr ''L5'')
                    [direct_strategy sample_net anonymous_env,
                     bootstrap_strategy sample_net sample_env] None (healthy, []))))
               = encapsulations ''d'' (snd (healthy, [])) @ map (payload Dilithium (JStr ''L5'')) ctxs
             \<and> (\<forall>c\<in>set ctxs. complete c)"
    using t leave by blast
  show ?thesis
    using c1 c2 by (simp add: list_all_iff)
qed

subsection \<open>Taking the handler apart\<close>








lemma strategy_loop_verified:
  "strategy_loop net sch sb lvl gs lastErr s = (Inr (encapRes, Some ctx, lastErr'), s') \<Longrightarrow>
     complete ctx
     \<and> (\<exists>g\<in>set gs. \<exists>s0 s1. g s0 = (Inr ctx, s1)
           \<and> postJSON net (encapsulate_url sb) (payload sch lvl ctx) s1 = (Inr encapRes, s'))"
proof (induction gs arbitrary: lastErr s)
  case Nil
  then show ?case by simp
next
  case (Cons g rest)
  obtain r s1 where g: "g s = (r, s1)" by (cases "g s")
  show ?case
  proof (cases r)
    case (Inl e)
    then have "strategy_loop net sch sb lvl (g # rest) lastErr s
        = strategy_loop net sch sb lvl rest lastErr s1"
      using g by simp
    with Cons.prems Cons.IH[of lastErr s1] have
      "complete ctx
       \<and> (\<exists>g\<in>set rest. \<exists>s0 s1. g s0 = (Inr ctx, s1)
          \<and> postJSON net (encapsulate_url sb) (payload sch lvl ctx) s1 = (Inr encapRes, s'))"
      by simp
    then show ?thesis by (simp only: list.set) blast
  next
    case (Inr c)
    show ?thesis
    proof (cases "complete c")
      case False
      then have "strategy_loop net sch sb lvl (g # rest) lastErr s
          = strategy_loop net sch sb lvl rest lastErr s1"
        using g Inr by (simp add: complete_def)
      with Cons.prems Cons.IH[of lastErr s1] have
        "complete ctx
         \<and> (\<exists>g\<in>set rest. \<exists>s0 s1. g s0 = (Inr ctx, s1)
            \<and> postJSON net (encapsulate_url sb) (payload sch lvl ctx) s1 = (Inr encapRes, s'))"
        by simp
      then show ?thesis by (simp only: list.set) blast
    next
      case True
      obtain r2 s2 where p: "postJSON net (encapsulate_url sb) (payload sch lvl c) s1 = (r2, s2)"
        by (cases "postJSON net (encapsulate_url sb) (payload sch lvl c) s1")
      show ?thesis
      proof (cases r2)
        case (Inr e)
        then have "strategy_loop net sch sb lvl (g # rest) lastErr s = (Inr (e, Some c, lastErr), s2)"
          using g \<open>r = Inr c\<close> True p by (simp add: complete_def)
        with Cons.prems have eq: "e = encapRes" "c = ctx" "s2 = s'" by auto
        have "g \<in> set (g # rest)" by simp
        moreover have "g s = (Inr ctx, s1)"
          using g \<open>r = Inr c\<close> eq by simp
        moreover have "postJSON net (encapsulate_url sb) (payload sch lvl ctx) s1
            = (Inr encapRes, s')"
          using p Inr eq by simp
        moreover have "complete ctx" using True eq by simp
        ultimately show ?thesis by blast
      next
        case (Inl err)
        show ?thesis
        proof (cases "isSignatureVerificationError err")
          case False
          then have "strategy_loop net sch sb lvl (g # rest) lastErr s = (Inl err, s2)"
            using g \<open>r = Inr c\<close> True p Inl by (simp add: complete_def)
          with Cons.prems show ?thesis by simp
        next
          case sve: True
          then have "strategy_loop net sch sb lvl (g # rest) lastErr s
                 = strategy_loop net sch sb lvl rest (Some err) s2"
            using g \<open>r = Inr c\<close> True p Inl by (simp add: complete_def)
          with Cons.prems Cons.IH[of "Some err" s2] have
            "complete ctx
             \<and> (\<exists>g\<in>set rest. \<exists>s0 s1. g s0 = (Inr ctx, s1)
                \<and> postJSON net (encapsulate_url sb) (payload sch lvl ctx) s1 = (Inr encapRes, s'))"
            by simp
          then show ?thesis by (simp only: list.set) blast
        qed
      qed
    qed
  qed
qed





subsection \<open>The strategy chain in the handler\<close>

lemma strategy_loop_last_error:
  "strategy_loop net sch sb lvl gs lastErr s = (Inr (encapRes, ctxForDecap, Some e), s') \<Longrightarrow>
   (case lastErr of Some e0 \<Rightarrow> isSignatureVerificationError e0 | None \<Rightarrow> True) \<Longrightarrow>
     isSignatureVerificationError e"
proof (induction gs arbitrary: lastErr s)
  case Nil
  then show ?case by simp
next
  case (Cons g rest)
  from Cons.prems(1) have eq:
    "(case attempt net sch sb lvl g s of
        Skipped s1 \<Rightarrow> strategy_loop net sch sb lvl rest lastErr s1
      | Rejected_by_verification err s2 \<Rightarrow> strategy_loop net sch sb lvl rest (Some err) s2
      | Verified encapRes ctx s2 \<Rightarrow> (Inr (encapRes, Some ctx, lastErr), s2)
      | Fatal err s2 \<Rightarrow> (Inl err, s2)) = (Inr (encapRes, ctxForDecap, Some e), s')"
    by (simp only: strategy_loop_attempt)
  show ?case
  proof (cases "attempt net sch sb lvl g s")
    case (Skipped s1)
    then show ?thesis using eq Cons.IH Cons.prems(2)
      by simp
  next
    case (Rejected_by_verification err s2)
    then have "isSignatureVerificationError err"
      by (auto simp: attempt_def split: prod.splits sum.splits if_splits)
    then show ?thesis
      using Rejected_by_verification eq
        Cons.IH[of "Some err" s2] by simp
  next
    case (Verified r ctx s2)
    then show ?thesis using eq Cons.prems(2)
      by simp
  next
    case (Fatal err s2)
    then show ?thesis using eq by simp
  qed
qed

lemma select_ake_chain_throws:
  "resolve net cfg body s = (Inr env, s1) \<Longrightarrow> strategy_chain net env s1 = (Inl e, s2) \<Longrightarrow>
     select_ake net cfg body s = (Reply502 e, s2)"
  by (simp add: select_ake_def select_ake_try_def Let_def io_bind_def strategy_chain_def)

lemma select_ake_chain_exhausted:
  "resolve net cfg body s = (Inr env, s1) \<Longrightarrow>
   strategy_chain net env s1 = (Inr (encapRes, None, lastErr), s2) \<Longrightarrow>
     select_ake net cfg body s = (Reply502 (exhaustion_error lastErr), s2)"
  by (simp add: select_ake_def select_ake_try_def Let_def io_bind_def strategy_chain_def
      decapsulate_and_report_def io_throw_def exhaustion_error_def)

lemma select_ake_chain_verified:
  "resolve net cfg body s = (Inr env, s1) \<Longrightarrow>
   strategy_chain net env s1 = (Inr (encapRes, Some ctx, lastErr), s2) \<Longrightarrow> truthy encapRes \<Longrightarrow>
     snd (snd (select_ake net cfg body s))
       = snd s2 @ [PostJSON (decapsulate_url (kyberBase env)) (decapsulation_body ctx encapRes)]"
  by (cases s2)
    (auto simp: select_ake_def select_ake_try_def Let_def io_bind_def strategy_chain_def
      decapsulate_and_report_def io_throw_def io_return_def io_of_def postJSON_def
      decapsulation_body_def split: prod.splits sum.splits)

lemma chain_answers:
  assumes "strategy_chain net env s1 = (Inr (encapRes, Some ctx, lastErr), s2)"
    and "answers_with_body net (sigBase env)"
  shows "truthy encapRes"
proof -
  from strategy_loop_verified[OF assms(1)[unfolded strategy_chain_def]] obtain t where
    "postJSON net (encapsulate_url (sigBase env))
       (payload (scheme env) (baseSignerLevel env) ctx) t = (Inr encapRes, s2)"
    by blast
  then obtain w w' where
    "net_postJSON net w (encapsulate_url (sigBase env))
       (payload (scheme env) (baseSignerLevel env) ctx) = (Inr encapRes, w')"
    by (cases t) (auto simp: postJSON_def split: prod.splits)
  with assms(2) show ?thesis
    unfolding answers_with_body_def by blast
qed

text \<open>
  C2 (amended). In the strategy loop, for every strategy and every list of strategies
  after it: a strategy that throws while building its context is skipped and the loop
  goes on with the next one; once a complete context is there, a verify-and-encapsulate
  call that throws an error recognised by its message text as a verification failure
  makes the loop drop the context, remember the error and go on with the next strategy;
  any other error of that call is rethrown at once, whatever strategies remain; an error
  the loop throws is never a verification failure; and the loop ends without a context
  exactly when every strategy was attempted and each was skipped or rejected.

  In the handler, once the request has resolved its backends: an error the loop throws
  is the 502 reply; a loop that ends without a context makes the request fail with the
  last verification error, or with \<^verbatim>\<open>No signature strategy succeeded\<close> when there was
  none; and when the verify-and-encapsulate endpoint never answers with an empty body,
  a loop that ends with a context is followed by the decapsulation request. So, with
  such an endpoint, the chain fails only by a fatal error or when every strategy is
  exhausted.
\<close>

theorem strategy_chain_failure_handling:
  "(getContext s = (Inl e, s1) \<longrightarrow>
      strategy_loop net sch sb lvl (getContext # rest) lastErr s
        = strategy_loop net sch sb lvl rest lastErr s1)
   \<and> (getContext s = (Inr ctx, s1) \<and> complete ctx
       \<and> postJSON net (encapsulate_url sb) (payload sch lvl ctx) s1 = (Inl err, s2) \<longrightarrow>
        (isSignatureVerificationError err \<longrightarrow>
           strategy_loop net sch sb lvl (getContext # rest) lastErr s
             = strategy_loop net sch sb lvl rest (Some err) s2)
      \<and> (\<not> isSignatureVerificationError err \<longrightarrow>
           strategy_loop net sch sb lvl (getContext # rest) lastErr s = (Inl err, s2)))
   \<and> (strategy_loop net sch sb lvl gs lastErr s = (Inl err', s') \<longrightarrow>
        \<not> isSignatureVerificationError err')
   \<and> ((\<exists>encapRes lastErr' s'. strategy_loop net sch sb lvl gs lastErr s
                               = (Inr (encapRes, None, lastErr'), s'))
        = exhausted net sch sb lvl gs s)
   \<and> (resolve net cfg body t = (Inr env, t1) \<longrightarrow>
        (strategy_chain net env t1 = (Inl fatal, t2) \<longrightarrow>
           select_ake net cfg body t = (Reply502 fatal, t2)
           \<and> \<not> isSignatureVerificationError fatal)
      \<and> (strategy_chain net env t1 = (Inr (res0, None, last0), t2) \<longrightarrow>
           select_ake net cfg body t = (Reply502 (exhaustion_error last0), t2)
           \<and> exhausted net (scheme env) (sigBase env) (baseSignerLevel env)
                (signatureStrategies net env) t1
           \<and> (case last0 of Some e0 \<Rightarrow> isSignatureVerificationError e0 | None \<Rightarrow> True))
      \<and> (strategy_chain net env t1 = (Inr (res1, Some ctx1, last1), t2)
          \<and> answers_with_body net (sigBase env) \<longrightarrow>
           truthy res1
           \<and> snd (snd (select_ake net cfg body t))
               = snd t2 @ [PostJSON (decapsulate_url (kyberBase env))
                             (decapsulation_body ctx1 res1)]))"
proof -
  have a: "getContext s = (Inl e, s1) \<longrightarrow>
      strategy_loop net sch sb lvl (getContext # rest) lastErr s
        = strategy_loop net sch sb lvl rest lastErr s1"
    by simp
  have b: "getContext s = (Inr ctx, s1) \<and> complete ctx
       \<and> postJSON net (encapsulate_url sb) (payload sch lvl ctx) s1 = (Inl err, s2) \<longrightarrow>
        (isSignatureVerificationError err \<longrightarrow>
           strategy_loop net sch sb lvl (getContext # rest) lastErr s
             = strategy_loop net sch sb lvl rest (Some err) s2)
      \<and> (\<not> isSignatureVerificationError err \<longrightarrow>
           strategy_loop net sch sb lvl (getContext # rest) lastErr s = (Inl err, s2))"
    by (simp add: complete_def)
  have c: "strategy_loop net sch sb lvl gs lastErr s = (Inl err', s') \<longrightarrow>
        \<not> isSignatureVerificationError err'"
    using strategy_loop_thrown by blast
  have d: "(\<exists>encapRes lastErr' s'. strategy_loop net sch sb lvl gs lastErr s
                               = (Inr (encapRes, None, lastErr'), s'))
        = exhausted net sch sb lvl gs s"
    using strategy_loop_exhausted[of net sch sb lvl gs lastErr s] strategy_loop_no_context
    by blast
  have h: "resolve net cfg body t = (Inr env, t1) \<longrightarrow>
        (strategy_chain net env t1 = (Inl fatal, t2) \<longrightarrow>
           select_ake net cfg body t = (Reply502 fatal, t2)
           \<and> \<not> isSignatureVerificationError fatal)
      \<and> (strategy_chain net env t1 = (Inr (res0, None, last0), t2) \<longrightarrow>
           select_ake net cfg body t = (Reply502 (exhaustion_error last0), t2)
           \<and> exhausted net (scheme env) (sigBase env) (baseSignerLevel env)
                (signatureStrategies net env) t1
           \<and> (case last0 of Some e0 \<Rightarrow> isSignatureVerificationError e0 | None \<Rightarrow> True))
      \<and> (strategy_chain net env t1 = (Inr (res1, Some ctx1, last1), t2)
          \<and> answers_with_body net (sigBase env) \<longrightarrow>
           truthy res1
           \<and> snd (snd (select_ake net cfg body t))
               = snd t2 @ [PostJSON (decapsulate_url (kyberBase env))
                             (decapsulation_body ctx1 res1)])"
  proof
    assume r: "resolve net cfg body t = (Inr env, t1)"
    have h1: "strategy_chain net env t1 = (Inl fatal, t2) \<longrightarrow>
           select_ake net cfg body t = (Reply502 fatal, t2)
           \<and> \<not> isSignatureVerificationError fatal"
      using select_ake_chain_throws[OF r, of fatal t2]
        strategy_loop_thrown[of net "scheme env" "sigBase env" "baseSignerLevel env"
          "signatureStrategies net env" None t1 fatal t2]
      by (auto simp: strategy_chain_def)
    have h2: "strategy_chain net env t1 = (Inr (res0, None, last0), t2) \<longrightarrow>
           select_ake net cfg body t = (Reply502 (exhaustion_error last0), t2)
           \<and> exhausted net (scheme env) (sigBase env) (baseSignerLevel env)
                (signatureStrategies net env) t1
           \<and> (case last0 of Some e0 \<Rightarrow> isSignatureVerificationError e0 | None \<Rightarrow> True)"
    proof
      assume l: "strategy_chain net env t1 = (Inr (res0, None, last0), t2)"
      have x: "select_ake net cfg body t = (Reply502 (exhaustion_error last0), t2)"
        using select_ake_chain_exhausted[OF r l] .
      have res0: "res0 = JNull"
        using l strategy_loop_no_context unfolding strategy_chain_def by blast
      have y: "exhausted net (scheme env) (sigBase env) (baseSignerLevel env)
                (signatureStrategies net env) t1"
        using l res0 strategy_loop_exhausted[of net "scheme env" "sigBase env"
            "baseSignerLevel env" "signatureStrategies net env" None t1]
        unfolding strategy_chain_def by blast
      have z: "case last0 of Some e0 \<Rightarrow> isSignatureVerificationError e0 | None \<Rightarrow> True"
      proof (cases last0)
        case None
        then show ?thesis by simp
      next
        case (Some e0)
        then show ?thesis
          using l strategy_loop_last_error[of net "scheme env" "sigBase env"
              "baseSignerLevel env" "signatureStrategies net env" None t1 res0 None e0 t2]
          by (simp add: strategy_chain_def)
      qed
      show "select_ake net cfg body t = (Reply502 (exhaustion_error last0), t2)
           \<and> exhausted net (scheme env) (sigBase env) (baseSignerLevel env)
                (signatureStrategies net env) t1
           \<and> (case last0 of Some e0 \<Rightarrow> isSignatureVerificationError e0 | None \<Rightarrow> True)"
        using x y z by blast
    qed
    have h3: "strategy_chain net env t1 = (Inr (res1, Some ctx1, last1), t2)
          \<and> answers_with_body net (sigBase env) \<longrightarrow>
           truthy res1
           \<and> snd (snd (select_ake net cfg body t))
               = snd t2 @ [PostJSON (decapsulate_url (kyberBase env))
                             (decapsulation_body ctx1 res1)]"
      using chain_answers[of net env t1 res1 ctx1 last1 t2]
        select_ake_chain_verified[OF r, of res1 ctx1 last1 t2]
      by blast
    show "(strategy_chain net env t1 = (Inl fatal, t2) \<longrightarrow>
           select_ake net cfg body t = (Reply502 fatal, t2)
           \<and> \<not> isSignatureVerificationError fatal)
      \<and> (strategy_chain net env t1 = (Inr (res0, None, last0), t2) \<longrightarrow>
           select_ake net cfg body t = (Reply502 (exhaustion_error last0), t2)
           \<and> exhausted net (scheme env) (sigBase env) (baseSignerLevel env)
                (signatureStrategies net env) t1
           \<and> (case last0 of Some e0 \<Rightarrow> isSignatureVerificationError e0 | None \<Rightarrow> True))
      \<and> (strategy_chain net env t1 = (Inr (res1, Some ctx1, last1), t2)
          \<and> answers_with_body net (sigBase env) \<longrightarrow>
           truthy res1
           \<and> snd (snd (select_ake net cfg body t))
               = snd t2 @ [PostJSON (decapsulate_url (kyberBase env))
                             (decapsulation_body ctx1 res1)])"
      using h1 h2 h3 by blast
  qed
  show ?thesis using a b c d h by blast
qed

theorem strategy_chain_failure_handling_witness:
  "strategy_loop sample_net Dilithium ''d'' (JStr ''L5'')
      [io_throw (Error ''no signer''), direct_strategy sample_net sample_env,
       bootstrap_strategy sample_net sample_env] None (rejecting, [])
     = (Inr (encapsulation_result, Some bootstrap_context, Some verification_error),
        (rejecting,
         [direct_sign_request,
          PostJSON (encapsulate_url ''d'') (payload Dilithium (JStr ''L5'') direct_context),
          bootstrap_request,
          PostJSON (encapsulate_url ''d'') (payload Dilithium (JStr ''L5'') bootstrap_context)]))
   \<and> strategy_loop sample_net Dilithium ''x'' (JStr ''L5'')
        [direct_strategy sample_net sample_env, bootstrap_strategy sample_net sample_env]
        None (healthy, [])
       = (Inl (Error ''no route''),
          (healthy,
           [direct_sign_request,
            PostJSON (encapsulate_url ''x'') (payload Dilithium (JStr ''L5'') direct_context)]))
   \<and> \<not> isSignatureVerificationError (Error ''no route'')
   \<and> exhausted sample_net Dilithium ''d'' (JStr ''L5'')
        [io_throw (Error ''no signer''), direct_strategy sample_net sample_env] (rejecting, [])
   \<and> select_ake (encapsulating (Inl (Error ''no route''))) sample_config JUndefined (healthy, [])
       = (Reply502 (Error ''no route''),
          (healthy, resolving @ [direct_sign_request, direct_encapsulation]))
   \<and> select_ake (encapsulating (Inl verification_error)) sample_config JUndefined (healthy, [])
       = (Reply502 verification_error,
          (healthy, resolving @ [direct_sign_request, direct_encapsulation, bootstrap_request,
                                 bootstrap_encapsulation]))
   \<and> exhausted (encapsulating (Inl verification_error)) Dilithium ''d'' (JStr ''L5'')
        (signatureStrategies (encapsulating (Inl verification_error)) sample_env)
        (healthy, resolving)
   \<and> snd (snd (select_ake sample_net sample_config JUndefined (rejecting, [])))
       = resolving @ [direct_sign_request, direct_encapsulation, bootstrap_request,
                      bootstrap_encapsulation,
                      PostJSON (decapsulate_url ''k'')
                        (decapsulation_body bootstrap_context encapsulation_result)]"
proof -
  let ?direct = "direct_strategy sample_net sample_env"
  let ?boot = "bootstrap_strategy sample_net sample_env"
  let ?s1 = "(rejecting, [direct_sign_request])"
  let ?s2 = "(rejecting, [direct_sign_request,
     PostJSON (encapsulate_url ''d'') (payload Dilithium (JStr ''L5'') direct_context)])"
  have rej: "\<not> accepts_direct rejecting" "bootstrap_gives_secret rejecting"
    by (simp_all add: rejecting_def healthy_def)
  have thrown: "io_throw (Error ''no signer'') (rejecting, []) = (Inl (Error ''no signer''), (rejecting, []))"
    by (simp add: io_throw_def)
  have direct: "?direct (rejecting, []) = (Inr direct_context, ?s1)"
    using direct_sample[of rejecting "[]"] by simp
  have rejected: "postJSON sample_net (encapsulate_url ''d'')
        (payload Dilithium (JStr ''L5'') direct_context) ?s1 = (Inl verification_error, ?s2)"
    using encapsulate_direct_rejected[OF rej(1), of "[direct_sign_request]"] by simp
  have skip: "strategy_loop sample_net Dilithium ''d'' (JStr ''L5'')
        [io_throw (Error ''no signer''), ?direct, ?boot] None (rejecting, [])
      = strategy_loop sample_net Dilithium ''d'' (JStr ''L5'') [?direct, ?boot] None (rejecting, [])"
    using strategy_chain_failure_handling
      [where getContext = "io_throw (Error ''no signer'')" and s = "(rejecting, [])"
         and e = "Error ''no signer''" and ?s1.0 = "(rejecting, [])" and net = sample_net
         and sch = Dilithium and sb = "''d''" and lvl = "JStr ''L5''"
         and rest = "[?direct, ?boot]" and lastErr = None,
       THEN conjunct1] thrown
    by blast
  have advance: "strategy_loop sample_net Dilithium ''d'' (JStr ''L5'') [?direct, ?boot] None
        (rejecting, [])
      = strategy_loop sample_net Dilithium ''d'' (JStr ''L5'') [?boot] (Some verification_error) ?s2"
    using strategy_chain_failure_handling
      [where getContext = ?direct and s = "(rejecting, [])" and ?s1.0 = ?s1
         and ctx = direct_context and net = sample_net and sch = Dilithium and sb = "''d''"
         and lvl = "JStr ''L5''" and err = verification_error and ?s2.0 = ?s2
         and rest = "[?boot]" and lastErr = None,
       THEN conjunct2, THEN conjunct1]
      direct rejected complete_sample_contexts(1) verification_error_recognised
    by blast
  have verified: "strategy_loop sample_net Dilithium ''d'' (JStr ''L5'') [?boot]
        (Some verification_error) ?s2
      = (Inr (encapsulation_result, Some bootstrap_context, Some verification_error),
        (rejecting,
         [direct_sign_request,
          PostJSON (encapsulate_url ''d'') (payload Dilithium (JStr ''L5'') direct_context),
          bootstrap_request,
          PostJSON (encapsulate_url ''d'') (payload Dilithium (JStr ''L5'') bootstrap_context)]))"
    using complete_sample_contexts(2)
    by (simp add: bootstrap_sample[OF rej(2)] encapsulate_bootstrap_verified complete_def)
  have c1: "strategy_loop sample_net Dilithium ''d'' (JStr ''L5'')
      [io_throw (Error ''no signer''), ?direct, ?boot] None (rejecting, [])
     = (Inr (encapsulation_result, Some bootstrap_context, Some verification_error),
        (rejecting,
         [direct_sign_request,
          PostJSON (encapsulate_url ''d'') (payload Dilithium (JStr ''L5'') direct_context),
          bootstrap_request,
          PostJSON (encapsulate_url ''d'') (payload Dilithium (JStr ''L5'') bootstrap_context)]))"
    using skip advance verified by simp
  have direct_h: "?direct (healthy, []) = (Inr direct_context, (healthy, [direct_sign_request]))"
    using direct_sample[of healthy "[]"] by simp
  have c2: "strategy_loop sample_net Dilithium ''x'' (JStr ''L5'') [?direct, ?boot] None (healthy, [])
       = (Inl (Error ''no route''),
          (healthy,
           [direct_sign_request,
            PostJSON (encapsulate_url ''x'') (payload Dilithium (JStr ''L5'') direct_context)]))"
    using strategy_chain_failure_handling
      [where getContext = ?direct and s = "(healthy, [])"
         and ?s1.0 = "(healthy, [direct_sign_request])"
         and ctx = direct_context and net = sample_net and sch = Dilithium and sb = "''x''"
         and lvl = "JStr ''L5''" and err = "Error ''no route''"
         and ?s2.0 = "(healthy, [direct_sign_request,
            PostJSON (encapsulate_url ''x'') (payload Dilithium (JStr ''L5'') direct_context)])"
         and rest = "[?boot]" and lastErr = None,
       THEN conjunct2, THEN conjunct1]
      direct_h complete_sample_contexts(1) no_route_not_recognised
      encapsulate_no_route[of "payload Dilithium (JStr ''L5'') direct_context" healthy
        "[direct_sign_request]"]
    by simp
  have ended: "strategy_loop sample_net Dilithium ''d'' (JStr ''L5'')
      [io_throw (Error ''no signer''), ?direct] None (rejecting, [])
      = (Inr (JNull, None, Some verification_error), ?s2)"
    using complete_sample_contexts(1) verification_error_recognised
    by (simp add: thrown direct rejected complete_def)
  have c4: "exhausted sample_net Dilithium ''d'' (JStr ''L5'')
        [io_throw (Error ''no signer''), ?direct] (rejecting, [])"
    using strategy_chain_failure_handling
      [where net = sample_net and sch = Dilithium and sb = "''d''" and lvl = "JStr ''L5''"
         and gs = "[io_throw (Error ''no signer''), ?direct]" and lastErr = None
         and s = "(rejecting, [])",
       THEN conjunct2, THEN conjunct2, THEN conjunct2, THEN conjunct1] ended
    by blast
  let ?fatal = "encapsulating (Inl (Error ''no route''))"
  let ?refusing = "encapsulating (Inl verification_error)"
  have r1: "resolve ?fatal sample_config JUndefined (healthy, [])
              = (Inr sample_env, (healthy, resolving))"
    by code_simp
  have l1: "strategy_chain ?fatal sample_env (healthy, resolving)
              = (Inl (Error ''no route''),
                 (healthy, resolving @ [direct_sign_request, direct_encapsulation]))"
    by code_simp
  have r2: "resolve ?refusing sample_config JUndefined (healthy, [])
              = (Inr sample_env, (healthy, resolving))"
    by code_simp
  have l2: "strategy_chain ?refusing sample_env (healthy, resolving)
              = (Inr (JNull, None, Some verification_error),
                 (healthy, resolving @ [direct_sign_request, direct_encapsulation,
                                        bootstrap_request, bootstrap_encapsulation]))"
    by code_simp
  have r3: "resolve sample_net sample_config JUndefined (rejecting, [])
              = (Inr sample_env, (rejecting, resolving))"
    by code_simp
  have l3: "strategy_chain sample_net sample_env (rejecting, resolving)
              = (Inr (encapsulation_result, Some bootstrap_context, Some verification_error),
                 (rejecting, resolving @ [direct_sign_request, direct_encapsulation,
                                          bootstrap_request, bootstrap_encapsulation]))"
    by code_simp
  have body: "answers_with_body sample_net (sigBase sample_env)"
    by (auto simp: answers_with_body_def sample_net_def sample_post_def sample_env_def
        encapsulate_url_def split: if_splits)
  have env: "kyberBase sample_env = ''k''"
    by (simp add: sample_env_def)
  have c5: "select_ake ?fatal sample_config JUndefined (healthy, [])
       = (Reply502 (Error ''no route''),
          (healthy, resolving @ [direct_sign_request, direct_encapsulation]))"
    using strategy_chain_failure_handling
      [where net = ?fatal and cfg = sample_config and body = JUndefined and t = "(healthy, [])"
         and env = sample_env and ?t1.0 = "(healthy, resolving)" and fatal = "Error ''no route''"
         and ?t2.0 = "(healthy, resolving @ [direct_sign_request, direct_encapsulation])",
       THEN conjunct2, THEN conjunct2, THEN conjunct2, THEN conjunct2]
      r1 l1
    by blast
  note t6 = strategy_chain_failure_handling
      [where net = ?refusing and cfg = sample_config and body = JUndefined
         and t = "(healthy, [])" and env = sample_env and ?t1.0 = "(healthy, resolving)"
         and ?res0.0 = JNull and ?last0.0 = "Some verification_error"
         and ?t2.0 = "(healthy, resolving @ [direct_sign_request, direct_encapsulation,
                                             bootstrap_request, bootstrap_encapsulation])",
       THEN conjunct2, THEN conjunct2, THEN conjunct2, THEN conjunct2]
  have c6: "select_ake ?refusing sample_config JUndefined (healthy, [])
       = (Reply502 (exhaustion_error (Some verification_error)),
          (healthy, resolving @ [direct_sign_request, direct_encapsulation, bootstrap_request,
                                 bootstrap_encapsulation]))"
    using t6 r2 l2 by blast
  have c7: "exhausted ?refusing (scheme sample_env) (sigBase sample_env)
        (baseSignerLevel sample_env) (signatureStrategies ?refusing sample_env)
        (healthy, resolving)"
    using t6 r2 l2 by blast
  have c8: "snd (snd (select_ake sample_net sample_config JUndefined (rejecting, [])))
       = snd (rejecting, resolving @ [direct_sign_request, direct_encapsulation,
                                      bootstrap_request, bootstrap_encapsulation])
         @ [PostJSON (decapsulate_url (kyberBase sample_env))
                        (decapsulation_body bootstrap_context encapsulation_result)]"
    using strategy_chain_failure_handling
      [where net = sample_net and cfg = sample_config and body = JUndefined
         and t = "(rejecting, [])" and env = sample_env and ?t1.0 = "(rejecting, resolving)"
         and ?res1.0 = encapsulation_result and ?ctx1.0 = bootstrap_context
         and ?last1.0 = "Some verification_error"
         and ?t2.0 = "(rejecting, resolving @ [direct_sign_request, direct_encapsulation,
                                               bootstrap_request, bootstrap_encapsulation])",
       THEN conjunct2, THEN conjunct2, THEN conjunct2, THEN conjunct2]
      r3 l3 body
    by blast
  have old: "strategy_loop sample_net Dilithium ''d'' (JStr ''L5'')
        [io_throw (Error ''no signer''), direct_strategy sample_net sample_env,
         bootstrap_strategy sample_net sample_env] None (rejecting, [])
       = (Inr (encapsulation_result, Some bootstrap_context, Some verification_error),
          (rejecting,
           [direct_sign_request,
            PostJSON (encapsulate_url ''d'') (payload Dilithium (JStr ''L5'') direct_context),
            bootstrap_request,
            PostJSON (encapsulate_url ''d'') (payload Dilithium (JStr ''L5'') bootstrap_context)]))
     \<and> strategy_loop sample_net Dilithium ''x'' (JStr ''L5'')
          [direct_strategy sample_net sample_env, bootstrap_strategy sample_net sample_env]
          None (healthy, [])
         = (Inl (Error ''no route''),
            (healthy,
             [direct_sign_request,
              PostJSON (encapsulate_url ''x'') (payload Dilithium (JStr ''L5'') direct_context)]))
     \<and> \<not> isSignatureVerificationError (Error ''no route'')
     \<and> exhausted sample_net Dilithium ''d'' (JStr ''L5'')
          [io_throw (Error ''no signer''), direct_strategy sample_net sample_env] (rejecting, [])"
    using c1 c2 c4 no_route_not_recognised by blast
  show ?thesis
    using old c5 c6 c7 c8 by (simp add: exhaustion_error_def sample_env_def)
qed

text \<open>
  As stated, the chain would fail only when every strategy has been exhausted. When the
  verify-and-encapsulate endpoint answers the context of the direct strategy with status
  200 and the body \<^verbatim>\<open>null\<close>, the loop ends with that context, the check after the loop
  throws \<^verbatim>\<open>No signature strategy succeeded\<close>, and the bootstrap strategy has not been
  tried.
\<close>

theorem strategy_chain_empty_answer_counterexample:
  "resolve (encapsulating (Inr JNull)) sample_config JUndefined (healthy, [])
     = (Inr sample_env, (healthy, resolving))
   \<and> signatureStrategies (encapsulating (Inr JNull)) sample_env
       = [direct_strategy (encapsulating (Inr JNull)) sample_env,
          bootstrap_strategy (encapsulating (Inr JNull)) sample_env]
   \<and> \<not> exhausted (encapsulating (Inr JNull)) Dilithium ''d'' (JStr ''L5'')
          (signatureStrategies (encapsulating (Inr JNull)) sample_env) (healthy, resolving)
   \<and> select_ake (encapsulating (Inr JNull)) sample_config JUndefined (healthy, [])
       = (Reply502 (Error ''No signature strategy succeeded''),
          (healthy, resolving @ [direct_sign_request, direct_encapsulation]))
   \<and> bootstrap_request \<notin> set (resolving @ [direct_sign_request, direct_encapsulation])"
proof -
  have a: "resolve (encapsulating (Inr JNull)) sample_config JUndefined (healthy, [])
     = (Inr sample_env, (healthy, resolving))"
    by code_simp
  have b: "signatureStrategies (encapsulating (Inr JNull)) sample_env
       = [direct_strategy (encapsulating (Inr JNull)) sample_env,
          bootstrap_strategy (encapsulating (Inr JNull)) sample_env]"
    by (simp add: signatureStrategies_def sample_env_def)
  have c: "\<not> exhausted (encapsulating (Inr JNull)) Dilithium ''d'' (JStr ''L5'')
          (signatureStrategies (encapsulating (Inr JNull)) sample_env) (healthy, resolving)"
    by code_simp
  have d: "select_ake (encapsulating (Inr JNull)) sample_config JUndefined (healthy, [])
       = (Reply502 (Error ''No signature strategy succeeded''),
          (healthy, resolving @ [direct_sign_request, direct_encapsulation]))"
    by code_simp
  have e: "bootstrap_request \<notin> set (resolving @ [direct_sign_request, direct_encapsulation])"
    by (simp add: resolving_def bootstrap_request_def direct_sign_request_def
        direct_encapsulation_def encapsulate_url_def)
  show ?thesis using a b c d e by blast
qed

subsection \<open>Comparing the shared secrets\<close>







subsection \<open>An unreachable KEM backend\<close>

lemma firstReachable_probes:
  "\<exists>pre. snd (snd (firstReachable net bases s)) = snd s @ map health_probe pre
      \<and> set pre \<subseteq> set bases"
proof (cases "fst (firstReachable net bases s)")
  case None
  then have "snd (snd (firstReachable net bases s)) = snd s @ map health_probe bases"
    using firstReachable_None_state[of net bases s] after_probes_trace[of net bases s] by simp
  then show ?thesis by blast
next
  case (Some b)
  from firstReachable_Some[OF Some] obtain pre post where
    "bases = pre @ b # post"
    "snd (firstReachable net bases s) = after_probes net (pre @ [b]) s"
    by blast
  then have "snd (snd (firstReachable net bases s)) = snd s @ map health_probe (pre @ [b])"
    "set (pre @ [b]) \<subseteq> set bases"
    using after_probes_trace[of net "pre @ [b]" s] by auto
  then show ?thesis by blast
qed

lemma only_adds_firstReachable:
  "set bases \<subseteq> set all \<Longrightarrow> only_adds (probe_of all) (io_lift (firstReachable net bases))"
  unfolding only_adds_def
proof
  fix s
  assume sub: "set bases \<subseteq> set all"
  obtain pre where p: "snd (snd (firstReachable net bases s)) = snd s @ map health_probe pre"
    "set pre \<subseteq> set bases"
    using firstReachable_probes[of net bases s] by blast
  have "snd (snd (io_lift (firstReachable net bases) s)) = snd s @ map health_probe pre"
    using p(1) by (auto simp: io_lift_def split: prod.splits)
  moreover have "\<forall>q\<in>set (map health_probe pre). probe_of all q"
    using p(2) sub by (auto simp: probe_of_def)
  ultimately show "\<exists>new. snd (snd (io_lift (firstReachable net bases) s)) = snd s @ new
      \<and> (\<forall>q\<in>set new. probe_of all q)"
    by blast
qed

lemma only_adds_selectSigScheme:
  "only_adds (probe_of (DILITHIUM_BASES cfg @ FALCON_BASES cfg @ KYBER_BASES cfg))
     (selectSigScheme net cfg h p)"
  unfolding selectSigScheme_def
  by (intro only_adds_bind only_adds_firstReachable_both) (auto simp: split_def)

lemma firstReachable_both_first:
  "\<exists>rest. snd (snd (firstReachable_both net ds fs s)) = snd s @ sent ds @ sent fs @ rest"
proof -
  obtain w tr where s: "s = (w, tr)" by (cases s)
  from firstReachable_race_adds[of net ds fs w "tr @ sent ds @ sent fs"] obtain new where
    "snd (snd (firstReachable_race net ds fs (w, tr @ sent ds @ sent fs)))
       = (tr @ sent ds @ sent fs) @ new"
    by blast
  then show ?thesis
    by (simp add: firstReachable_both_def s)
qed

lemma selectSigScheme_probes:
  "\<exists>sel. snd (snd (selectSigScheme net cfg h p s)) = snd s @ sel
      \<and> (\<forall>q\<in>set sel. probe_of (DILITHIUM_BASES cfg @ FALCON_BASES cfg) q)
      \<and> (DILITHIUM_BASES cfg \<noteq> [] \<or> FALCON_BASES cfg \<noteq> [] \<longrightarrow> sel \<noteq> [])"
proof -
  from selectSigScheme_adds[of net cfg h p s] obtain sel where
    sel: "snd (snd (selectSigScheme net cfg h p s)) = snd s @ sel"
    "set sel \<subseteq> health_probe ` (set (DILITHIUM_BASES cfg) \<union> set (FALCON_BASES cfg))"
    by blast
  from firstReachable_both_first[of net "DILITHIUM_BASES cfg" "FALCON_BASES cfg" s]
  obtain rest where
    "snd (snd (selectSigScheme net cfg h p s))
       = snd s @ sent (DILITHIUM_BASES cfg) @ sent (FALCON_BASES cfg) @ rest"
    by (auto simp: selectSigScheme_state)
  with sel(1) have "sel = sent (DILITHIUM_BASES cfg) @ sent (FALCON_BASES cfg) @ rest"
    by simp
  then have "DILITHIUM_BASES cfg \<noteq> [] \<or> FALCON_BASES cfg \<noteq> [] \<longrightarrow> sel \<noteq> []"
    by (cases "DILITHIUM_BASES cfg"; cases "FALCON_BASES cfg") auto
  moreover have "\<forall>q\<in>set sel. probe_of (DILITHIUM_BASES cfg @ FALCON_BASES cfg) q"
    using sel(2) unfolding probe_of_def by auto
  ultimately show ?thesis using sel(1) by blast
qed

lemma firstReachable_unreachable:
  "kem_unreachable net cfg \<Longrightarrow>
     firstReachable net (KYBER_BASES cfg) s = (None, after_probes net (KYBER_BASES cfg) s)"
  using firstReachable_None[of net "KYBER_BASES cfg" s]
    firstReachable_None_state[of net "KYBER_BASES cfg" s]
  by (metis kem_unreachable_def prod.collapse)

lemma resolve_unreachable:
  assumes "kem_unreachable net cfg"
  shows "resolve net cfg body =
     io_bind (selectSigScheme net cfg (body_field body ''payloadHintBytes'')
                (body_field body ''policyPreferredSig''))
       (\<lambda>sch. io_bind (io_lift (firstReachable net (KYBER_BASES cfg)))
                 (\<lambda>kb. io_throw (Error ''Kyber unreachable'')))"
proof
  fix s
  show "resolve net cfg body s =
     io_bind (selectSigScheme net cfg (body_field body ''payloadHintBytes'')
                (body_field body ''policyPreferredSig''))
       (\<lambda>sch. io_bind (io_lift (firstReachable net (KYBER_BASES cfg)))
                 (\<lambda>kb. io_throw (Error ''Kyber unreachable''))) s"
    unfolding resolve_def Let_def body_field_def
    by (auto simp: io_bind_def io_lift_def io_of_def io_throw_def
        firstReachable_unreachable[OF assms] split: prod.splits sum.splits)
qed

lemma io_bind_throws:
  "(\<And>x t. \<exists>e. fst (f x t) = Inl e) \<Longrightarrow> \<exists>e. fst (io_bind m f s) = Inl e"
  by (auto simp: io_bind_def split: prod.splits sum.splits)

lemma resolve_unreachable_throws:
  assumes "kem_unreachable net cfg"
  shows "\<exists>e. fst (resolve net cfg body s) = Inl e"
  unfolding resolve_unreachable[OF assms]
  by (intro io_bind_throws) (simp add: io_throw_def)

lemma resolve_unreachable_adds:
  assumes "kem_unreachable net cfg"
  shows "only_adds (probe_of (DILITHIUM_BASES cfg @ FALCON_BASES cfg @ KYBER_BASES cfg))
           (resolve net cfg body)"
  unfolding resolve_unreachable[OF assms]
  by (intro only_adds_bind only_adds_selectSigScheme only_adds_firstReachable only_adds_throw)
    auto

lemma select_ake_resolve_throws:
  "resolve net cfg body s = (Inl e, s1) \<Longrightarrow> select_ake net cfg body s = (Reply502 e, s1)"
  by (simp add: select_ake_def select_ake_try_def Let_def io_bind_def)

text \<open>
  C7 (amended). When no address of the KEM backend answers, every request fails with
  HTTP 502, and the only calls made are health probes of candidate addresses; no other
  call (signer metadata, signing, bootstrap, encapsulation, key generation) reaches any
  backend. The selector runs first: its calls are health probes of signature
  candidates, at least one when there is a candidate. If it returns a scheme, the KEM
  candidates are then probed, all of them in order, and the error is
  \<^verbatim>\<open>Kyber unreachable\<close>; if it throws, its error is the 502 reply and nothing further is
  called.
\<close>

theorem kem_unreachable_only_probes:
  "kem_unreachable net cfg \<longrightarrow>
     (\<exists>e. fst (select_ake net cfg body s) = Reply502 e)
     \<and> (\<exists>new. snd (snd (select_ake net cfg body s)) = snd s @ new
           \<and> (\<forall>q\<in>set new.
                 probe_of (DILITHIUM_BASES cfg @ FALCON_BASES cfg @ KYBER_BASES cfg) q))
     \<and> (\<exists>sel. snd (snd (selectSigScheme net cfg (body_field body ''payloadHintBytes'')
                            (body_field body ''policyPreferredSig'') s)) = snd s @ sel
           \<and> (\<forall>q\<in>set sel. probe_of (DILITHIUM_BASES cfg @ FALCON_BASES cfg) q)
           \<and> (DILITHIUM_BASES cfg \<noteq> [] \<or> FALCON_BASES cfg \<noteq> [] \<longrightarrow> sel \<noteq> []))
     \<and> (selectSigScheme net cfg (body_field body ''payloadHintBytes'')
            (body_field body ''policyPreferredSig'') s = (Inr sch, s1) \<longrightarrow>
          select_ake net cfg body s
            = (Reply502 (Error ''Kyber unreachable''), after_probes net (KYBER_BASES cfg) s1)
          \<and> snd (after_probes net (KYBER_BASES cfg) s1)
              = snd s1 @ map health_probe (KYBER_BASES cfg))
     \<and> (selectSigScheme net cfg (body_field body ''payloadHintBytes'')
            (body_field body ''policyPreferredSig'') s = (Inl thrown, s1) \<longrightarrow>
          select_ake net cfg body s = (Reply502 thrown, s1))"
proof
  assume u: "kem_unreachable net cfg"
  obtain r s2 where r: "resolve net cfg body s = (r, s2)"
    by (cases "resolve net cfg body s")
  from resolve_unreachable_throws[OF u, of body s] r obtain e where e: "r = Inl e"
    by auto
  have run: "select_ake net cfg body s = (Reply502 e, s2)"
    using r e by (simp add: select_ake_resolve_throws)
  have a: "\<exists>e. fst (select_ake net cfg body s) = Reply502 e"
    using run by simp
  from resolve_unreachable_adds[OF u, of body] obtain new where
    "snd (snd (resolve net cfg body s)) = snd s @ new"
    "\<forall>q\<in>set new. probe_of (DILITHIUM_BASES cfg @ FALCON_BASES cfg @ KYBER_BASES cfg) q"
    unfolding only_adds_def by blast
  then have b: "\<exists>new. snd (snd (select_ake net cfg body s)) = snd s @ new
           \<and> (\<forall>q\<in>set new.
                 probe_of (DILITHIUM_BASES cfg @ FALCON_BASES cfg @ KYBER_BASES cfg) q)"
    using run r by auto
  have c: "\<exists>sel. snd (snd (selectSigScheme net cfg (body_field body ''payloadHintBytes'')
                            (body_field body ''policyPreferredSig'') s)) = snd s @ sel
           \<and> (\<forall>q\<in>set sel. probe_of (DILITHIUM_BASES cfg @ FALCON_BASES cfg) q)
           \<and> (DILITHIUM_BASES cfg \<noteq> [] \<or> FALCON_BASES cfg \<noteq> [] \<longrightarrow> sel \<noteq> [])"
    by (rule selectSigScheme_probes)
  have d: "selectSigScheme net cfg (body_field body ''payloadHintBytes'')
            (body_field body ''policyPreferredSig'') s = (Inr sch, s1) \<longrightarrow>
          select_ake net cfg body s
            = (Reply502 (Error ''Kyber unreachable''), after_probes net (KYBER_BASES cfg) s1)
          \<and> snd (after_probes net (KYBER_BASES cfg) s1)
              = snd s1 @ map health_probe (KYBER_BASES cfg)"
  proof
    assume sel: "selectSigScheme net cfg (body_field body ''payloadHintBytes'')
            (body_field body ''policyPreferredSig'') s = (Inr sch, s1)"
    have "resolve net cfg body s
        = (Inl (Error ''Kyber unreachable''), after_probes net (KYBER_BASES cfg) s1)"
      unfolding resolve_unreachable[OF u]
      by (simp add: io_bind_def sel io_lift_def firstReachable_unreachable[OF u] io_throw_def)
    then have "select_ake net cfg body s
            = (Reply502 (Error ''Kyber unreachable''), after_probes net (KYBER_BASES cfg) s1)"
      by (rule select_ake_resolve_throws)
    then show "select_ake net cfg body s
            = (Reply502 (Error ''Kyber unreachable''), after_probes net (KYBER_BASES cfg) s1)
          \<and> snd (after_probes net (KYBER_BASES cfg) s1)
              = snd s1 @ map health_probe (KYBER_BASES cfg)"
      by (simp add: after_probes_trace)
  qed
  have f: "selectSigScheme net cfg (body_field body ''payloadHintBytes'')
            (body_field body ''policyPreferredSig'') s = (Inl thrown, s1) \<longrightarrow>
          select_ake net cfg body s = (Reply502 thrown, s1)"
  proof
    assume sel: "selectSigScheme net cfg (body_field body ''payloadHintBytes'')
            (body_field body ''policyPreferredSig'') s = (Inl thrown, s1)"
    have "resolve net cfg body s = (Inl thrown, s1)"
      unfolding resolve_unreachable[OF u] by (simp add: io_bind_def sel)
    then show "select_ake net cfg body s = (Reply502 thrown, s1)"
      by (rule select_ake_resolve_throws)
  qed
  show "(\<exists>e. fst (select_ake net cfg body s) = Reply502 e)
     \<and> (\<exists>new. snd (snd (select_ake net cfg body s)) = snd s @ new
           \<and> (\<forall>q\<in>set new.
                 probe_of (DILITHIUM_BASES cfg @ FALCON_BASES cfg @ KYBER_BASES cfg) q))
     \<and> (\<exists>sel. snd (snd (selectSigScheme net cfg (body_field body ''payloadHintBytes'')
                            (body_field body ''policyPreferredSig'') s)) = snd s @ sel
           \<and> (\<forall>q\<in>set sel. probe_of (DILITHIUM_BASES cfg @ FALCON_BASES cfg) q)
           \<and> (DILITHIUM_BASES cfg \<noteq> [] \<or> FALCON_BASES cfg \<noteq> [] \<longrightarrow> sel \<noteq> []))
     \<and> (selectSigScheme net cfg (body_field body ''payloadHintBytes'')
            (body_field body ''policyPreferredSig'') s = (Inr sch, s1) \<longrightarrow>
          select_ake net cfg body s
            = (Reply502 (Error ''Kyber unreachable''), after_probes net (KYBER_BASES cfg) s1)
          \<and> snd (after_probes net (KYBER_BASES cfg) s1)
              = snd s1 @ map health_probe (KYBER_BASES cfg))
     \<and> (selectSigScheme net cfg (body_field body ''payloadHintBytes'')
            (body_field body ''policyPreferredSig'') s = (Inl thrown, s1) \<longrightarrow>
          select_ake net cfg body s = (Reply502 thrown, s1))"
    using a b c d f by blast
qed

lemma misconfigured_unreachable: "kem_unreachable sample_net misconfigured"
  by (auto simp: kem_unreachable_def misconfigured_def sample_config_def probe_def
      sample_net_def sample_fetch_def)

lemma misconfigured_selection:
  "selectSigScheme sample_net misconfigured (body_field JUndefined ''payloadHintBytes'')
      (body_field JUndefined ''policyPreferredSig'') (healthy, [])
     = (Inr Dilithium, (healthy, [Fetch ''d/health'', Fetch ''f/health'']))"
  by code_simp

lemma misconfigured_selection_fails:
  "selectSigScheme sample_net misconfigured (body_field JUndefined ''payloadHintBytes'')
      (body_field JUndefined ''policyPreferredSig'') (signatures_down, [])
     = (Inl (Error ''No signature service reachable''),
        (signatures_down, [Fetch ''d/health'', Fetch ''f/health'']))"
  by code_simp

lemma spread_unreachable: "kem_unreachable sample_net spread"
  by (auto simp: kem_unreachable_def spread_def probe_def sample_net_def sample_fetch_def)

lemma spread_selection:
  "selectSigScheme sample_net spread (body_field JUndefined ''payloadHintBytes'')
      (body_field JUndefined ''policyPreferredSig'') (healthy, [])
     = (Inr Dilithium, (healthy, [Fetch ''x/health'', Fetch ''f/health'', Fetch ''d/health'']))"
  by code_simp

theorem kem_unreachable_only_probes_witness:
  "select_ake sample_net misconfigured JUndefined (healthy, [])
     = (Reply502 (Error ''Kyber unreachable''),
        (healthy, [Fetch ''d/health'', Fetch ''f/health'', Fetch ''x/health'']))
   \<and> (\<exists>new. snd (snd (select_ake sample_net misconfigured JUndefined (healthy, []))) = new
         \<and> list_all (probe_of [''d'', ''f'', ''x'']) new)
   \<and> select_ake sample_net misconfigured JUndefined (signatures_down, [])
       = (Reply502 (Error ''No signature service reachable''),
          (signatures_down, [Fetch ''d/health'', Fetch ''f/health'']))
   \<and> select_ake sample_net spread JUndefined (healthy, [])
       = (Reply502 (Error ''Kyber unreachable''),
          (healthy, [Fetch ''x/health'', Fetch ''f/health'', Fetch ''d/health'',
                     Fetch ''x/health'']))"
proof -
  note t'' = kem_unreachable_only_probes
    [where net = sample_net and cfg = spread and body = JUndefined
       and s = "(healthy, [])" and sch = Dilithium
       and ?s1.0 = "(healthy, [Fetch ''x/health'', Fetch ''f/health'', Fetch ''d/health''])"]
  have after': "after_probes sample_net (KYBER_BASES spread)
        (healthy, [Fetch ''x/health'', Fetch ''f/health'', Fetch ''d/health''])
      = (healthy, [Fetch ''x/health'', Fetch ''f/health'', Fetch ''d/health'',
                   Fetch ''x/health''])"
    by (simp add: spread_def probe_def sample_net_def sample_fetch_def)
  have c4: "select_ake sample_net spread JUndefined (healthy, [])
       = (Reply502 (Error ''Kyber unreachable''),
          (healthy, [Fetch ''x/health'', Fetch ''f/health'', Fetch ''d/health'',
                     Fetch ''x/health'']))"
    using t'' spread_unreachable spread_selection after' by simp
  note t = kem_unreachable_only_probes
    [where net = sample_net and cfg = misconfigured and body = JUndefined
       and s = "(healthy, [])" and sch = Dilithium
       and ?s1.0 = "(healthy, [Fetch ''d/health'', Fetch ''f/health''])"]
  note t' = kem_unreachable_only_probes
    [where net = sample_net and cfg = misconfigured and body = JUndefined
       and s = "(signatures_down, [])"
       and thrown = "Error ''No signature service reachable''"
       and ?s1.0 = "(signatures_down, [Fetch ''d/health'', Fetch ''f/health''])"]
  have after: "after_probes sample_net (KYBER_BASES misconfigured)
        (healthy, [Fetch ''d/health'', Fetch ''f/health''])
      = (healthy, [Fetch ''d/health'', Fetch ''f/health'', Fetch ''x/health''])"
    by (simp add: misconfigured_def sample_config_def probe_def sample_net_def sample_fetch_def)
  have bases: "DILITHIUM_BASES misconfigured @ FALCON_BASES misconfigured
        @ KYBER_BASES misconfigured = [''d'', ''f'', ''x'']"
    by (simp add: misconfigured_def sample_config_def)
  have c1: "select_ake sample_net misconfigured JUndefined (healthy, [])
     = (Reply502 (Error ''Kyber unreachable''),
        (healthy, [Fetch ''d/health'', Fetch ''f/health'', Fetch ''x/health'']))"
    using t misconfigured_unreachable misconfigured_selection after by simp
  have c2: "\<exists>new. snd (snd (select_ake sample_net misconfigured JUndefined (healthy, [])))
                 = snd (healthy, []) @ new
         \<and> (\<forall>q\<in>set new. probe_of [''d'', ''f'', ''x''] q)"
    using t misconfigured_unreachable bases by simp
  have c3: "select_ake sample_net misconfigured JUndefined (signatures_down, [])
       = (Reply502 (Error ''No signature service reachable''),
          (signatures_down, [Fetch ''d/health'', Fetch ''f/health'']))"
    using t' misconfigured_unreachable misconfigured_selection_fails by blast
  show ?thesis
    using c1 c2 c3 c4 by (simp add: list_all_iff)
qed

text \<open>
  As stated, no call of any kind would reach a signature backend when the KEM backend
  is unreachable. In the sample deployment with a dead KEM address the request fails
  with \<^verbatim>\<open>Kyber unreachable\<close> after the health endpoints of both signature backends
  were called.
\<close>

theorem kem_unreachable_counterexample:
  "kem_unreachable sample_net misconfigured
   \<and> select_ake sample_net misconfigured JUndefined (healthy, [])
       = (Reply502 (Error ''Kyber unreachable''),
          (healthy, [Fetch ''d/health'', Fetch ''f/health'', Fetch ''x/health'']))
   \<and> DILITHIUM_BASES misconfigured = [''d''] \<and> FALCON_BASES misconfigured = [''f'']
   \<and> health_probe ''d'' = Fetch ''d/health'' \<and> health_probe ''f'' = Fetch ''f/health''"
proof -
  have "select_ake sample_net misconfigured JUndefined (healthy, [])
       = (Reply502 (Error ''Kyber unreachable''),
          (healthy, [Fetch ''d/health'', Fetch ''f/health'', Fetch ''x/health'']))"
    by code_simp
  then show ?thesis
    using misconfigured_unreachable
    by (simp add: misconfigured_def sample_config_def health_probe_def)
qed

subsection \<open>Scheme and reason of a result\<close>















subsection \<open>The reason of a result\<close>

text \<open>
  C3. The reason of a result does not always name the rule that selected the scheme.
  On the sample deployment:
  \<^item> with Falcon unreachable and the preference \<^verbatim>\<open>falcon\<close>, the selector falls back to
    Dilithium by the default rule, and the result carries the reason \<^verbatim>\<open>policy:falcon\<close>;
  \<^item> with Falcon unreachable and the hint 512, Dilithium is again selected by the
    default rule, and the reason is \<^verbatim>\<open>payload_tight\<close>;
  \<^item> with everything reachable and the hint -5, which the payload-size rule does not
    accept, Dilithium is selected by the default rule and the reason is
    \<^verbatim>\<open>payload_tight\<close>;
  \<^item> with everything reachable and the preference \<^verbatim>\<open>rsa\<close>, which names no backend,
    Dilithium is selected by the default rule and the reason is \<^verbatim>\<open>policy:rsa\<close>.
\<close>

theorem reason_names_rule_not_applied:
  "fst (select_ake sample_net sample_config (JObj [(''policyPreferredSig'', JStr ''falcon'')])
          (falcon_down, []))
     = Reply200 (ok_result ''dilithium'' (Policy (JStr ''falcon'')))
   \<and> fst (select_ake sample_net sample_config (JObj [(''payloadHintBytes'', JNum (Fin 512))])
            (falcon_down, []))
     = Reply200 (ok_result ''dilithium'' PayloadTight)
   \<and> fst (select_ake sample_net sample_config (JObj [(''payloadHintBytes'', JNum (Fin (- 5)))])
            (healthy, []))
     = Reply200 (ok_result ''dilithium'' PayloadTight)
   \<and> fst (select_ake sample_net sample_config (JObj [(''policyPreferredSig'', JStr ''rsa'')])
            (healthy, []))
     = Reply200 (ok_result ''dilithium'' (Policy (JStr ''rsa'')))
   \<and> selection_flags sample_net sample_config (falcon_down, []) = (True, False)
   \<and> selection_flags sample_net sample_config (healthy, []) = (True, True)"
proof -
  have a: "fst (select_ake sample_net sample_config
             (JObj [(''policyPreferredSig'', JStr ''falcon'')]) (falcon_down, []))
     = Reply200 (ok_result ''dilithium'' (Policy (JStr ''falcon'')))"
    by code_simp
  have b: "fst (select_ake sample_net sample_config
             (JObj [(''payloadHintBytes'', JNum (Fin 512))]) (falcon_down, []))
     = Reply200 (ok_result ''dilithium'' PayloadTight)"
    by code_simp
  have c: "fst (select_ake sample_net sample_config
             (JObj [(''payloadHintBytes'', JNum (Fin (- 5)))]) (healthy, []))
     = Reply200 (ok_result ''dilithium'' PayloadTight)"
    by code_simp
  have d: "fst (select_ake sample_net sample_config
             (JObj [(''policyPreferredSig'', JStr ''rsa'')]) (healthy, []))
     = Reply200 (ok_result ''dilithium'' (Policy (JStr ''rsa'')))"
    by code_simp
  have e: "selection_flags sample_net sample_config (falcon_down, []) = (True, False)"
    using selection_flags_quiet[OF sample_quiet sample_candidates, of falcon_down "[]"]
    by (simp add: sample_reachable sample_worlds)
  have f: "selection_flags sample_net sample_config (healthy, []) = (True, True)"
    using selection_flags_quiet[OF sample_quiet sample_candidates, of healthy "[]"]
    by (simp add: sample_reachable sample_worlds)
  show ?thesis using a b c d e f by blast
qed

subsection \<open>The key pair of a bootstrap context\<close>

text \<open>
  C5. A bootstrap context does not always carry a key pair from one key generation.
  On the sample deployment the orchestrator generates the pair \<^verbatim>\<open>PK0\<close>/\<^verbatim>\<open>SK0\<close>, the
  backend rejects the direct signature, and bootstrap answers with a signature and the
  public key \<^verbatim>\<open>PK1\<close> but no secret key. The bootstrap strategy then returns a context
  with the public key \<^verbatim>\<open>PK1\<close> and the secret key \<^verbatim>\<open>SK0\<close>; the handler posts \<^verbatim>\<open>PK1\<close> to
  verify-and-encapsulate, decapsulates with \<^verbatim>\<open>SK0\<close>, and answers with a result.
\<close>

theorem bootstrap_context_mixes_key_pairs:
  "bootstrap_strategy sample_net sample_env (half_bootstrap, [])
     = (Inr mixed_context, (half_bootstrap, [bootstrap_request]))
   \<and> initialKyberPublicKey sample_env = JStr ''PK0''
   \<and> initialKyberSecretKey sample_env = JStr ''SK0''
   \<and> kyberPublicKey mixed_context = JStr ''PK1''
   \<and> kyberSecretKey mixed_context = JStr ''SK0''
   \<and> fst (select_ake sample_net sample_config JUndefined (half_bootstrap, []))
       = Reply200 (ok_result ''dilithium'' DefaultOrHealth)
   \<and> drop 9 (snd (snd (select_ake sample_net sample_config JUndefined (half_bootstrap, []))))
       = [bootstrap_request,
          PostJSON ''d/orchestrator/encapsulate-verified''
            (payload Dilithium (JStr ''L5'') mixed_context),
          PostJSON ''k/kyber/decapsulate''
            (JObj [(''secretKey'', JStr ''SK0''), (''ciphertext'', JStr ''CT'')])]
   \<and> field (payload Dilithium (JStr ''L5'') mixed_context) ''kyberPublicKey'' = JStr ''PK1''"
proof -
  have a: "bootstrap_strategy sample_net sample_env (half_bootstrap, [])
     = (Inr mixed_context, (half_bootstrap, [bootstrap_request]))"
    by (simp add: bootstrap_strategy_def sample_defs io_bind_def io_return_def io_throw_def
        postJSON_def nullish_def js_or_def bootstrap_context_def bootstrap_request_def
        mixed_context_def half_bootstrap_def)
  have b: "initialKyberPublicKey sample_env = JStr ''PK0''
       \<and> initialKyberSecretKey sample_env = JStr ''SK0''"
    by (simp add: sample_env_def)
  have c: "kyberPublicKey mixed_context = JStr ''PK1''
       \<and> kyberSecretKey mixed_context = JStr ''SK0''"
    by (simp add: mixed_context_def bootstrap_context_def)
  have d: "fst (select_ake sample_net sample_config JUndefined (half_bootstrap, []))
       = Reply200 (ok_result ''dilithium'' DefaultOrHealth)"
    by code_simp
  have e: "drop 9 (snd (snd (select_ake sample_net sample_config JUndefined (half_bootstrap, []))))
       = [bootstrap_request,
          PostJSON ''d/orchestrator/encapsulate-verified''
            (payload Dilithium (JStr ''L5'') mixed_context),
          PostJSON ''k/kyber/decapsulate''
            (JObj [(''secretKey'', JStr ''SK0''), (''ciphertext'', JStr ''CT'')])]"
    by code_simp
  have f: "field (payload Dilithium (JStr ''L5'') mixed_context) ''kyberPublicKey'' = JStr ''PK1''"
    by code_simp
  show ?thesis using a b c d e f by blast
qed

end
